theory Spec2Isabelle
  imports Complex_Main
begin

section \<open>Python values: errors, lists, dictionaries, arrays\<close>

text \<open>
  Every exception of the source is a value. \<open>IndexError\<close>, \<open>KeyError\<close> and
  \<open>AttributeError\<close> come from Python's own containers and objects, \<open>ValueError\<close> and
  \<open>AxisError\<close> from numpy, and \<open>PyException\<close> is the plain \<open>Exception(msg)\<close> that the
  constructors and \<open>_loss\<close> raise themselves.  \<open>NotANumber\<close> stands for numpy's \<open>nan\<close>,
  which is a float in Python and has no counterpart among the reals.
\<close>

datatype error =
    IndexError
  | KeyError
  | ValueError
  | AxisError
  | AttributeError
  | NotANumber
  | PyException string

definition bindE :: "error + 'a \<Rightarrow> ('a \<Rightarrow> error + 'b) \<Rightarrow> error + 'b" where
  "bindE m f = (case m of Inl e \<Rightarrow> Inl e | Inr x \<Rightarrow> f x)"

text \<open>\<open>xs[i]\<close> for a Python list: a negative index counts from the end.\<close>

definition py_get :: "'a list \<Rightarrow> int \<Rightarrow> error + 'a" where
  "py_get xs i =
     (if 0 \<le> i \<and> i < int (length xs) then Inr (xs ! nat i)
      else if i < 0 \<and> - int (length xs) \<le> i then Inr (xs ! nat (int (length xs) + i))
      else Inl IndexError)"

text \<open>\<open>xs[i] = v\<close>.\<close>

definition py_set :: "'a list \<Rightarrow> int \<Rightarrow> 'a \<Rightarrow> error + 'a list" where
  "py_set xs i v =
     (if 0 \<le> i \<and> i < int (length xs) then Inr (xs[nat i := v])
      else if i < 0 \<and> - int (length xs) \<le> i then Inr (xs[nat (int (length xs) + i) := v])
      else Inl IndexError)"

text \<open>\<open>d[k]\<close> for a dict.\<close>

definition dict_get :: "('k \<rightharpoonup> 'v) \<Rightarrow> 'k \<Rightarrow> error + 'v" where
  "dict_get d k = (case d k of None \<Rightarrow> Inl KeyError | Some v \<Rightarrow> Inr v)"

text \<open>\<open>range(n)\<close> and \<open>range(a, b)\<close> on Python ints: empty when the bound is not above the start.\<close>

definition py_range :: "int \<Rightarrow> int list" where
  "py_range n = map int [0..<nat n]"

definition py_range2 :: "int \<Rightarrow> int \<Rightarrow> int list" where
  "py_range2 a b = map (\<lambda>k. a + int k) [0..<nat (b - a)]"

text \<open>\<open>for i in is: body\<close>, the loop state passed along; an exception leaves the loop.\<close>

fun for_loop :: "'i list \<Rightarrow> ('i \<Rightarrow> 's \<Rightarrow> error + 's) \<Rightarrow> 's \<Rightarrow> error + 's" where
  "for_loop [] body s = Inr s"
| "for_loop (i # is) body s =
     (case body i s of Inl e \<Rightarrow> Inl e | Inr s' \<Rightarrow> for_loop is body s')"

text \<open>
  A numpy array of floats: its shape and its elements in row-major order, which is the
  order \<open>np.ravel\<close> returns.  Floats are modelled by the reals, so rounding is not part of
  the model.
\<close>

datatype ndarray = NDArray (nd_shape: "nat list") (nd_data: "real list")

definition nd_ok :: "ndarray \<Rightarrow> bool" where
  "nd_ok a = (length (nd_data a) = prod_list (nd_shape a))"

text \<open>\<open>a.reshape(sh)\<close>: numpy refuses a shape of another size.\<close>

definition reshape :: "ndarray \<Rightarrow> nat list \<Rightarrow> error + ndarray" where
  "reshape a sh =
     (if prod_list sh = length (nd_data a) then Inr (NDArray sh (nd_data a)) else Inl ValueError)"

text \<open>\<open>np.ravel(a)\<close>: the one-dimensional array of all elements.\<close>

definition ravel :: "ndarray \<Rightarrow> ndarray" where
  "ravel a = NDArray [length (nd_data a)] (nd_data a)"

text \<open>\<open>np.zeros_like(a)\<close>.\<close>

definition zeros_like :: "ndarray \<Rightarrow> ndarray" where
  "zeros_like a = NDArray (nd_shape a) (replicate (length (nd_data a)) 0)"

text \<open>\<open>np.eye(n)[idx] * h\<close>: row \<open>idx\<close> of the identity matrix, scaled.\<close>

definition eye_row_scaled :: "nat \<Rightarrow> nat \<Rightarrow> real \<Rightarrow> ndarray" where
  "eye_row_scaled n idx h = NDArray [n] (map (\<lambda>j. (if j = idx then 1 else 0) * h) [0..<n])"

text \<open>Elementwise \<open>a + b\<close> and \<open>a - b\<close> of two one-dimensional arrays of one length.\<close>

definition vec_add :: "ndarray \<Rightarrow> ndarray \<Rightarrow> ndarray" where
  "vec_add a b = NDArray (nd_shape a) (map2 (+) (nd_data a) (nd_data b))"

definition vec_sub :: "ndarray \<Rightarrow> ndarray \<Rightarrow> ndarray" where
  "vec_sub a b = NDArray (nd_shape a) (map2 (-) (nd_data a) (nd_data b))"

section \<open>The helper functions of \<open>common/\<close>\<close>

text \<open>
  The networks import their layer mathematics from \<open>common.forward_functions\<close>,
  \<open>common.loss_funcions\<close> and \<open>common.backward_functions\<close>.  The functions of the network
  classes are modelled over any such set of helpers; a helper may raise.
  \<open>forward_middle\<close> returns the layer output \<open>Z\<close> together with the pre-activation \<open>A\<close>
  (the call with \<open>output_A=True\<close>); the call without the flag uses \<open>Z\<close> alone.
\<close>

record common =
  forward_middle :: "ndarray \<Rightarrow> ndarray \<Rightarrow> ndarray \<Rightarrow> string \<Rightarrow> error + (ndarray \<times> ndarray)"
  forward_last_classification :: "ndarray \<Rightarrow> ndarray \<Rightarrow> ndarray \<Rightarrow> error + ndarray"
  cross_entropy_error :: "ndarray \<Rightarrow> ndarray \<Rightarrow> error + real"
  squared_error :: "ndarray \<Rightarrow> ndarray \<Rightarrow> error + real"
  softmax_loss_backward :: "ndarray \<Rightarrow> ndarray \<Rightarrow> error + ndarray"
  affine_backward_bias :: "ndarray \<Rightarrow> error + ndarray"
  affine_backward_weight :: "ndarray \<Rightarrow> ndarray \<Rightarrow> error + ndarray"
  affine_backward_zprev :: "ndarray \<Rightarrow> ndarray \<Rightarrow> error + ndarray"
  relu_backward :: "ndarray \<Rightarrow> ndarray \<Rightarrow> error + ndarray"
  sigmoid_backward :: "ndarray \<Rightarrow> ndarray \<Rightarrow> error + ndarray"

section \<open>The network object\<close>

type_synonym pdict = "string \<rightharpoonup> ndarray"

text \<open>
  The attributes of \<open>SGDNeuralNet\<close> and \<open>BackpropNeuralNet\<close> (the two classes have the same
  attributes).  \<open>one_hot_encoder\<close> holds the \<open>categories_\<close> of the fitted encoder and is
  \<open>None\<close> until \<open>_one_hot_encoding\<close> has set the attribute.
\<close>

record 'a net =
  input_size :: nat
  output_size :: nat
  hidden_size :: int
  n_layers :: int
  learning_rate :: real
  batch_size :: int
  n_iter :: int
  loss_type :: string
  activation_function :: string
  weight_init_std :: real
  params :: "pdict list"
  one_hot_encoder :: "'a list list option"

text \<open>\<open>self.params[l][k]\<close> and \<open>self.params[l][k] = v\<close>.\<close>

definition param_get :: "'a net \<Rightarrow> int \<Rightarrow> string \<Rightarrow> error + ndarray" where
  "param_get s l k = bindE (py_get (params s) l) (\<lambda>d. dict_get d k)"

definition param_set :: "'a net \<Rightarrow> int \<Rightarrow> string \<Rightarrow> ndarray \<Rightarrow> error + 'a net" where
  "param_set s l k v =
     bindE (py_get (params s) l) (\<lambda>d.
     bindE (py_set (params s) l (d(k \<mapsto> v))) (\<lambda>ps.
     Inr (s\<lparr>params := ps\<rparr>)))"

section \<open>SGDNeuralNet: forward pass, loss and numerical gradient\<close>

text \<open>\<open>SGDNeuralNet._predict_onehot\<close>.\<close>

definition predict_onehot :: "common \<Rightarrow> 'a net \<Rightarrow> ndarray \<Rightarrow> error + ndarray" where
  "predict_onehot c s X =
     bindE (for_loop (py_range (n_layers s - 1))
              (\<lambda>l Z_current.
                 bindE (param_get s l ''W'') (\<lambda>W.
                 bindE (param_get s l ''b'') (\<lambda>b.
                 bindE (forward_middle c Z_current W b (activation_function s)) (\<lambda>ZA.
                 Inr (fst ZA)))))
              X) (\<lambda>Z_current.
     bindE (param_get s (n_layers s - 1) ''W'') (\<lambda>W_final.
     bindE (param_get s (n_layers s - 1) ''b'') (\<lambda>b_final.
     forward_last_classification c Z_current W_final b_final)))"

text \<open>\<open>SGDNeuralNet._loss\<close>.\<close>

definition loss :: "common \<Rightarrow> 'a net \<Rightarrow> ndarray \<Rightarrow> ndarray \<Rightarrow> error + real" where
  "loss c s X T =
     bindE (predict_onehot c s X) (\<lambda>Y.
       if loss_type s = ''cross_entropy'' then cross_entropy_error c Y T
       else if loss_type s = ''squared_error'' then squared_error c Y T
       else Inl (PyException
              ''The `loss_type` argument should be \"cross_entropy\" or \"squared_error\"''))"

text \<open>The step \<open>h = 1e-4\<close> of \<open>_numerical_gradient\<close>.\<close>

definition h_step :: real where
  "h_step = 1 / 10000"

text \<open>
  One pass of the loop of \<open>_numerical_gradient\<close> for the component \<open>idx\<close>; the loop state
  is the network object and the list behind \<open>grad\<close>.
\<close>

definition numerical_gradient_step ::
  "common \<Rightarrow> ndarray \<Rightarrow> ndarray \<Rightarrow> string \<Rightarrow> int \<Rightarrow> ndarray \<Rightarrow> nat
     \<Rightarrow> 'a net \<times> real list \<Rightarrow> error + ('a net \<times> real list)" where
  "numerical_gradient_step c X T param_name l P idx st =
     (let s = fst st; grad = snd st;
          P_ravel = ravel P;
          h_vector = eye_row_scaled (length (nd_data P_ravel)) idx h_step
      in bindE (reshape (vec_add P_ravel h_vector) (nd_shape P)) (\<lambda>P1.
         bindE (param_set s l param_name P1) (\<lambda>s1.
         bindE (loss c s1 X T) (\<lambda>fxh1.
         bindE (reshape (vec_sub P_ravel h_vector) (nd_shape P)) (\<lambda>P2.
         bindE (param_set s1 l param_name P2) (\<lambda>s2.
         bindE (loss c s2 X T) (\<lambda>fxh2.
         bindE (param_set s2 l param_name P) (\<lambda>s3.
         Inr (s3, grad[idx := (fxh1 - fxh2) / (2 * h_step)])))))))))"

text \<open>\<open>SGDNeuralNet._numerical_gradient\<close>; \<open>copy.deepcopy\<close> yields an equal array.\<close>

definition numerical_gradient ::
  "common \<Rightarrow> 'a net \<Rightarrow> ndarray \<Rightarrow> ndarray \<Rightarrow> string \<Rightarrow> int \<Rightarrow> error + (ndarray \<times> 'a net)" where
  "numerical_gradient c s X T param_name l =
     bindE (param_get s l param_name) (\<lambda>P.
       let P_ravel = ravel P;
           grad = zeros_like P_ravel
       in bindE (for_loop [0..<length (nd_data P_ravel)]
                   (numerical_gradient_step c X T param_name l P) (s, nd_data grad)) (\<lambda>st.
          bindE (reshape (NDArray (nd_shape grad) (snd st)) (nd_shape P)) (\<lambda>G.
          Inr (G, fst st))))"

text \<open>\<open>grads[l][k] = v\<close> on the list of gradient dictionaries.\<close>

definition grads_set :: "pdict list \<Rightarrow> int \<Rightarrow> string \<Rightarrow> ndarray \<Rightarrow> error + pdict list" where
  "grads_set grads l k v = bindE (py_get grads l) (\<lambda>d. py_set grads l (d(k \<mapsto> v)))"

text \<open>\<open>SGDNeuralNet.numerical_gradient_all\<close>.\<close>

definition numerical_gradient_all ::
  "common \<Rightarrow> 'a net \<Rightarrow> ndarray \<Rightarrow> ndarray \<Rightarrow> error + (pdict list \<times> 'a net)" where
  "numerical_gradient_all c s X T =
     bindE (for_loop (py_range (n_layers s))
              (\<lambda>l st.
                 bindE (numerical_gradient c (snd st) X T ''W'' l) (\<lambda>gW.
                 bindE (grads_set (fst st) l ''W'' (fst gW)) (\<lambda>grads1.
                 bindE (numerical_gradient c (snd gW) X T ''b'' l) (\<lambda>gb.
                 bindE (grads_set grads1 l ''b'' (fst gb)) (\<lambda>grads2.
                 Inr (grads2, snd gb))))))
              (map (\<lambda>l. Map.empty) (py_range (n_layers s)), s))
       (\<lambda>st. Inr st)"

section \<open>BackpropNeuralNet: forward pass with cache and backpropagation\<close>

text \<open>\<open>range(a, b, -1)\<close>: from \<open>a\<close> down to \<open>b + 1\<close>.\<close>

definition py_range_down :: "int \<Rightarrow> int \<Rightarrow> int list" where
  "py_range_down a b = map (\<lambda>k. a - int k) [0..<nat (a - b)]"

text \<open>
  \<open>BackpropNeuralNet._predict_onehot\<close> called with \<open>train_flg=True\<close>: the result with the
  lists \<open>Z_intermediate\<close> and \<open>A_intermediate\<close>.  The loop state is
  \<open>(Z_current, Z_intermediate, A_intermediate)\<close>.
\<close>

definition predict_onehot_train ::
  "common \<Rightarrow> 'a net \<Rightarrow> ndarray \<Rightarrow> error + (ndarray \<times> ndarray list \<times> ndarray list)" where
  "predict_onehot_train c s X =
     bindE (for_loop (py_range (n_layers s - 1))
              (\<lambda>l st.
                 bindE (param_get s l ''W'') (\<lambda>W.
                 bindE (param_get s l ''b'') (\<lambda>b.
                 bindE (forward_middle c (fst st) W b (activation_function s)) (\<lambda>ZA.
                 Inr (fst ZA, fst (snd st) @ [fst ZA], snd (snd st) @ [snd ZA])))))
              (X, [], [])) (\<lambda>st.
     bindE (param_get s (n_layers s - 1) ''W'') (\<lambda>W_final.
     bindE (param_get s (n_layers s - 1) ''b'') (\<lambda>b_final.
     bindE (forward_last_classification c (fst st) W_final b_final) (\<lambda>Z_result.
     Inr (Z_result, fst (snd st), snd (snd st))))))"

text \<open>
  One pass of the hidden-layer loop of \<open>gradient_backpropagation\<close> for the layer \<open>l\<close>.  The
  loop state is \<open>(grads, dA, dZ_prev)\<close>: \<open>dA\<close> keeps its old value when the activation is
  neither \<open>'relu'\<close> nor \<open>'sigmoid'\<close>, and \<open>dZ_prev\<close> is not assigned in the first layer.
\<close>

definition backprop_step ::
  "common \<Rightarrow> 'a net \<Rightarrow> ndarray \<Rightarrow> ndarray list \<Rightarrow> ndarray list \<Rightarrow> int
     \<Rightarrow> pdict list \<times> ndarray \<times> ndarray \<Rightarrow> error + (pdict list \<times> ndarray \<times> ndarray)" where
  "backprop_step c s X Z_intermediate A_intermediate l st =
     (let grads = fst st; dA0 = fst (snd st); dZ_prev = snd (snd st);
          dZ = dZ_prev
      in bindE (if activation_function s = ''relu''
                then bindE (py_get A_intermediate l) (\<lambda>A. relu_backward c dZ A)
                else Inr dA0) (\<lambda>dA1.
         bindE (if activation_function s = ''sigmoid''
                then bindE (py_get Z_intermediate l) (\<lambda>Z. sigmoid_backward c dZ Z)
                else Inr dA1) (\<lambda>dA.
         bindE (affine_backward_bias c dA) (\<lambda>db.
         bindE (if l > 0
                then bindE (py_get Z_intermediate (l - 1)) (\<lambda>Z_prev.
                     bindE (affine_backward_weight c dA Z_prev) (\<lambda>dW.
                     bindE (param_get s l ''W'') (\<lambda>W.
                     bindE (affine_backward_zprev c dA W) (\<lambda>dZ_prev'.
                     Inr (dW, dZ_prev')))))
                else bindE (affine_backward_weight c dA X) (\<lambda>dW.
                     Inr (dW, dZ_prev))) (\<lambda>r.
         bindE (grads_set grads l ''b'' db) (\<lambda>grads1.
         bindE (grads_set grads1 l ''W'' (fst r)) (\<lambda>grads2.
         Inr (grads2, dA, snd r))))))))"

text \<open>
  \<open>BackpropNeuralNet.gradient_backpropagation\<close>.  The method assigns no attribute of
  \<open>self\<close>, so the object is returned as it came.
\<close>

definition gradient_backpropagation ::
  "common \<Rightarrow> 'a net \<Rightarrow> ndarray \<Rightarrow> ndarray \<Rightarrow> error + (pdict list \<times> 'a net)" where
  "gradient_backpropagation c s X T =
     bindE (predict_onehot_train c s X) (\<lambda>fw.
       let Y = fst fw; Z_intermediate = fst (snd fw); A_intermediate = snd (snd fw);
           grads = map (\<lambda>l. Map.empty) (py_range (n_layers s))
       in bindE (softmax_loss_backward c Y T) (\<lambda>dA.
          bindE (affine_backward_bias c dA) (\<lambda>db.
          bindE (py_get Z_intermediate (n_layers s - 2)) (\<lambda>Z_last.
          bindE (affine_backward_weight c dA Z_last) (\<lambda>dW.
          bindE (param_get s (n_layers s - 1) ''W'') (\<lambda>W_last.
          bindE (affine_backward_zprev c dA W_last) (\<lambda>dZ_prev.
          bindE (grads_set grads (n_layers s - 1) ''b'' db) (\<lambda>grads1.
          bindE (grads_set grads1 (n_layers s - 1) ''W'' dW) (\<lambda>grads2.
          bindE (for_loop (py_range_down (n_layers s - 2) (- 1))
                   (backprop_step c s X Z_intermediate A_intermediate)
                   (grads2, dA, dZ_prev)) (\<lambda>st.
          Inr (fst st, s)))))))))))"

section \<open>Parameter update\<close>

text \<open>
  numpy broadcasting of the elements of an array of shape \<open>bs\<close> to the shape \<open>ts\<close> of the
  same rank: a dimension is kept when the two agree and repeated when it is 1 in \<open>bs\<close>.
\<close>

fun broadcast_data :: "nat list \<Rightarrow> nat list \<Rightarrow> 'a list \<Rightarrow> 'a list option" where
  "broadcast_data [] [] d = Some d"
| "broadcast_data (b # bs) (t # ts) d =
     (if b = t
      then map_option concat
             (those (map (\<lambda>i. broadcast_data bs ts
                                 (take (prod_list bs) (drop (i * prod_list bs) d))) [0..<b]))
      else if b = 1 then map_option (\<lambda>r. concat (replicate t r)) (broadcast_data bs ts d)
      else None)"
| "broadcast_data _ _ d = None"

text \<open>
  The elements of \<open>a\<close> broadcast to the shape \<open>sh\<close> of the target of an in-place
  operation: the shape of \<open>a\<close> is padded with ones on the left and may not be longer.
\<close>

definition broadcast_to :: "ndarray \<Rightarrow> nat list \<Rightarrow> error + real list" where
  "broadcast_to a sh =
     (if length sh < length (nd_shape a) then Inl ValueError
      else case broadcast_data
                  (replicate (length sh - length (nd_shape a)) 1 @ nd_shape a) sh (nd_data a) of
             None \<Rightarrow> Inl ValueError
           | Some d \<Rightarrow> Inr d)"

text \<open>\<open>r * a\<close> for a Python float \<open>r\<close> and an array \<open>a\<close>.\<close>

definition scalar_mul :: "real \<Rightarrow> ndarray \<Rightarrow> ndarray" where
  "scalar_mul r a = NDArray (nd_shape a) (map (\<lambda>x. r * x) (nd_data a))"

text \<open>
  \<open>a -= b\<close> on arrays: the new value of \<open>a\<close>.  The elements are the real numbers that
  the float64 elements stand for; the section on float64 components below has the same
  update with signed zeros, infinities and NaN.
\<close>

definition isub :: "ndarray \<Rightarrow> ndarray \<Rightarrow> error + ndarray" where
  "isub a b =
     bindE (broadcast_to b (nd_shape a)) (\<lambda>d.
     Inr (NDArray (nd_shape a) (map2 (-) (nd_data a) d)))"

text \<open>\<open>self.params[l][k] -= self.learning_rate * grads[l][k]\<close>.\<close>

definition isub_param :: "'a net \<Rightarrow> pdict list \<Rightarrow> int \<Rightarrow> string \<Rightarrow> error + 'a net" where
  "isub_param s grads l k =
     bindE (param_get s l k) (\<lambda>p.
     bindE (py_get grads l) (\<lambda>gd.
     bindE (dict_get gd k) (\<lambda>g.
     bindE (isub p (scalar_mul (learning_rate s) g)) (\<lambda>p'.
     param_set s l k p'))))"

text \<open>
  \<open>SGDNeuralNet.update_parameters\<close>; \<open>BackpropNeuralNet.update_parameters\<close> is the same
  text.
\<close>

definition update_parameters :: "'a net \<Rightarrow> pdict list \<Rightarrow> error + 'a net" where
  "update_parameters s grads =
     for_loop (py_range (n_layers s))
       (\<lambda>l s1. bindE (isub_param s1 grads l ''W'') (\<lambda>s2. isub_param s2 grads l ''b''))
       s"

section \<open>One-hot encoding and accuracy\<close>

text \<open>
  The targets \<open>T\<close> are documented as a 1D or 2D array.  \<open>Labels xs\<close> is a one-dimensional
  array of category values (\<open>T.ndim == 1\<close>), of any ordered type; \<open>Encoded a\<close> is an array
  of floats of another rank, which the source takes as already one-hot encoded.
\<close>

datatype 'a target = Labels "'a list" | Encoded ndarray

text \<open>
  sklearn's \<open>OneHotEncoder\<close> on a matrix of one column, given by the list of its values.
  \<open>fit\<close> rejects a matrix of no rows and stores in \<open>categories_\<close>, per column, the sorted
  distinct values.  \<open>transform(...).toarray()\<close> turns every value into the row that has
  a one at the position of the value in \<open>categories_[0]\<close> and zeros elsewhere; it rejects
  a matrix of no rows, of another number of columns, and a value that \<open>fit\<close> has not seen.
\<close>

definition OneHotEncoder_fit :: "'a::linorder list \<Rightarrow> error + 'a list list" where
  "OneHotEncoder_fit col = (if col = [] then Inl ValueError else Inr [sort (remdups col)])"

definition OneHotEncoder_transform :: "'a list list \<Rightarrow> 'a list \<Rightarrow> error + ndarray" where
  "OneHotEncoder_transform categories col =
     (case categories of
        [cats] \<Rightarrow>
          if col = [] \<or> \<not> set col \<subseteq> set cats then Inl ValueError
          else Inr (NDArray [length col, length cats]
                      (concat (map (\<lambda>v. map (\<lambda>x. if x = v then 1 else 0) cats) col)))
      | _ \<Rightarrow> Inl ValueError)"

text \<open>
  \<open>_one_hot_encoding\<close>, the same text in the three classes, on the attribute
  \<open>one_hot_encoder_\<close>: the encoded targets and the new value of the attribute.
\<close>

definition one_hot_encoding ::
  "'a::linorder list list option \<Rightarrow> 'a target \<Rightarrow> error + (ndarray \<times> 'a list list option)" where
  "one_hot_encoding enc T =
     (case T of
        Labels xs \<Rightarrow>
          bindE (OneHotEncoder_fit xs) (\<lambda>categories.
          bindE (OneHotEncoder_transform categories xs) (\<lambda>T_onehot.
          Inr (T_onehot, Some categories)))
      | Encoded a \<Rightarrow> Inr (a, enc))"

text \<open>
  The index of the first greatest element of a row, as \<open>np.argmax\<close> returns it: the scan
  keeps the position and the value of the best element so far.
\<close>

fun argmax_scan :: "real list \<Rightarrow> nat \<Rightarrow> nat \<Rightarrow> real \<Rightarrow> nat" where
  "argmax_scan [] i best v = best"
| "argmax_scan (x # xs) i best v =
     (if v < x then argmax_scan xs (i + 1) i x else argmax_scan xs (i + 1) best v)"

definition argmax_row :: "real list \<Rightarrow> nat" where
  "argmax_row r = argmax_scan (tl r) 1 0 (hd r)"

text \<open>Row \<open>i\<close> of an array whose rows have \<open>k\<close> elements.\<close>

definition nd_row :: "nat \<Rightarrow> ndarray \<Rightarrow> nat \<Rightarrow> real list" where
  "nd_row k a i = take k (drop (i * k) (nd_data a))"

text \<open>
  \<open>np.argmax(a, axis=1)\<close> for the arrays of the documented ranks: an array of fewer than
  two dimensions has no axis 1, and a row of no elements has no greatest element.  An
  array of more than two dimensions is not among the documented inputs; the model stops
  there.
\<close>

definition argmax_axis1 :: "ndarray \<Rightarrow> error + nat list" where
  "argmax_axis1 a =
     (case nd_shape a of
        [] \<Rightarrow> Inl AxisError
      | [n] \<Rightarrow> Inl AxisError
      | [n, k] \<Rightarrow> if k = 0 then Inl ValueError
                  else Inr (map (\<lambda>i. argmax_row (nd_row k a i)) [0..<n])
      | _ \<Rightarrow> Inl ValueError)"

text \<open>
  \<open>_one_hot_encoding_reverse\<close>: \<open>np.vectorize\<close> refuses an input of no elements; the
  function it maps reads the attribute \<open>one_hot_encoder_\<close> and indexes \<open>categories_[0]\<close>.
\<close>

definition one_hot_encoding_reverse :: "'a list list option \<Rightarrow> ndarray \<Rightarrow> error + 'a list" where
  "one_hot_encoding_reverse enc T =
     bindE (argmax_axis1 T) (\<lambda>T_label.
       if T_label = [] then Inl ValueError
       else case enc of
              None \<Rightarrow> Inl AttributeError
            | Some categories \<Rightarrow>
                bindE (py_get categories 0) (\<lambda>cats.
                  if \<forall>x\<in>set T_label. x < length cats
                  then Inr (map (\<lambda>x. cats ! x) T_label)
                  else Inl IndexError))"

text \<open>
  \<open>a == b\<close> on two one-dimensional arrays: elementwise, an array of one element being
  repeated; numpy refuses other lengths.
\<close>

definition np_equal :: "nat list \<Rightarrow> nat list \<Rightarrow> error + bool list" where
  "np_equal a b =
     (if length a = length b then Inr (map2 (=) a b)
      else if length a = 1 then Inr (map (\<lambda>y. hd a = y) b)
      else if length b = 1 then Inr (map (\<lambda>x. x = hd b) a)
      else Inl ValueError)"

text \<open>
  The last three lines of \<open>accuracy\<close>, the same in the three classes.  Dividing by
  \<open>float(0)\<close> gives numpy's \<open>nan\<close> or \<open>inf\<close>.
\<close>

definition accuracy_value :: "ndarray \<Rightarrow> ndarray \<Rightarrow> ndarray \<Rightarrow> error + real" where
  "accuracy_value X_test Y_test T_test =
     bindE (argmax_axis1 Y_test) (\<lambda>Y_test_label.
     bindE (argmax_axis1 T_test) (\<lambda>T_test_label.
     bindE (np_equal Y_test_label T_test_label) (\<lambda>eq.
     bindE (py_get (nd_shape X_test) 0) (\<lambda>n.
       if n = 0 then Inl NotANumber
       else Inr (real (length (filter (\<lambda>b. b) eq)) / real n)))))"

text \<open>\<open>SGDNeuralNet.accuracy\<close>; \<open>BackpropNeuralNet.accuracy\<close> is the same text.\<close>

definition accuracy ::
  "common \<Rightarrow> ('a::linorder) net \<Rightarrow> ndarray \<Rightarrow> 'a target \<Rightarrow> error + (real \<times> 'a net)" where
  "accuracy c s X_test T_test =
     bindE (one_hot_encoding (one_hot_encoder s) T_test) (\<lambda>Te.
       let s1 = s\<lparr>one_hot_encoder := snd Te\<rparr>
       in bindE (predict_onehot c s1 X_test) (\<lambda>Y_test.
          bindE (accuracy_value X_test Y_test (fst Te)) (\<lambda>a.
          Inr (a, s1))))"

section \<open>Minibatch selection\<close>

text \<open>
  \<open>np.random.choice(a, count)\<close> for two ints draws \<open>count\<close> numbers below \<open>a\<close>, each
  independently of the others.  The generator is given by the sequence \<open>draws\<close> of raw
  numbers it will produce; the probability of a sequence is not part of the model.
\<close>

definition np_random_choice :: "(nat \<Rightarrow> nat) \<Rightarrow> nat \<Rightarrow> int \<Rightarrow> error + nat list" where
  "np_random_choice draws a count =
     (if count < 0 then Inl ValueError
      else if a = 0 \<and> count \<noteq> 0 then Inl ValueError
      else Inr (map (\<lambda>j. draws j mod a) [0..<nat count]))"

text \<open>\<open>a[idxs]\<close> for an array of ints \<open>idxs\<close>: the rows of \<open>a\<close> at these positions.\<close>

definition take_rows :: "ndarray \<Rightarrow> nat list \<Rightarrow> error + ndarray" where
  "take_rows a idxs =
     (case nd_shape a of
        [] \<Rightarrow> Inl IndexError
      | n # rest \<Rightarrow>
          if \<forall>i\<in>set idxs. i < n
          then Inr (NDArray (length idxs # rest)
                      (concat (map (\<lambda>i. nd_row (prod_list rest) a i) idxs)))
          else Inl IndexError)"

text \<open>\<open>select_minibatch\<close>, the same text in the three classes.\<close>

definition select_minibatch ::
  "(nat \<Rightarrow> nat) \<Rightarrow> int \<Rightarrow> ndarray \<Rightarrow> ndarray \<Rightarrow> error + (ndarray \<times> ndarray)" where
  "select_minibatch draws batch_size_attr X T =
     bindE (py_get (nd_shape X) 0) (\<lambda>train_size.
     bindE (np_random_choice draws train_size batch_size_attr) (\<lambda>batch_mask.
     bindE (take_rows X batch_mask) (\<lambda>X_batch.
     bindE (take_rows T batch_mask) (\<lambda>T_batch.
     Inr (X_batch, T_batch)))))"

section \<open>Construction and initialisation of the plain networks\<close>

text \<open>
  numpy's global generator, given by the sequence of standard-normal numbers it will
  produce.  \<open>np.random.randn(d0, d1)\<close> takes the next \<open>d0 * d1\<close> of them and refuses a
  negative dimension, as \<open>np.zeros(n)\<close> does.
\<close>

type_synonym rng = "nat \<Rightarrow> real"

definition randn :: "rng \<Rightarrow> int \<Rightarrow> int \<Rightarrow> error + (ndarray \<times> rng)" where
  "randn g d0 d1 =
     (if d0 < 0 \<or> d1 < 0 then Inl ValueError
      else Inr (NDArray [nat d0, nat d1] (map g [0..<nat d0 * nat d1]),
                \<lambda>i. g (i + nat d0 * nat d1)))"

definition zeros :: "int \<Rightarrow> error + ndarray" where
  "zeros n = (if n < 0 then Inl ValueError else Inr (NDArray [nat n] (replicate (nat n) 0)))"

text \<open>
  \<open>SGDNeuralNet._initialize_parameters\<close>; \<open>BackpropNeuralNet._initialize_parameters\<close> is
  the same text.  The right-hand side of an assignment is evaluated before its target.
\<close>

definition initialize_parameters :: "'a net \<Rightarrow> rng \<Rightarrow> error + ('a net \<times> rng)" where
  "initialize_parameters s g =
     (let s0 = s\<lparr>params := map (\<lambda>l. Map.empty) (py_range (n_layers s))\<rparr>
      in bindE (randn g (int (input_size s)) (hidden_size s)) (\<lambda>r0.
         bindE (param_set s0 0 ''W'' (scalar_mul (weight_init_std s) (fst r0))) (\<lambda>s1.
         bindE (for_loop (py_range2 1 (n_layers s - 1))
                  (\<lambda>l st.
                     bindE (randn (snd st) (hidden_size s) (hidden_size s)) (\<lambda>r.
                     bindE (param_set (fst st) l ''W''
                              (scalar_mul (weight_init_std s) (fst r))) (\<lambda>sa.
                     Inr (sa, snd r))))
                  (s1, snd r0)) (\<lambda>st2.
         bindE (randn (snd st2) (hidden_size s) (int (output_size s))) (\<lambda>r3.
         bindE (param_set (fst st2) (n_layers s - 1) ''W''
                  (scalar_mul (weight_init_std s) (fst r3))) (\<lambda>s3.
         bindE (for_loop (py_range (n_layers s - 1))
                  (\<lambda>l sa. bindE (zeros (hidden_size s)) (\<lambda>z. param_set sa l ''b'' z))
                  s3) (\<lambda>s4.
         bindE (zeros (int (output_size s))) (\<lambda>z.
         bindE (param_set s4 (n_layers s - 1) ''b'' z) (\<lambda>s5.
         Inr (s5, snd r3))))))))))"

text \<open>
  \<open>SGDNeuralNet.__init__\<close>; \<open>BackpropNeuralNet.__init__\<close> is the same text.
  \<open>X.shape[1]\<close> indexes a tuple; \<open>np.unique(T).size\<close> counts the distinct elements.
\<close>

definition net_init ::
  "ndarray \<Rightarrow> 'a target \<Rightarrow> int \<Rightarrow> int \<Rightarrow> int \<Rightarrow> int \<Rightarrow> string \<Rightarrow> string \<Rightarrow> real \<Rightarrow> real
     \<Rightarrow> rng \<Rightarrow> error + ('a net \<times> rng)" where
  "net_init X T hidden_size_arg n_layers_arg batch_size_arg n_iter_arg loss_type_arg
            activation_function_arg learning_rate_arg weight_init_std_arg g =
     bindE (py_get (nd_shape X) 1) (\<lambda>input_size_val.
       let output_size_val =
             (case T of
                Encoded a \<Rightarrow> if length (nd_shape a) = 2 then nd_shape a ! 1
                             else length (remdups (nd_data a))
              | Labels xs \<Rightarrow> length (remdups xs));
           s = \<lparr> input_size = input_size_val, output_size = output_size_val,
                 hidden_size = hidden_size_arg, n_layers = n_layers_arg,
                 learning_rate = learning_rate_arg, batch_size = batch_size_arg,
                 n_iter = n_iter_arg, loss_type = loss_type_arg,
                 activation_function = activation_function_arg,
                 weight_init_std = weight_init_std_arg,
                 params = [], one_hot_encoder = None \<rparr>
       in if loss_type_arg \<notin> set [''cross_entropy'', ''squared_error'']
          then Inl (PyException
                 ''the `loss_type` argument should be \"cross_entropy\" or \"squared_error\"'')
          else if activation_function_arg \<notin> set [''sigmoid'', ''relu'']
          then Inl (PyException
                 ''the `activation_function` argument should be \"sigmoid\" or \"relu\"'')
          else initialize_parameters s g)"

section \<open>ConvolutionNet\<close>

text \<open>
  The layer classes and the optimizer classes (\<open>common.optimizers\<close>) are not part of the
  three network files.  A layer is a value of any type \<open>'l\<close> and an optimizer a value of
  any type \<open>'o\<close>; the record below holds what the network asks of them.  A method that
  changes its object returns the new object.  A shape attribute holds a tuple or \<open>None\<close>.
  \<open>backward_last\<close> is the call \<open>backward(Y, T)\<close> of the last layer, \<open>backward\<close> the call
  \<open>backward(dZ)\<close> of the others.
\<close>

datatype optimizer_class =
    SGD real
  | Momentum real real
  | AdaGrad real real
  | RMSprop real real real
  | Adam real real real real

record ('l, 'o) layer_ops =
  input_shape :: "'l \<Rightarrow> nat list option"
  output_shape :: "'l \<Rightarrow> nat list option"
  layer_initialize_parameters :: "'l \<Rightarrow> nat list option \<Rightarrow> error + 'l"
  forward :: "'l \<Rightarrow> ndarray \<Rightarrow> error + (ndarray \<times> 'l)"
  backward_last :: "'l \<Rightarrow> ndarray \<Rightarrow> ndarray \<Rightarrow> error + (ndarray \<times> 'l)"
  backward :: "'l \<Rightarrow> ndarray \<Rightarrow> error + (ndarray \<times> 'l)"
  layer_params :: "'l \<Rightarrow> pdict"
  new_optimizer :: "optimizer_class \<Rightarrow> 'o"
  initialize_opt_params :: "'o \<Rightarrow> pdict \<Rightarrow> error + 'o"

text \<open>
  The attributes of \<open>ConvolutionNet\<close>.  \<open>cn_n_layers\<close> is \<open>None\<close> until the constructor has
  set \<open>self.n_layers\<close>, which it does after \<open>_initialize_parameters\<close>.
\<close>

record ('a, 'l, 'o) convnet =
  layers :: "'l list"
  cn_learning_rate :: real
  cn_batch_size :: int
  cn_n_iter :: int
  cn_loss_type :: string
  solver :: string
  momentum :: real
  beta_1 :: real
  beta_2 :: real
  epsilon :: real
  cn_n_layers :: "int option"
  optimizers :: "'o list"
  cn_one_hot_encoder :: "'a list list option"

text \<open>
  \<open>ConvolutionNet._initialize_optimizers\<close>: the loop state is the list \<open>self.optimizers\<close>.
  A solver outside the five names appends nothing, and \<open>self.optimizers[l]\<close> then fails.
\<close>

definition conv_initialize_optimizers ::
  "('l, 'o) layer_ops \<Rightarrow> ('a, 'l, 'o) convnet \<Rightarrow> error + ('a, 'l, 'o) convnet" where
  "conv_initialize_optimizers ops s =
     bindE (for_loop (zip (py_range (int (length (layers s)))) (layers s))
              (\<lambda>ll opts.
                 let l = fst ll; layer = snd ll;
                     opts1 =
                       (if solver s = ''sgd'' then
                          opts @ [new_optimizer ops (SGD (cn_learning_rate s))]
                        else if solver s = ''momentum'' then
                          opts @ [new_optimizer ops (Momentum (cn_learning_rate s) (momentum s))]
                        else if solver s = ''adagrad'' then
                          opts @ [new_optimizer ops (AdaGrad (cn_learning_rate s) (epsilon s))]
                        else if solver s = ''rmsprop'' then
                          opts @ [new_optimizer ops
                                    (RMSprop (cn_learning_rate s) (beta_2 s) (epsilon s))]
                        else if solver s = ''adam'' then
                          opts @ [new_optimizer ops
                                    (Adam (cn_learning_rate s) (beta_1 s) (beta_2 s) (epsilon s))]
                        else opts)
                 in bindE (py_get opts1 l) (\<lambda>opt.
                    bindE (initialize_opt_params ops opt (layer_params ops layer)) (\<lambda>opt'.
                    py_set opts1 l opt')))
              []) (\<lambda>opts. Inr (s\<lparr>optimizers := opts\<rparr>))"

text \<open>
  \<open>ConvolutionNet._initialize_parameters\<close>: the loop state is the list \<open>self.layers\<close>, whose
  layer \<open>l\<close> is initialised in place.
\<close>

definition conv_initialize_parameters ::
  "('l, 'o) layer_ops \<Rightarrow> ('a, 'l, 'o) convnet \<Rightarrow> error + ('a, 'l, 'o) convnet" where
  "conv_initialize_parameters ops s =
     bindE (for_loop (py_range (int (length (layers s))))
              (\<lambda>l ls.
                 bindE (py_get ls l) (\<lambda>layer.
                 bindE (if l = 0
                        then layer_initialize_parameters ops layer (input_shape ops layer)
                        else bindE (py_get ls (l - 1)) (\<lambda>prev.
                             layer_initialize_parameters ops layer (output_shape ops prev)))
                   (\<lambda>layer'. py_set ls l layer')))
              (layers s)) (\<lambda>ls.
     conv_initialize_optimizers ops (s\<lparr>layers := ls\<rparr>))"

text \<open>\<open>ConvolutionNet.__init__\<close>.\<close>

definition conv_init ::
  "('l, 'o) layer_ops \<Rightarrow> 'l list \<Rightarrow> int \<Rightarrow> int \<Rightarrow> string \<Rightarrow> real \<Rightarrow> string \<Rightarrow> real \<Rightarrow> real
     \<Rightarrow> real \<Rightarrow> real \<Rightarrow> error + ('a, 'l, 'o) convnet" where
  "conv_init ops layers_arg batch_size_arg n_iter_arg loss_type_arg learning_rate_arg
             solver_arg momentum_arg beta_1_arg beta_2_arg epsilon_arg =
     (let s = \<lparr> layers = layers_arg, cn_learning_rate = learning_rate_arg,
                 cn_batch_size = batch_size_arg, cn_n_iter = n_iter_arg,
                 cn_loss_type = loss_type_arg, solver = solver_arg,
                 momentum = momentum_arg, beta_1 = beta_1_arg, beta_2 = beta_2_arg,
                 epsilon = epsilon_arg, cn_n_layers = None, optimizers = [],
                 cn_one_hot_encoder = None \<rparr>
      in if loss_type_arg \<notin> set [''cross_entropy'', ''squared_error'']
         then Inl (PyException
                ''the `loss_type` argument should be \"cross_entropy\" or \"squared_error\"'')
         else bindE (conv_initialize_parameters ops s) (\<lambda>s1.
              Inr (s1\<lparr>cn_n_layers := Some (int (length (layers s1)))\<rparr>)))"

text \<open>\<open>ConvolutionNet._predict_onehot\<close>: the result and the layers after their forward calls.\<close>

definition conv_predict_onehot ::
  "('l, 'o) layer_ops \<Rightarrow> ('a, 'l, 'o) convnet \<Rightarrow> ndarray
     \<Rightarrow> error + (ndarray \<times> ('a, 'l, 'o) convnet)" where
  "conv_predict_onehot ops s X =
     bindE (for_loop (py_range (int (length (layers s))))
              (\<lambda>l st.
                 bindE (py_get (snd st) l) (\<lambda>layer.
                 bindE (forward ops layer (fst st)) (\<lambda>r.
                 bindE (py_set (snd st) l (snd r)) (\<lambda>ls.
                 Inr (fst r, ls)))))
              (X, layers s)) (\<lambda>st.
     Inr (fst st, s\<lparr>layers := snd st\<rparr>))"

text \<open>
  What a gradient method hands back to its caller: \<open>None\<close> when the method ends without a
  \<open>return\<close>, or a list of gradient dictionaries.
\<close>

datatype returned = PyNone | Gradients "pdict list"

text \<open>\<open>self.layers[l]\<close> and \<open>self.layers[l] = layer\<close> on the network.\<close>

definition layer_get :: "('a, 'l, 'o) convnet \<Rightarrow> int \<Rightarrow> error + 'l" where
  "layer_get s l = py_get (layers s) l"

definition layer_put ::
  "('a, 'l, 'o) convnet \<Rightarrow> int \<Rightarrow> 'l \<Rightarrow> error + ('a, 'l, 'o) convnet" where
  "layer_put s l layer = bindE (py_set (layers s) l layer) (\<lambda>ls. Inr (s\<lparr>layers := ls\<rparr>))"

text \<open>
  \<open>ConvolutionNet.gradient_backpropagation\<close>.  Every layer keeps the gradients that its
  \<open>backward\<close> computes; the method has no \<open>return\<close> statement.
\<close>

definition conv_gradient_backpropagation ::
  "('l, 'o) layer_ops \<Rightarrow> ('a, 'l, 'o) convnet \<Rightarrow> ndarray \<Rightarrow> ndarray
     \<Rightarrow> error + (returned \<times> ('a, 'l, 'o) convnet)" where
  "conv_gradient_backpropagation ops s X T =
     bindE (conv_predict_onehot ops s X) (\<lambda>fw.
     bindE (case cn_n_layers (snd fw) of None \<Rightarrow> Inl AttributeError | Some n \<Rightarrow> Inr n) (\<lambda>n.
     bindE (layer_get (snd fw) (n - 1)) (\<lambda>last.
     bindE (backward_last ops last (fst fw) T) (\<lambda>r.
     bindE (layer_put (snd fw) (n - 1) (snd r)) (\<lambda>s1.
     bindE (for_loop (py_range_down (n - 2) (- 1))
              (\<lambda>l st.
                 bindE (layer_get (snd st) l) (\<lambda>layer.
                 bindE (backward ops layer (fst st)) (\<lambda>r1.
                 bindE (layer_put (snd st) l (snd r1)) (\<lambda>s2.
                 Inr (fst r1, s2)))))
              (fst r, s1)) (\<lambda>st.
     Inr (PyNone, snd st)))))))"

text \<open>\<open>ConvolutionNet.accuracy\<close>.\<close>

definition conv_accuracy ::
  "('l, 'o) layer_ops \<Rightarrow> ('a::linorder, 'l, 'o) convnet \<Rightarrow> ndarray \<Rightarrow> 'a target
     \<Rightarrow> error + (real \<times> ('a, 'l, 'o) convnet)" where
  "conv_accuracy ops s X_test T_test =
     bindE (one_hot_encoding (cn_one_hot_encoder s) T_test) (\<lambda>Te.
     bindE (conv_predict_onehot ops (s\<lparr>cn_one_hot_encoder := snd Te\<rparr>) X_test) (\<lambda>fw.
     bindE (accuracy_value X_test (fst fw) (fst Te)) (\<lambda>a.
     Inr (a, snd fw))))"

section \<open>The parameter update on float64 components\<close>

text \<open>
  The elements of the arrays are float64 numbers, and the sections above take them for
  the real numbers they stand for.  This section keeps what IEEE 754 has beyond the
  reals, the sign of zero, the two infinities and NaN, for the two operations of the
  parameter update.  Rounding, overflow and underflow are left out: a finite number
  other than zero is given by its value.  The flag of a zero or of an infinity is its
  sign bit.
\<close>

datatype f64 = F64_zero bool | F64_finite real | F64_inf bool | F64_nan

definition f64_of :: "bool \<Rightarrow> real \<Rightarrow> f64" where
  "f64_of sign_bit x = (if x = 0 then F64_zero sign_bit else F64_finite x)"

fun f64_sign :: "f64 \<Rightarrow> bool" where
  "f64_sign (F64_zero s) = s"
| "f64_sign (F64_finite x) = (x < 0)"
| "f64_sign (F64_inf s) = s"
| "f64_sign F64_nan = False"

text \<open>
  The product: NaN for a NaN operand and for zero times infinity; otherwise the sign
  bit of the result is the exclusive or of the sign bits of the operands.
\<close>

fun f64_mul :: "f64 \<Rightarrow> f64 \<Rightarrow> f64" where
  "f64_mul F64_nan b = F64_nan"
| "f64_mul a F64_nan = F64_nan"
| "f64_mul (F64_inf s) (F64_zero t) = F64_nan"
| "f64_mul (F64_zero s) (F64_inf t) = F64_nan"
| "f64_mul (F64_inf s) b = F64_inf (s \<noteq> f64_sign b)"
| "f64_mul a (F64_inf t) = F64_inf (f64_sign a \<noteq> t)"
| "f64_mul (F64_zero s) b = F64_zero (s \<noteq> f64_sign b)"
| "f64_mul a (F64_zero t) = F64_zero (f64_sign a \<noteq> t)"
| "f64_mul (F64_finite x) (F64_finite y) = f64_of ((x < 0) \<noteq> (y < 0)) (x * y)"

text \<open>
  The difference, rounding to nearest: NaN for a NaN operand and for the difference of
  two infinities of the same sign; a difference of zeros is \<open>-0.0\<close> only for
  \<open>(-0.0) - (+0.0)\<close>, and the difference of two equal finite numbers is \<open>+0.0\<close>.
\<close>

fun f64_sub :: "f64 \<Rightarrow> f64 \<Rightarrow> f64" where
  "f64_sub F64_nan b = F64_nan"
| "f64_sub a F64_nan = F64_nan"
| "f64_sub (F64_inf s) (F64_inf t) = (if s = t then F64_nan else F64_inf s)"
| "f64_sub (F64_inf s) b = F64_inf s"
| "f64_sub a (F64_inf t) = F64_inf (\<not> t)"
| "f64_sub (F64_zero s) (F64_zero t) = F64_zero (s \<and> \<not> t)"
| "f64_sub (F64_zero s) (F64_finite y) = F64_finite (- y)"
| "f64_sub (F64_finite x) (F64_zero t) = F64_finite x"
| "f64_sub (F64_finite x) (F64_finite y) = f64_of False (x - y)"

text \<open>The comparison \<open>==\<close>: the two zeros are equal, and NaN is equal to nothing.\<close>

fun f64_eq :: "f64 \<Rightarrow> f64 \<Rightarrow> bool" where
  "f64_eq F64_nan b = False"
| "f64_eq a F64_nan = False"
| "f64_eq (F64_zero s) (F64_zero t) = True"
| "f64_eq a b = (a = b)"

fun f64_is_zero :: "f64 \<Rightarrow> bool" where
  "f64_is_zero (F64_zero s) = True"
| "f64_is_zero a = False"

fun f64_is_finite :: "f64 \<Rightarrow> bool" where
  "f64_is_finite (F64_zero s) = True"
| "f64_is_finite (F64_finite x) = True"
| "f64_is_finite a = False"

text \<open>An array of float64 elements, and a parameter or gradient dictionary of such arrays.\<close>

datatype farray = FArray (fa_shape: "nat list") (fa_data: "f64 list")

type_synonym fdict = "string \<rightharpoonup> farray"

definition f64_broadcast_to :: "farray \<Rightarrow> nat list \<Rightarrow> error + f64 list" where
  "f64_broadcast_to a sh =
     (if length sh < length (fa_shape a) then Inl ValueError
      else case broadcast_data
                  (replicate (length sh - length (fa_shape a)) 1 @ fa_shape a) sh (fa_data a) of
             None \<Rightarrow> Inl ValueError
           | Some d \<Rightarrow> Inr d)"

text \<open>\<open>r * a\<close> for a Python float \<open>r\<close> and an array \<open>a\<close>, and \<open>a -= b\<close> on arrays.\<close>

definition f64_scalar_mul :: "f64 \<Rightarrow> farray \<Rightarrow> farray" where
  "f64_scalar_mul r a = FArray (fa_shape a) (map (f64_mul r) (fa_data a))"

definition f64_isub :: "farray \<Rightarrow> farray \<Rightarrow> error + farray" where
  "f64_isub a b =
     bindE (f64_broadcast_to b (fa_shape a)) (\<lambda>d.
     Inr (FArray (fa_shape a) (map2 f64_sub (fa_data a) d)))"

text \<open>
  \<open>self.params[l][k] -= self.learning_rate * grads[l][k]\<close> and \<open>update_parameters\<close> on
  the learning rate, the number of layers and the parameter store of the object.
\<close>

definition f64_isub_param ::
  "f64 \<Rightarrow> fdict list \<Rightarrow> fdict list \<Rightarrow> int \<Rightarrow> string \<Rightarrow> error + fdict list" where
  "f64_isub_param lr ps grads l k =
     bindE (py_get ps l) (\<lambda>d.
     bindE (dict_get d k) (\<lambda>p.
     bindE (py_get grads l) (\<lambda>gd.
     bindE (dict_get gd k) (\<lambda>g.
     bindE (f64_isub p (f64_scalar_mul lr g)) (\<lambda>p'.
     py_set ps l (d(k \<mapsto> p')))))))"

definition f64_update_parameters ::
  "f64 \<Rightarrow> int \<Rightarrow> fdict list \<Rightarrow> fdict list \<Rightarrow> error + fdict list" where
  "f64_update_parameters lr n ps grads =
     for_loop (py_range n)
       (\<lambda>l ps1. bindE (f64_isub_param lr ps1 grads l ''W'')
                   (\<lambda>ps2. f64_isub_param lr ps2 grads l ''b''))
       ps"

text \<open>Component \<open>i\<close> of the array under key \<open>k\<close> of layer \<open>l\<close>, in row-major order.\<close>

definition f64_component :: "fdict list \<Rightarrow> int \<Rightarrow> string \<Rightarrow> int \<Rightarrow> error + f64" where
  "f64_component ps l k i =
     bindE (py_get ps l) (\<lambda>d. bindE (dict_get d k) (\<lambda>a. py_get (fa_data a) i))"

text \<open>
  A parameter store of one layer whose weight is \<open>-0.0\<close>, a gradient set of the zeros
  \<open>-0.0\<close> for it, and a gradient set of the zeros \<open>+0.0\<close>.
\<close>

definition negative_zero_params :: "fdict list" where
  "negative_zero_params =
     [[''W'' \<mapsto> FArray [1, 1] [F64_zero True], ''b'' \<mapsto> FArray [1] [F64_finite 1]]]"

definition negative_zero_grads :: "fdict list" where
  "negative_zero_grads =
     [[''W'' \<mapsto> FArray [1, 1] [F64_zero True], ''b'' \<mapsto> FArray [1] [F64_zero True]]]"

definition positive_zero_grads :: "fdict list" where
  "positive_zero_grads =
     [[''W'' \<mapsto> FArray [1, 1] [F64_zero False], ''b'' \<mapsto> FArray [1] [F64_zero False]]]"

section \<open>Reference helpers\<close>

text \<open>
  Modelled from the spec: the modules \<open>common.forward_functions\<close>,
  \<open>common.loss_funcions\<close> and \<open>common.backward_functions\<close> are missing from the sources.
  The definitions of this section follow section 4.1 of the specification (affine
  forward and backward mathematics, ReLU, sigmoid, the row-wise softmax stabilised by the
  row maximum, the fused softmax and cross-entropy gradient) and section 6 (probabilities
  clipped away from 0 and 1 before the logarithm).  The specification names the squared
  error without a formula; half the sum of the squared differences is taken.  The
  theorems below hold for every set of helpers; this one serves to run the networks on
  concrete inputs.
\<close>

definition is_matrix :: "ndarray \<Rightarrow> nat \<Rightarrow> nat \<Rightarrow> bool" where
  "is_matrix a n k = (nd_shape a = [n, k] \<and> nd_ok a)"

definition is_vector :: "ndarray \<Rightarrow> nat \<Rightarrow> bool" where
  "is_vector a k = (nd_shape a = [k] \<and> nd_ok a)"

definition at2 :: "ndarray \<Rightarrow> nat \<Rightarrow> nat \<Rightarrow> real" where
  "at2 a i j = nd_data a ! (i * (nd_shape a ! 1) + j)"

definition matrix_of :: "nat \<Rightarrow> nat \<Rightarrow> (nat \<Rightarrow> nat \<Rightarrow> real) \<Rightarrow> ndarray" where
  "matrix_of n k f = NDArray [n, k] (concat (map (\<lambda>i. map (f i) [0..<k]) [0..<n]))"

definition map_nd :: "(real \<Rightarrow> real) \<Rightarrow> ndarray \<Rightarrow> ndarray" where
  "map_nd f a = NDArray (nd_shape a) (map f (nd_data a))"

definition ref_affine :: "ndarray \<Rightarrow> ndarray \<Rightarrow> ndarray \<Rightarrow> error + ndarray" where
  "ref_affine Z W b =
     (if length (nd_shape Z) = 2 \<and> is_matrix W (nd_shape Z ! 1) (nd_shape W ! 1)
         \<and> is_vector b (nd_shape W ! 1) \<and> nd_ok Z
      then Inr (matrix_of (nd_shape Z ! 0) (nd_shape W ! 1)
                  (\<lambda>i j. (\<Sum>t\<leftarrow>[0..<nd_shape Z ! 1]. at2 Z i t * at2 W t j) + nd_data b ! j))
      else Inl ValueError)"

definition sigmoid :: "real \<Rightarrow> real" where
  "sigmoid x = 1 / (1 + exp (- x))"

definition ref_forward_middle ::
  "ndarray \<Rightarrow> ndarray \<Rightarrow> ndarray \<Rightarrow> string \<Rightarrow> error + (ndarray \<times> ndarray)" where
  "ref_forward_middle Z W b act =
     bindE (ref_affine Z W b) (\<lambda>A.
       if act = ''sigmoid'' then Inr (map_nd sigmoid A, A)
       else if act = ''relu'' then Inr (map_nd (\<lambda>x. max 0 x) A, A)
       else Inl (PyException ''activation_function''))"

definition softmax_row :: "real list \<Rightarrow> real list" where
  "softmax_row r =
     (let m = fold max (tl r) (hd r); e = map (\<lambda>x. exp (x - m)) r
      in map (\<lambda>x. x / sum_list e) e)"

definition ref_softmax :: "ndarray \<Rightarrow> ndarray" where
  "ref_softmax A =
     NDArray (nd_shape A)
       (concat (map (\<lambda>i. softmax_row (nd_row (nd_shape A ! 1) A i)) [0..<nd_shape A ! 0]))"

definition ref_forward_last_classification ::
  "ndarray \<Rightarrow> ndarray \<Rightarrow> ndarray \<Rightarrow> error + ndarray" where
  "ref_forward_last_classification Z W b = bindE (ref_affine Z W b) (\<lambda>A. Inr (ref_softmax A))"

definition same_matrix_shape :: "ndarray \<Rightarrow> ndarray \<Rightarrow> bool" where
  "same_matrix_shape Y T =
     (length (nd_shape Y) = 2 \<and> nd_shape T = nd_shape Y \<and> nd_ok Y \<and> nd_ok T)"

definition ref_cross_entropy_error :: "ndarray \<Rightarrow> ndarray \<Rightarrow> error + real" where
  "ref_cross_entropy_error Y T =
     (if \<not> same_matrix_shape Y T then Inl ValueError
      else if nd_shape Y ! 0 = 0 then Inl NotANumber
      else Inr (- (\<Sum>yt\<leftarrow>zip (nd_data Y) (nd_data T).
                     snd yt * ln (max (1 / 10 ^ 7) (min (1 - 1 / 10 ^ 7) (fst yt))))
                / real (nd_shape Y ! 0)))"

definition ref_squared_error :: "ndarray \<Rightarrow> ndarray \<Rightarrow> error + real" where
  "ref_squared_error Y T =
     (if \<not> same_matrix_shape Y T then Inl ValueError
      else Inr ((\<Sum>yt\<leftarrow>zip (nd_data Y) (nd_data T). (fst yt - snd yt)\<^sup>2) / 2))"

definition ref_softmax_loss_backward :: "ndarray \<Rightarrow> ndarray \<Rightarrow> error + ndarray" where
  "ref_softmax_loss_backward Y T =
     (if \<not> same_matrix_shape Y T then Inl ValueError
      else Inr (NDArray (nd_shape Y)
                  (map (\<lambda>yt. (fst yt - snd yt) / real (nd_shape Y ! 0))
                     (zip (nd_data Y) (nd_data T)))))"

definition ref_affine_backward_bias :: "ndarray \<Rightarrow> error + ndarray" where
  "ref_affine_backward_bias dA =
     (if length (nd_shape dA) = 2 \<and> nd_ok dA
      then Inr (NDArray [nd_shape dA ! 1]
                  (map (\<lambda>j. \<Sum>i\<leftarrow>[0..<nd_shape dA ! 0]. at2 dA i j) [0..<nd_shape dA ! 1]))
      else Inl ValueError)"

definition ref_affine_backward_weight :: "ndarray \<Rightarrow> ndarray \<Rightarrow> error + ndarray" where
  "ref_affine_backward_weight dA Z =
     (if length (nd_shape dA) = 2 \<and> length (nd_shape Z) = 2
         \<and> nd_shape Z ! 0 = nd_shape dA ! 0 \<and> nd_ok dA \<and> nd_ok Z
      then Inr (matrix_of (nd_shape Z ! 1) (nd_shape dA ! 1)
                  (\<lambda>t j. \<Sum>i\<leftarrow>[0..<nd_shape dA ! 0]. at2 Z i t * at2 dA i j))
      else Inl ValueError)"

definition ref_affine_backward_zprev :: "ndarray \<Rightarrow> ndarray \<Rightarrow> error + ndarray" where
  "ref_affine_backward_zprev dA W =
     (if length (nd_shape dA) = 2 \<and> length (nd_shape W) = 2
         \<and> nd_shape W ! 1 = nd_shape dA ! 1 \<and> nd_ok dA \<and> nd_ok W
      then Inr (matrix_of (nd_shape dA ! 0) (nd_shape W ! 0)
                  (\<lambda>i t. \<Sum>j\<leftarrow>[0..<nd_shape dA ! 1]. at2 dA i j * at2 W t j))
      else Inl ValueError)"

definition ref_relu_backward :: "ndarray \<Rightarrow> ndarray \<Rightarrow> error + ndarray" where
  "ref_relu_backward dZ A =
     (if \<not> same_matrix_shape dZ A then Inl ValueError
      else Inr (NDArray (nd_shape dZ)
                  (map (\<lambda>da. if 0 < snd da then fst da else 0) (zip (nd_data dZ) (nd_data A)))))"

definition ref_sigmoid_backward :: "ndarray \<Rightarrow> ndarray \<Rightarrow> error + ndarray" where
  "ref_sigmoid_backward dZ Z =
     (if \<not> same_matrix_shape dZ Z then Inl ValueError
      else Inr (NDArray (nd_shape dZ)
                  (map (\<lambda>dz. fst dz * snd dz * (1 - snd dz)) (zip (nd_data dZ) (nd_data Z)))))"

definition ref_common :: common where
  "ref_common =
     \<lparr> forward_middle = ref_forward_middle,
       forward_last_classification = ref_forward_last_classification,
       cross_entropy_error = ref_cross_entropy_error,
       squared_error = ref_squared_error,
       softmax_loss_backward = ref_softmax_loss_backward,
       affine_backward_bias = ref_affine_backward_bias,
       affine_backward_weight = ref_affine_backward_weight,
       affine_backward_zprev = ref_affine_backward_zprev,
       relu_backward = ref_relu_backward,
       sigmoid_backward = ref_sigmoid_backward \<rparr>"

text \<open>
  A network of two layers with one input, one hidden neuron and two classes, and a batch
  of one sample.
\<close>

definition example_net :: "nat net" where
  "example_net =
     \<lparr> input_size = 1, output_size = 2, hidden_size = 1, n_layers = 2,
       learning_rate = 1 / 10, batch_size = 1, n_iter = 1,
       loss_type = ''squared_error'', activation_function = ''relu'',
       weight_init_std = 1 / 100,
       params = [[''W'' \<mapsto> NDArray [1, 1] [1], ''b'' \<mapsto> NDArray [1] [0]],
                 [''W'' \<mapsto> NDArray [1, 2] [1, 0], ''b'' \<mapsto> NDArray [2] [0, 0]]],
       one_hot_encoder = None \<rparr>"

definition example_X :: ndarray where
  "example_X = NDArray [1, 1] [1]"

definition example_T :: ndarray where
  "example_T = NDArray [1, 2] [1, 0]"

text \<open>The network of a single layer with one input, one hidden neuron and two classes.\<close>

definition single_layer_net :: "nat net" where
  "single_layer_net =
     \<lparr> input_size = 1, output_size = 2, hidden_size = 1, n_layers = 1,
       learning_rate = 1 / 10, batch_size = 1, n_iter = 1,
       loss_type = ''cross_entropy'', activation_function = ''relu'',
       weight_init_std = 1 / 100,
       params = [[''W'' \<mapsto> NDArray [1, 2] [1, 0], ''b'' \<mapsto> NDArray [2] [0, 0]]],
       one_hot_encoder = None \<rparr>"



text \<open>Two gradient sets for the example network, the second one all zero.\<close>

definition example_grads :: "pdict list" where
  "example_grads =
     [[''W'' \<mapsto> NDArray [1, 1] [1], ''b'' \<mapsto> NDArray [1] [2]],
      [''W'' \<mapsto> NDArray [1, 2] [3, 4], ''b'' \<mapsto> NDArray [2] [5, 6]]]"

definition zero_grads :: "pdict list" where
  "zero_grads =
     [[''W'' \<mapsto> NDArray [1, 1] [0], ''b'' \<mapsto> NDArray [1] [0]],
      [''W'' \<mapsto> NDArray [1, 2] [0, 0], ''b'' \<mapsto> NDArray [2] [0, 0]]]"

section \<open>A reference layer\<close>

text \<open>
  Modelled from the spec: the layer classes that \<open>ConvolutionNet\<close> is built from and the
  optimizer classes are missing from the sources.  This is a dense layer after sections
  4.1 and 4.2 of the specification: \<open>initialize_parameters\<close> allocates a weight matrix and
  a bias vector for the input width it is given and sets the layer's output shape; a
  layer that declares an input shape and is given another one raises, since section 7
  has a mismatch between a declared width and the adjacent layer raised at
  initialisation.  The
  forward call is the affine map (followed by the softmax in the output layer) and
  records its input, and the backward call stores the gradients of the weight and the
  bias in the layer and returns the gradient for the layer before.  An optimizer is its
  class together with the accumulators that \<open>initialize_opt_params\<close> allocates, one zero
  array per parameter.
\<close>

record dense =
  dn_input_shape :: "nat list option"
  dn_units :: nat
  dn_is_output :: bool
  dn_output_shape :: "nat list option"
  dn_params :: pdict
  dn_grads :: pdict
  dn_input :: "ndarray option"

definition dense_initialize_parameters :: "dense \<Rightarrow> nat list option \<Rightarrow> error + dense" where
  "dense_initialize_parameters ly shp =
     (case shp of
        Some [m] \<Rightarrow>
          if dn_input_shape ly \<noteq> None \<and> dn_input_shape ly \<noteq> shp then Inl ValueError
          else Inr (ly\<lparr>dn_params :=
                           [''W'' \<mapsto> NDArray [m, dn_units ly] (replicate (m * dn_units ly) 0),
                            ''b'' \<mapsto> NDArray [dn_units ly] (replicate (dn_units ly) 0)],
                         dn_output_shape := Some [dn_units ly]\<rparr>)
      | _ \<Rightarrow> Inl ValueError)"

definition dense_forward :: "dense \<Rightarrow> ndarray \<Rightarrow> error + (ndarray \<times> dense)" where
  "dense_forward ly Z =
     bindE (dict_get (dn_params ly) ''W'') (\<lambda>W.
     bindE (dict_get (dn_params ly) ''b'') (\<lambda>b.
     bindE (if dn_is_output ly then ref_forward_last_classification Z W b
            else ref_affine Z W b) (\<lambda>out.
     Inr (out, ly\<lparr>dn_input := Some Z\<rparr>))))"

definition dense_backward :: "dense \<Rightarrow> ndarray \<Rightarrow> error + (ndarray \<times> dense)" where
  "dense_backward ly dA =
     (case dn_input ly of
        None \<Rightarrow> Inl AttributeError
      | Some Z \<Rightarrow>
          bindE (dict_get (dn_params ly) ''W'') (\<lambda>W.
          bindE (ref_affine_backward_bias dA) (\<lambda>db.
          bindE (ref_affine_backward_weight dA Z) (\<lambda>dW.
          bindE (ref_affine_backward_zprev dA W) (\<lambda>dZ.
          Inr (dZ, ly\<lparr>dn_grads := [''W'' \<mapsto> dW, ''b'' \<mapsto> db]\<rparr>))))))"

definition dense_backward_last :: "dense \<Rightarrow> ndarray \<Rightarrow> ndarray \<Rightarrow> error + (ndarray \<times> dense)" where
  "dense_backward_last ly Y T = bindE (ref_softmax_loss_backward Y T) (dense_backward ly)"

definition dense_ops :: "(dense, optimizer_class \<times> pdict) layer_ops" where
  "dense_ops =
     \<lparr> input_shape = dn_input_shape,
       output_shape = dn_output_shape,
       layer_initialize_parameters = dense_initialize_parameters,
       forward = dense_forward,
       backward_last = dense_backward_last,
       backward = dense_backward,
       layer_params = dn_params,
       new_optimizer = (\<lambda>cls. (cls, Map.empty)),
       initialize_opt_params = (\<lambda>opt ps. Inr (fst opt, map_option zeros_like \<circ> ps)) \<rparr>"

text \<open>A dense layer as its constructor leaves it: no parameters, no shape of its output yet.\<close>

definition new_dense :: "nat list option \<Rightarrow> nat \<Rightarrow> bool \<Rightarrow> dense" where
  "new_dense declared units is_output =
     \<lparr> dn_input_shape = declared, dn_units = units, dn_is_output = is_output,
       dn_output_shape = None, dn_params = Map.empty, dn_grads = Map.empty,
       dn_input = None \<rparr>"

text \<open>
  A layered network of one output layer with the parameters of the second layer of the
  example network, after its construction.
\<close>

definition example_convnet :: "(nat, dense, optimizer_class \<times> pdict) convnet" where
  "example_convnet =
     \<lparr> layers = [(new_dense (Some [1]) 2 True)
                    \<lparr>dn_output_shape := Some [2],
                     dn_params := [''W'' \<mapsto> NDArray [1, 2] [1, 0], ''b'' \<mapsto> NDArray [2] [0, 0]]\<rparr>],
       cn_learning_rate = 1 / 10, cn_batch_size = 1, cn_n_iter = 1,
       cn_loss_type = ''cross_entropy'', solver = ''sgd'', momentum = 9 / 10,
       beta_1 = 9 / 10, beta_2 = 999 / 1000, epsilon = 1 / 10 ^ 8,
       cn_n_layers = Some 1, optimizers = [(SGD (1 / 10), Map.empty)],
       cn_one_hot_encoder = None \<rparr>"

text \<open>
  The class probabilities of the example network for the example batch, and a second
  target, of the other class.
\<close>

definition example_Y :: ndarray where
  "example_Y = NDArray [1, 2] [1 / (1 + exp (- 1)), exp (- 1) / (1 + exp (- 1))]"

definition other_T :: ndarray where
  "other_T = NDArray [1, 2] [0, 1]"

text \<open>A data set of two samples, its targets, and a generator that counts upwards.\<close>

definition two_X :: ndarray where
  "two_X = NDArray [2, 1] [10, 20]"

definition two_T :: ndarray where
  "two_T = NDArray [2, 2] [1, 0, 0, 1]"

definition counting_draws :: "nat \<Rightarrow> nat" where
  "counting_draws j = j"

text \<open>
  Two dense layers whose declared widths do not fit: the first one has five outputs and
  the second one declares seven inputs; and two layers that fit, the second one
  declaring the five inputs that it gets.  The network objects below hold them as the
  constructor does before it initialises the parameters.
\<close>

definition mismatched_layers :: "dense list" where
  "mismatched_layers = [new_dense (Some [4]) 5 False, new_dense (Some [7]) 3 True]"

definition fitting_layers :: "dense list" where
  "fitting_layers = [new_dense (Some [4]) 5 False, new_dense (Some [5]) 3 True]"

definition mismatched_convnet :: "(nat, dense, optimizer_class \<times> pdict) convnet" where
  "mismatched_convnet =
     \<lparr> layers = mismatched_layers,
       cn_learning_rate = 1 / 10, cn_batch_size = 10, cn_n_iter = 100,
       cn_loss_type = ''cross_entropy'', solver = ''sgd'', momentum = 9 / 10,
       beta_1 = 9 / 10, beta_2 = 999 / 1000, epsilon = 1 / 10 ^ 8,
       cn_n_layers = None, optimizers = [], cn_one_hot_encoder = None \<rparr>"

definition fitting_convnet :: "(nat, dense, optimizer_class \<times> pdict) convnet" where
  "fitting_convnet = mismatched_convnet\<lparr>layers := fitting_layers\<rparr>"

text \<open>The shapes of the weight matrices of a constructed network, layer by layer.\<close>

definition conv_weight_shapes ::
  "error + (nat, dense, optimizer_class \<times> pdict) convnet \<Rightarrow> error + nat list option list" where
  "conv_weight_shapes r =
     bindE r (\<lambda>s. Inr (map (\<lambda>ly. map_option nd_shape (dn_params ly ''W'')) (layers s)))"

text \<open>
  A batch of two samples with two features, the labels of its two classes, and a
  generator that yields zeros.
\<close>

definition two_feature_X :: ndarray where
  "two_feature_X = NDArray [2, 2] [1, 2, 3, 4]"

definition two_labels :: "nat target" where
  "two_labels = Labels [0, 1]"

definition zero_rng :: rng where
  "zero_rng i = 0"

section \<open>Notions of the specification\<close>

text \<open>The position in a list of length \<open>n\<close> that the Python index \<open>i\<close> denotes.\<close>

definition py_index :: "nat \<Rightarrow> int \<Rightarrow> nat" where
  "py_index n i = nat (if i < 0 then int n + i else i)"

text \<open>
  The array \<open>P\<close> with the single component \<open>idx\<close> (in row-major order) moved by \<open>d\<close> and
  every other component as it is.
\<close>

definition perturb :: "ndarray \<Rightarrow> nat \<Rightarrow> real \<Rightarrow> ndarray" where
  "perturb P idx d = NDArray (nd_shape P) ((nd_data P)[idx := nd_data P ! idx + d])"

text \<open>The network object with \<open>v\<close> in the place of the parameter \<open>k\<close> of layer \<open>l\<close>.\<close>

definition store_param :: "'a net \<Rightarrow> int \<Rightarrow> string \<Rightarrow> ndarray \<Rightarrow> 'a net" where
  "store_param s l k v =
     s\<lparr>params := (params s)[py_index (length (params s)) l :=
                    ((params s) ! py_index (length (params s)) l)(k \<mapsto> v)]\<rparr>"

text \<open>A call returns when its result is a value and not an exception.\<close>

definition returns :: "error + 'a \<Rightarrow> bool" where
  "returns m = (case m of Inl e \<Rightarrow> False | Inr x \<Rightarrow> True)"

text \<open>
  A gradient set is aligned with a parameter store when it has one entry per layer, in
  the order of the layers, and every entry has exactly the keys \<open>'W'\<close> and \<open>'b'\<close>, with
  arrays of the shapes of the weight matrix and the bias vector of that layer.
\<close>

definition aligned :: "pdict list \<Rightarrow> pdict list \<Rightarrow> bool" where
  "aligned grads ps =
     (length grads = length ps \<and>
      (\<forall>l<length ps. dom (grads ! l) = {''W'', ''b''} \<and>
         (\<forall>k\<in>{''W'', ''b''}. (ps ! l) k \<noteq> None \<and>
            map_option nd_shape ((grads ! l) k) = map_option nd_shape ((ps ! l) k))))"

text \<open>
  The array \<open>p\<close> after a gradient step: every component \<open>x\<close> becomes \<open>x - lr * y\<close> for the
  component \<open>y\<close> of the gradient \<open>g\<close> at the same position.
\<close>

definition sgd_updated :: "real \<Rightarrow> ndarray \<Rightarrow> ndarray \<Rightarrow> ndarray" where
  "sgd_updated lr p g =
     NDArray (nd_shape p) (map (\<lambda>xy. fst xy - lr * snd xy) (zip (nd_data p) (nd_data g)))"

text \<open>
  Every weight matrix and bias vector of a list of dictionaries holds as many elements
  as its shape says, as every numpy array does.
\<close>

definition all_ok :: "pdict list \<Rightarrow> bool" where
  "all_ok ds = (\<forall>d\<in>set ds. \<forall>k\<in>{''W'', ''b''}. \<forall>a. d k = Some a \<longrightarrow> nd_ok a)"

text \<open>Every component of every array of a gradient set is zero.\<close>

definition all_zero :: "pdict list \<Rightarrow> bool" where
  "all_zero ds =
     (\<forall>d\<in>set ds. \<forall>k\<in>{''W'', ''b''}. \<forall>a. d k = Some a \<longrightarrow> (\<forall>x\<in>set (nd_data a). x = 0))"

text \<open>The arg-max index of row \<open>i\<close> of a two-dimensional array.\<close>

definition argmax_index :: "ndarray \<Rightarrow> nat \<Rightarrow> nat" where
  "argmax_index a i = argmax_row (nd_row (nd_shape a ! 1) a i)"

text \<open>
  The fraction, among the first \<open>n\<close> rows, of the rows whose arg-max index in \<open>Y\<close> equals
  their arg-max index in \<open>T\<close>.
\<close>

definition match_fraction :: "nat \<Rightarrow> ndarray \<Rightarrow> ndarray \<Rightarrow> real" where
  "match_fraction n Y T =
     real (length (filter (\<lambda>i. argmax_index Y i = argmax_index T i) [0..<n])) / real n"

text \<open>
  The input shape that the initialisation of a layered network hands to layer \<open>j\<close>: the
  layer's own \<open>input_shape\<close> for the first layer, and otherwise the \<open>output_shape\<close> of the
  initialised layer before it.  \<open>ls0\<close> are the layers before and \<open>ls\<close> the layers after the
  initialisation.
\<close>

definition given_shape ::
  "('l, 'o) layer_ops \<Rightarrow> 'l list \<Rightarrow> 'l list \<Rightarrow> nat \<Rightarrow> nat list option" where
  "given_shape ops ls0 ls j =
     (if j = 0 then input_shape ops (ls0 ! 0) else output_shape ops (ls ! (j - 1)))"

text \<open>The five solver names that \<open>_initialize_optimizers\<close> knows.\<close>

definition known_solvers :: "string list" where
  "known_solvers = [''sgd'', ''momentum'', ''adagrad'', ''rmsprop'', ''adam'']"

text \<open>
  The widths of the layers of a plain network as the initialisation lays them out: the
  input width, the hidden width after every layer but the last, and the number of
  classes.
\<close>

definition layer_widths :: "'a net \<Rightarrow> nat list" where
  "layer_widths s =
     input_size s # replicate (nat (n_layers s) - 1) (nat (hidden_size s)) @ [output_size s]"

text \<open>
  A parameter store has the widths \<open>ws\<close>: layer \<open>l\<close> has a weight matrix of
  \<open>ws ! l\<close> rows and \<open>ws ! (l + 1)\<close> columns and a bias vector of \<open>ws ! (l + 1)\<close> elements,
  so the output width of every layer is the input width of the next one.
\<close>

definition params_shaped :: "nat list \<Rightarrow> pdict list \<Rightarrow> bool" where
  "params_shaped ws ps =
     (length ws = Suc (length ps) \<and>
      (\<forall>l<length ps.
         (case (ps ! l) ''W'' of None \<Rightarrow> False | Some W \<Rightarrow> is_matrix W (ws ! l) (ws ! Suc l)) \<and>
         (case (ps ! l) ''b'' of None \<Rightarrow> False | Some b \<Rightarrow> is_vector b (ws ! Suc l))))"

text \<open>
  The shapes of section 4.1 of the specification, as a contract on a set of helpers: on
  arrays of fitting shapes every helper returns, and its result has the shape that the
  mathematics gives it.  \<open>m\<close> is the number of rows of the batch.
\<close>

definition shape_contract :: "common \<Rightarrow> bool" where
  "shape_contract c =
     ((\<forall>Z W b act m r k.
         is_matrix Z m r \<and> is_matrix W r k \<and> is_vector b k \<and> act \<in> {''relu'', ''sigmoid''} \<longrightarrow>
         (\<exists>Zo A. forward_middle c Z W b act = Inr (Zo, A) \<and> is_matrix Zo m k \<and> is_matrix A m k)) \<and>
      (\<forall>Z W b m r k.
         is_matrix Z m r \<and> is_matrix W r k \<and> is_vector b k \<longrightarrow>
         (\<exists>Y. forward_last_classification c Z W b = Inr Y \<and> is_matrix Y m k)) \<and>
      (\<forall>Y T m k.
         is_matrix Y m k \<and> is_matrix T m k \<longrightarrow>
         (\<exists>dA. softmax_loss_backward c Y T = Inr dA \<and> is_matrix dA m k)) \<and>
      (\<forall>dA m k.
         is_matrix dA m k \<longrightarrow> (\<exists>db. affine_backward_bias c dA = Inr db \<and> is_vector db k)) \<and>
      (\<forall>dA Z m k r.
         is_matrix dA m k \<and> is_matrix Z m r \<longrightarrow>
         (\<exists>dW. affine_backward_weight c dA Z = Inr dW \<and> is_matrix dW r k)) \<and>
      (\<forall>dA W m k r.
         is_matrix dA m k \<and> is_matrix W r k \<longrightarrow>
         (\<exists>dZ. affine_backward_zprev c dA W = Inr dZ \<and> is_matrix dZ m r)) \<and>
      (\<forall>dZ A m k.
         is_matrix dZ m k \<and> is_matrix A m k \<longrightarrow>
         (\<exists>dA. relu_backward c dZ A = Inr dA \<and> is_matrix dA m k)) \<and>
      (\<forall>dZ Z m k.
         is_matrix dZ m k \<and> is_matrix Z m k \<longrightarrow>
         (\<exists>dA. sigmoid_backward c dZ Z = Inr dA \<and> is_matrix dA m k)))"

text \<open>What a caller receives from a gradient method is a gradient set aligned with \<open>ps\<close>.\<close>

definition aligned_result :: "returned \<Rightarrow> pdict list \<Rightarrow> bool" where
  "aligned_result r ps = (case r of PyNone \<Rightarrow> False | Gradients grads \<Rightarrow> aligned grads ps)"

text \<open>The value that a call hands back, without the object.\<close>

definition returned_value :: "error + (returned \<times> 's) \<Rightarrow> error + returned" where
  "returned_value r = bindE r (\<lambda>p. Inr (fst p))"



section \<open>Auxiliary notions of the proofs\<close>

text \<open>The body of the loop of \<open>numerical_gradient_all\<close>.\<close>

definition nga_body ::
  "common \<Rightarrow> ndarray \<Rightarrow> ndarray \<Rightarrow> int \<Rightarrow> pdict list \<times> 'a net \<Rightarrow> error + (pdict list \<times> 'a net)" where
  "nga_body c X T =
     (\<lambda>l st.
        bindE (numerical_gradient c (snd st) X T ''W'' l) (\<lambda>gW.
        bindE (grads_set (fst st) l ''W'' (fst gW)) (\<lambda>grads1.
        bindE (numerical_gradient c (snd gW) X T ''b'' l) (\<lambda>gb.
        bindE (grads_set grads1 l ''b'' (fst gb)) (\<lambda>grads2.
        Inr (grads2, snd gb))))))"

text \<open>
  The dictionary \<open>d\<close> is \<open>d0\<close> with gradients for \<open>'W'\<close> and \<open>'b'\<close> that have the shapes of
  the parameters of layer \<open>l\<close>.
\<close>

definition layer_grads_ok :: "'a net \<Rightarrow> int \<Rightarrow> pdict \<Rightarrow> pdict \<Rightarrow> bool" where
  "layer_grads_ok s l d0 d =
     (\<exists>PW Pb GW Gb.
        param_get s l ''W'' = Inr PW \<and> param_get s l ''b'' = Inr Pb \<and>
        nd_shape GW = nd_shape PW \<and> nd_shape Gb = nd_shape Pb \<and>
        d = d0(''W'' \<mapsto> GW, ''b'' \<mapsto> Gb))"

text \<open>
  The parameter \<open>k\<close> of layer \<open>l\<close> is an array whose elements fit its shape, and the loss
  returns with any single component of it moved by \<open>h\<close> or by \<open>- h\<close>.
\<close>

definition losses_return ::
  "common \<Rightarrow> 'a net \<Rightarrow> ndarray \<Rightarrow> ndarray \<Rightarrow> int \<Rightarrow> string \<Rightarrow> bool" where
  "losses_return c s X T l k =
     (case param_get s l k of
        Inl e \<Rightarrow> False
      | Inr P \<Rightarrow>
          nd_ok P \<and>
          (\<forall>idx<length (nd_data P).
             returns (loss c (store_param s l k (perturb P idx h_step)) X T) \<and>
             returns (loss c (store_param s l k (perturb P idx (- h_step))) X T)))"

text \<open>The dictionary of a layer after the update of its two parameters.\<close>

definition updated_dict :: "real \<Rightarrow> pdict \<Rightarrow> pdict \<Rightarrow> pdict" where
  "updated_dict lr d gd =
     d(''W'' \<mapsto> sgd_updated lr (the (d ''W'')) (the (gd ''W'')),
       ''b'' \<mapsto> sgd_updated lr (the (d ''b'')) (the (gd ''b'')))"

text \<open>
  The parameters and the gradients of a layer fit: both keys are there and the gradient
  has the shape of the parameter and as many elements as the shape says.
\<close>

definition layer_fits :: "pdict \<Rightarrow> pdict \<Rightarrow> bool" where
  "layer_fits d gd =
     (\<forall>k\<in>{''W'', ''b''}.
        \<exists>p g. d k = Some p \<and> gd k = Some g \<and> nd_shape g = nd_shape p \<and> nd_ok g)"

text \<open>The body of the loop of \<open>update_parameters\<close>.\<close>

definition update_body :: "pdict list \<Rightarrow> int \<Rightarrow> 'a net \<Rightarrow> error + 'a net" where
  "update_body grads =
     (\<lambda>l s1. bindE (isub_param s1 grads l ''W'') (\<lambda>s2. isub_param s2 grads l ''b''))"

text \<open>The body of the loop of \<open>ConvolutionNet._initialize_parameters\<close>.\<close>

definition conv_layer_body :: "('l, 'o) layer_ops \<Rightarrow> int \<Rightarrow> 'l list \<Rightarrow> error + 'l list" where
  "conv_layer_body ops =
     (\<lambda>l ls.
        bindE (py_get ls l) (\<lambda>layer.
        bindE (if l = 0
               then layer_initialize_parameters ops layer (input_shape ops layer)
               else bindE (py_get ls (l - 1)) (\<lambda>prev.
                    layer_initialize_parameters ops layer (output_shape ops prev)))
          (\<lambda>layer'. py_set ls l layer')))"

text \<open>
  Layer \<open>j\<close> of a parameter store has a weight matrix of \<open>r\<close> rows and \<open>c\<close> columns, or a
  bias vector of \<open>c\<close> elements.
\<close>

definition W_ok :: "pdict list \<Rightarrow> nat \<Rightarrow> nat \<Rightarrow> nat \<Rightarrow> bool" where
  "W_ok ps j r c = (case (ps ! j) ''W'' of None \<Rightarrow> False | Some A \<Rightarrow> is_matrix A r c)"

definition b_ok :: "pdict list \<Rightarrow> nat \<Rightarrow> nat \<Rightarrow> bool" where
  "b_ok ps j c = (case (ps ! j) ''b'' of None \<Rightarrow> False | Some A \<Rightarrow> is_vector A c)"

text \<open>
  The dictionary \<open>d\<close> holds a weight gradient and a bias gradient of the shapes of layer
  \<open>j\<close> of a network of the widths \<open>ws\<close>, and nothing else.
\<close>

definition grad_entry_ok :: "nat list \<Rightarrow> nat \<Rightarrow> pdict \<Rightarrow> bool" where
  "grad_entry_ok ws j d =
     (\<exists>dW db. d = [''b'' \<mapsto> db, ''W'' \<mapsto> dW] \<and>
        is_matrix dW (ws ! j) (ws ! Suc j) \<and> is_vector db (ws ! Suc j))"

section \<open>Basic facts\<close>

lemma bindE_Inl [simp]: "bindE (Inl e) f = Inl e"
  by (simp add: bindE_def)

lemma bindE_Inr [simp]: "bindE (Inr x) f = f x"
  by (simp add: bindE_def)

lemma bindE_eq_Inr: "bindE m f = Inr y \<longleftrightarrow> (\<exists>x. m = Inr x \<and> f x = Inr y)"
  by (cases m) simp_all



lemma py_get_Inr: "py_get xs i = Inr x \<Longrightarrow> py_index (length xs) i < length xs \<and> x = xs ! py_index (length xs) i"
  by (auto simp: py_get_def py_index_def Let_def split: if_splits)

lemma py_set_Inr: "py_get xs i = Inr x \<Longrightarrow> py_set xs i v = Inr (xs[py_index (length xs) i := v])"
  by (auto simp: py_get_def py_set_def py_index_def Let_def split: if_splits)

lemma param_set_char:
  assumes "param_get s l k = Inr P"
  shows "param_set s l k v =
           Inr (s\<lparr>params := (params s)[py_index (length (params s)) l :=
                      ((params s) ! py_index (length (params s)) l)(k \<mapsto> v)]\<rparr>)"
proof -
  from assms obtain d where d: "py_get (params s) l = Inr d"
    by (auto simp: param_get_def bindE_eq_Inr)
  from py_get_Inr[OF d] py_set_Inr[OF d] d show ?thesis
    by (simp add: param_set_def)
qed

lemma param_get_after_set:
  assumes "param_get s l k = Inr P"
  shows "param_get (s\<lparr>params := (params s)[py_index (length (params s)) l :=
                      ((params s) ! py_index (length (params s)) l)(k \<mapsto> v)]\<rparr>) l k = Inr v"
proof -
  from assms obtain d where d: "py_get (params s) l = Inr d"
    by (auto simp: param_get_def bindE_eq_Inr)
  from py_get_Inr[OF d] d show ?thesis
    by (auto simp: param_get_def py_get_def py_index_def dict_get_def Let_def split: if_splits)
qed

lemma param_set_restore:
  assumes "param_get s l k = Inr P"
  shows "s\<lparr>params := (params s)[py_index (length (params s)) l :=
                      ((params s) ! py_index (length (params s)) l)(k \<mapsto> P)]\<rparr> = s"
proof -
  from assms obtain d where d: "py_get (params s) l = Inr d" and dk: "dict_get d k = Inr P"
    by (auto simp: param_get_def bindE_eq_Inr)
  from dk have "d k = Some P" by (auto simp: dict_get_def split: option.splits)
  hence "d(k \<mapsto> P) = d" by (rule map_upd_triv)
  with py_get_Inr[OF d] show ?thesis by simp
qed

lemma map2_eye_add:
  "idx < length xs \<Longrightarrow>
   map2 (+) xs (map (\<lambda>j. (if j = idx then 1 else 0) * h) [0..<length xs]) = xs[idx := xs ! idx + (h::real)]"
  by (rule nth_equalityI) (auto simp: nth_list_update)

lemma map2_eye_sub:
  "idx < length xs \<Longrightarrow>
   map2 (-) xs (map (\<lambda>j. (if j = idx then 1 else 0) * h) [0..<length xs]) = xs[idx := xs ! idx + (- (h::real))]"
  by (rule nth_equalityI) (auto simp: nth_list_update)

lemma reshape_plus:
  "reshape (vec_add (ravel P) (eye_row_scaled (length (nd_data (ravel P))) idx h)) (nd_shape P) =
     (if nd_ok P then Inr (NDArray (nd_shape P) (map2 (+) (nd_data P) (map (\<lambda>j. (if j = idx then 1 else 0) * h) [0..<length (nd_data P)]))) else Inl ValueError)"
  by (auto simp: reshape_def vec_add_def ravel_def eye_row_scaled_def nd_ok_def)

lemma reshape_minus:
  "reshape (vec_sub (ravel P) (eye_row_scaled (length (nd_data (ravel P))) idx h)) (nd_shape P) =
     (if nd_ok P then Inr (NDArray (nd_shape P) (map2 (-) (nd_data P) (map (\<lambda>j. (if j = idx then 1 else 0) * h) [0..<length (nd_data P)]))) else Inl ValueError)"
  by (auto simp: reshape_def vec_sub_def ravel_def eye_row_scaled_def nd_ok_def)



lemma param_set_store: "param_get s l k = Inr P \<Longrightarrow> param_set s l k v = Inr (store_param s l k v)"
  by (simp add: param_set_char store_param_def)

lemma param_get_store: "param_get s l k = Inr P \<Longrightarrow> param_get (store_param s l k v) l k = Inr v"
  by (simp add: param_get_after_set store_param_def)

lemma store_param_twice: "store_param (store_param s l k v) l k w = store_param s l k w"
  by (cases "py_index (length (params s)) l < length (params s)")
     (simp_all add: store_param_def list_update_beyond)

lemma store_param_same: "param_get s l k = Inr P \<Longrightarrow> store_param s l k P = s"
  by (simp add: param_set_restore store_param_def)

lemma numerical_gradient_step_char:
  assumes P: "param_get s l name = Inr P"
      and idx: "idx < length (nd_data P)"
      and step: "numerical_gradient_step c X T name l P idx (s, g) = Inr st"
  shows "fst st = s \<and> nd_ok P \<and>
         (\<exists>f_plus f_minus.
            loss c (store_param s l name (perturb P idx h_step)) X T = Inr f_plus \<and>
            loss c (store_param s l name (perturb P idx (- h_step))) X T = Inr f_minus \<and>
            snd st = g[idx := (f_plus - f_minus) / (2 * h_step)])"
proof -
  have ok: "nd_ok P"
    using step by (auto simp: numerical_gradient_step_def Let_def reshape_plus split: if_splits)
  note g1 = param_get_store[OF P]
  show ?thesis
    using step P idx ok
    by (auto simp: numerical_gradient_step_def Let_def reshape_plus reshape_minus bindE_eq_Inr
          param_set_store[OF P] param_set_store[OF g1] store_param_twice store_param_same
          map2_eye_add map2_eye_sub perturb_def)
qed

section \<open>The numerical gradient\<close>

lemma numerical_gradient_loop:
  assumes P: "param_get s l name = Inr P"
  shows "set js \<subseteq> {..<length (nd_data P)} \<Longrightarrow> distinct js \<Longrightarrow> length g = length (nd_data P) \<Longrightarrow>
         for_loop js (numerical_gradient_step c X T name l P) (s, g) = Inr st \<Longrightarrow>
         fst st = s \<and> length (snd st) = length g \<and>
         (\<forall>j. j \<notin> set js \<longrightarrow> snd st ! j = g ! j) \<and>
         (\<forall>idx\<in>set js. \<exists>f_plus f_minus.
            loss c (store_param s l name (perturb P idx h_step)) X T = Inr f_plus \<and>
            loss c (store_param s l name (perturb P idx (- h_step))) X T = Inr f_minus \<and>
            snd st ! idx = (f_plus - f_minus) / (2 * h_step))"
proof (induction js arbitrary: g)
  case Nil
  then show ?case by auto
next
  case (Cons i js)
  from Cons.prems(4) obtain st1 where
    step: "numerical_gradient_step c X T name l P i (s, g) = Inr st1" and
    rest: "for_loop js (numerical_gradient_step c X T name l P) st1 = Inr st"
    by (auto split: sum.splits)
  from Cons.prems(1) have i: "i < length (nd_data P)" by simp
  from numerical_gradient_step_char[OF P i step] obtain f_plus f_minus where
    st1: "fst st1 = s"
    and fp: "loss c (store_param s l name (perturb P i h_step)) X T = Inr f_plus"
    and fm: "loss c (store_param s l name (perturb P i (- h_step))) X T = Inr f_minus"
    and g1: "snd st1 = g[i := (f_plus - f_minus) / (2 * h_step)]"
    by blast
  let ?g1 = "g[i := (f_plus - f_minus) / (2 * h_step)]"
  have st1_eq: "st1 = (s, ?g1)" using st1 g1 by (cases st1) simp
  have IH: "fst st = s \<and> length (snd st) = length ?g1 \<and>
         (\<forall>j. j \<notin> set js \<longrightarrow> snd st ! j = ?g1 ! j) \<and>
         (\<forall>idx\<in>set js. \<exists>f_plus f_minus.
            loss c (store_param s l name (perturb P idx h_step)) X T = Inr f_plus \<and>
            loss c (store_param s l name (perturb P idx (- h_step))) X T = Inr f_minus \<and>
            snd st ! idx = (f_plus - f_minus) / (2 * h_step))"
    using Cons.IH[of ?g1] Cons.prems rest st1_eq by simp
  have inotin: "i \<notin> set js" using Cons.prems(2) by simp
  have "snd st ! i = (f_plus - f_minus) / (2 * h_step)"
    using IH inotin i Cons.prems(3) by simp
  with IH fp fm show ?case
    by (auto simp: nth_list_update)
qed

lemma returns_simps [simp]: "returns (Inr x) = True" "returns (Inl e) = False"
  by (simp_all add: returns_def)

lemma returns_iff: "returns m \<longleftrightarrow> (\<exists>x. m = Inr x)"
  by (cases m) simp_all

lemma numerical_gradient_frame:
  assumes run: "numerical_gradient c s X T name l = Inr (G, s')"
  shows "\<exists>P. param_get s l name = Inr P \<and> nd_shape G = nd_shape P \<and> nd_ok G \<and> s' = s"
proof -
  from run obtain P where P: "param_get s l name = Inr P"
    by (auto simp: numerical_gradient_def bindE_eq_Inr)
  let ?n = "length (nd_data P)"
  from run P obtain st where
    loop: "for_loop [0..<?n] (numerical_gradient_step c X T name l P) (s, replicate ?n 0) = Inr st"
    and G: "reshape (NDArray [?n] (snd st)) (nd_shape P) = Inr G" and s': "s' = fst st"
    by (auto simp: numerical_gradient_def Let_def bindE_eq_Inr ravel_def zeros_like_def)
  have "set [0..<?n] \<subseteq> {..<?n}" "distinct [0..<?n]" "length (replicate ?n (0::real)) = ?n"
    by auto
  from numerical_gradient_loop[OF P this loop] have "fst st = s" by blast
  moreover from G have "nd_shape G = nd_shape P" "nd_ok G"
    by (auto simp: reshape_def nd_ok_def split: if_splits)
  ultimately show ?thesis using P s' by simp
qed

lemma numerical_gradient_step_returns:
  assumes P: "param_get s l name = Inr P"
      and idx: "idx < length (nd_data P)"
      and ok: "nd_ok P"
      and fp: "loss c (store_param s l name (perturb P idx h_step)) X T = Inr f_plus"
      and fm: "loss c (store_param s l name (perturb P idx (- h_step))) X T = Inr f_minus"
  shows "numerical_gradient_step c X T name l P idx (s, g) =
           Inr (s, g[idx := (f_plus - f_minus) / (2 * h_step)])"
proof -
  note g1 = param_get_store[OF P]
  have g2: "param_get (store_param s l name v) l name = Inr v" for v
    by (rule param_get_store[OF P])
  show ?thesis
    using idx ok fp fm
    by (simp add: numerical_gradient_step_def Let_def reshape_plus reshape_minus
          param_set_store[OF P] param_set_store[OF g2] store_param_twice store_param_same[OF P]
          map2_eye_add map2_eye_sub perturb_def)
qed

lemma numerical_gradient_loop_returns:
  assumes P: "param_get s l name = Inr P" and ok: "nd_ok P"
      and L: "\<forall>idx<length (nd_data P).
                returns (loss c (store_param s l name (perturb P idx h_step)) X T) \<and>
                returns (loss c (store_param s l name (perturb P idx (- h_step))) X T)"
  shows "set js \<subseteq> {..<length (nd_data P)} \<Longrightarrow>
         \<exists>g'. for_loop js (numerical_gradient_step c X T name l P) (s, g) = Inr (s, g') \<and>
              length g' = length g"
proof (induction js arbitrary: g)
  case Nil
  then show ?case by simp
next
  case (Cons i js)
  then have i: "i < length (nd_data P)" by simp
  with L obtain f_plus f_minus where
    fp: "loss c (store_param s l name (perturb P i h_step)) X T = Inr f_plus" and
    fm: "loss c (store_param s l name (perturb P i (- h_step))) X T = Inr f_minus"
    by (auto simp: returns_iff)
  note step = numerical_gradient_step_returns[OF P i ok fp fm]
  from Cons.IH[of "g[i := (f_plus - f_minus) / (2 * h_step)]"] Cons.prems
  show ?case by (auto simp: step)
qed

lemma numerical_gradient_returns:
  assumes P: "param_get s l name = Inr P" and ok: "nd_ok P"
      and L: "\<forall>idx<length (nd_data P).
                returns (loss c (store_param s l name (perturb P idx h_step)) X T) \<and>
                returns (loss c (store_param s l name (perturb P idx (- h_step))) X T)"
  shows "\<exists>G. numerical_gradient c s X T name l = Inr (G, s)"
proof -
  let ?n = "length (nd_data P)"
  have "set [0..<?n] \<subseteq> {..<?n}" by auto
  from numerical_gradient_loop_returns[OF P ok L this, of "replicate ?n 0"]
  obtain g' where
    loop: "for_loop [0..<?n] (numerical_gradient_step c X T name l P) (s, replicate ?n 0) = Inr (s, g')"
    and len: "length g' = ?n" by auto
  from ok len have "reshape (NDArray [?n] g') (nd_shape P) = Inr (NDArray (nd_shape P) g')"
    by (simp add: reshape_def nd_ok_def)
  with loop P show ?thesis
    by (simp add: numerical_gradient_def Let_def ravel_def zeros_like_def)
qed

lemma grads_set_char:
  "0 \<le> l \<Longrightarrow> nat l < length grads \<Longrightarrow>
   grads_set grads l k v = Inr (grads[nat l := (grads ! nat l)(k \<mapsto> v)])"
  by (simp add: grads_set_def py_get_def py_set_def Let_def)

lemma nga_body_char:
  assumes l: "0 \<le> l" "nat l < length grads"
      and run: "nga_body c X T l (grads, s) = Inr st"
  shows "\<exists>d. layer_grads_ok s l (grads ! nat l) d \<and> st = (grads[nat l := d], s)"
proof -
  from run obtain GW s1 where
    rW: "numerical_gradient c s X T ''W'' l = Inr (GW, s1)"
    by (auto simp: nga_body_def bindE_eq_Inr)
  from numerical_gradient_frame[OF rW] obtain PW where
    PW: "param_get s l ''W'' = Inr PW" "nd_shape GW = nd_shape PW" "s1 = s" by blast
  from run rW PW l obtain Gb s2 where
    rb: "numerical_gradient c s X T ''b'' l = Inr (Gb, s2)"
    by (auto simp: nga_body_def bindE_eq_Inr grads_set_char)
  from numerical_gradient_frame[OF rb] obtain Pb where
    Pb: "param_get s l ''b'' = Inr Pb" "nd_shape Gb = nd_shape Pb" "s2 = s" by blast
  from run rW rb PW Pb l
  have "st = (grads[nat l := (grads ! nat l)(''W'' \<mapsto> GW, ''b'' \<mapsto> Gb)], s)"
    by (auto simp: nga_body_def grads_set_char)
  moreover have "layer_grads_ok s l (grads ! nat l) ((grads ! nat l)(''W'' \<mapsto> GW, ''b'' \<mapsto> Gb))"
    unfolding layer_grads_ok_def using PW Pb by blast
  ultimately show ?thesis by blast
qed

lemma nga_loop:
  "set ls \<subseteq> {0..<int (length grads)} \<Longrightarrow> distinct ls \<Longrightarrow>
   for_loop ls (nga_body c X T) (grads, s) = Inr st \<Longrightarrow>
   snd st = s \<and> length (fst st) = length grads \<and>
   (\<forall>j<length grads. int j \<notin> set ls \<longrightarrow> fst st ! j = grads ! j) \<and>
   (\<forall>l\<in>set ls. layer_grads_ok s l (grads ! nat l) (fst st ! nat l))"
proof (induction ls arbitrary: grads)
  case Nil
  then show ?case by auto
next
  case (Cons l ls)
  from Cons.prems(3) obtain st1 where
    step: "nga_body c X T l (grads, s) = Inr st1" and
    rest: "for_loop ls (nga_body c X T) st1 = Inr st"
    by (auto split: sum.splits)
  from Cons.prems(1) have l: "0 \<le> l" "nat l < length grads" by auto
  from nga_body_char[OF l step] obtain d where
    d: "layer_grads_ok s l (grads ! nat l) d" and st1: "st1 = (grads[nat l := d], s)"
    by blast
  let ?g1 = "grads[nat l := d]"
  have sub: "set ls \<subseteq> {0..<int (length ?g1)}" using Cons.prems(1) by simp
  have dis: "distinct ls" and lnot: "l \<notin> set ls" using Cons.prems(2) by simp_all
  note IH = Cons.IH[OF sub dis rest[unfolded st1]]
  have frame: "\<forall>j<length ?g1. int j \<notin> set ls \<longrightarrow> fst st ! j = ?g1 ! j"
    using IH by blast
  show ?case
  proof (intro conjI)
    show "snd st = s" using IH by blast
    show "length (fst st) = length grads" using IH by simp
    show "\<forall>j<length grads. int j \<notin> set (l # ls) \<longrightarrow> fst st ! j = grads ! j"
    proof (intro allI impI)
      fix j assume j: "j < length grads" "int j \<notin> set (l # ls)"
      then have "j < length ?g1" "int j \<notin> set ls" by simp_all
      with frame have "fst st ! j = ?g1 ! j" by blast
      moreover have "j \<noteq> nat l" using j l by auto
      ultimately show "fst st ! j = grads ! j" by simp
    qed
    show "\<forall>l'\<in>set (l # ls). layer_grads_ok s l' (grads ! nat l') (fst st ! nat l')"
    proof
      fix l' assume "l' \<in> set (l # ls)"
      then consider "l' = l" | "l' \<in> set ls" by auto
      then show "layer_grads_ok s l' (grads ! nat l') (fst st ! nat l')"
      proof cases
        case 1
        have "int (nat l) \<notin> set ls" "nat l < length ?g1" using l lnot by simp_all
        with frame have "fst st ! nat l = ?g1 ! nat l" by blast
        then have "fst st ! nat l = d" using l by simp
        with d 1 show ?thesis by simp
      next
        case 2
        with IH have x: "layer_grads_ok s l' (?g1 ! nat l') (fst st ! nat l')" by blast
        have "l' \<noteq> l" using 2 lnot by auto
        moreover have "0 \<le> l'" using 2 Cons.prems(1) by auto
        ultimately have "nat l' \<noteq> nat l" using l by auto
        then have "?g1 ! nat l' = grads ! nat l'" by simp
        with x show ?thesis by simp
      qed
    qed
  qed
qed

lemma numerical_gradient_all_unfold:
  "numerical_gradient_all c s X T =
     for_loop (py_range (n_layers s)) (nga_body c X T)
       (map (\<lambda>l. Map.empty) (py_range (n_layers s)), s)"
  by (cases "for_loop (py_range (n_layers s)) (nga_body c X T)
       (map (\<lambda>l. Map.empty) (py_range (n_layers s)), s)")
     (simp_all add: numerical_gradient_all_def nga_body_def)

lemma numerical_gradient_all_char:
  assumes run: "numerical_gradient_all c s X T = Inr (grads, s')"
  shows "s' = s \<and> length grads = nat (n_layers s) \<and>
         (\<forall>l<nat (n_layers s). layer_grads_ok s (int l) Map.empty (grads ! l))"
proof -
  let ?n = "nat (n_layers s)"
  let ?g0 = "map (\<lambda>l. Map.empty) (py_range (n_layers s)) :: pdict list"
  have len0: "length ?g0 = ?n" by (simp add: py_range_def)
  have sub: "set (py_range (n_layers s)) \<subseteq> {0..<int (length ?g0)}"
    by (auto simp: py_range_def)
  have dis: "distinct (py_range (n_layers s))"
    by (simp add: py_range_def distinct_map inj_on_def)
  from run have loop: "for_loop (py_range (n_layers s)) (nga_body c X T) (?g0, s) = Inr (grads, s')"
    by (simp add: numerical_gradient_all_unfold)
  note L = nga_loop[OF sub dis loop]
  have "\<forall>l<?n. layer_grads_ok s (int l) Map.empty (grads ! l)"
  proof (intro allI impI)
    fix l assume l: "l < ?n"
    then have "int l \<in> set (py_range (n_layers s))" by (auto simp: py_range_def)
    with L have "layer_grads_ok s (int l) (?g0 ! nat (int l)) (fst (grads, s') ! nat (int l))"
      by blast
    moreover have "?g0 ! l = Map.empty" using l by (simp add: py_range_def)
    ultimately show "layer_grads_ok s (int l) Map.empty (grads ! l)" by simp
  qed
  with L len0 show ?thesis by auto
qed

lemma layer_grads_ok_aligned:
  assumes len: "length (params s) = n" "length grads = n"
      and ok: "\<forall>l<n. layer_grads_ok s (int l) Map.empty (grads ! l)"
  shows "aligned grads (params s)"
  unfolding aligned_def
proof (intro conjI allI impI)
  show "length grads = length (params s)" using len by simp
next
  fix l assume l: "l < length (params s)"
  with len ok have "layer_grads_ok s (int l) Map.empty (grads ! l)" by simp
  then obtain PW Pb GW Gb where
    x: "param_get s (int l) ''W'' = Inr PW" "param_get s (int l) ''b'' = Inr Pb"
       "nd_shape GW = nd_shape PW" "nd_shape Gb = nd_shape Pb"
       "grads ! l = [''W'' \<mapsto> GW, ''b'' \<mapsto> Gb]"
    unfolding layer_grads_ok_def by blast
  from x(1,2) l have p: "(params s ! l) ''W'' = Some PW" "(params s ! l) ''b'' = Some Pb"
    by (auto simp: param_get_def bindE_eq_Inr py_get_def dict_get_def Let_def
             split: if_splits option.splits)
  show "dom (grads ! l) = {''W'', ''b''}" using x(5) by auto
  show "\<forall>k\<in>{''W'', ''b''}. (params s ! l) k \<noteq> None \<and>
            map_option nd_shape ((grads ! l) k) = map_option nd_shape ((params s ! l) k)"
    using x p by simp
qed

lemma losses_return_numerical_gradient:
  assumes "losses_return c s X T l k"
  shows "\<exists>G. numerical_gradient c s X T k l = Inr (G, s)"
proof -
  from assms obtain P where P: "param_get s l k = Inr P" and ok: "nd_ok P" and
    L: "\<forall>idx<length (nd_data P).
             returns (loss c (store_param s l k (perturb P idx h_step)) X T) \<and>
             returns (loss c (store_param s l k (perturb P idx (- h_step))) X T)"
    by (auto simp: losses_return_def split: sum.splits)
  from numerical_gradient_returns[OF P ok L] show ?thesis .
qed

lemma nga_body_returns:
  assumes l: "0 \<le> l" "nat l < length grads"
      and W: "losses_return c s X T l ''W''" and b: "losses_return c s X T l ''b''"
  shows "\<exists>grads'. nga_body c X T l (grads, s) = Inr (grads', s) \<and> length grads' = length grads"
proof -
  from losses_return_numerical_gradient[OF W] obtain GW where
    rW: "numerical_gradient c s X T ''W'' l = Inr (GW, s)" by blast
  from losses_return_numerical_gradient[OF b] obtain Gb where
    rb: "numerical_gradient c s X T ''b'' l = Inr (Gb, s)" by blast
  show ?thesis using l rW rb
    by (simp add: nga_body_def grads_set_char)
qed

lemma nga_loop_returns:
  "set ls \<subseteq> {0..<int (length grads)} \<Longrightarrow>
   \<forall>l\<in>set ls. losses_return c s X T l ''W'' \<and> losses_return c s X T l ''b'' \<Longrightarrow>
   \<exists>grads'. for_loop ls (nga_body c X T) (grads, s) = Inr (grads', s) \<and>
            length grads' = length grads"
proof (induction ls arbitrary: grads)
  case Nil
  then show ?case by simp
next
  case (Cons l ls)
  from Cons.prems(1) have l: "0 \<le> l" "nat l < length grads" by auto
  from Cons.prems(2) have "losses_return c s X T l ''W''" "losses_return c s X T l ''b''"
    by simp_all
  from nga_body_returns[OF l this] obtain g1 where
    step: "nga_body c X T l (grads, s) = Inr (g1, s)" and len: "length g1 = length grads"
    by blast
  from Cons.prems len have "set ls \<subseteq> {0..<int (length g1)}"
    "\<forall>l\<in>set ls. losses_return c s X T l ''W'' \<and> losses_return c s X T l ''b''" by simp_all
  from Cons.IH[OF this] obtain g2 where
    "for_loop ls (nga_body c X T) (g1, s) = Inr (g2, s)" "length g2 = length g1" by blast
  with step len show ?case by simp
qed

lemma numerical_gradient_all_returns:
  assumes "\<forall>l<nat (n_layers s).
             losses_return c s X T (int l) ''W'' \<and> losses_return c s X T (int l) ''b''"
  shows "\<exists>grads. numerical_gradient_all c s X T = Inr (grads, s)"
proof -
  let ?g0 = "map (\<lambda>l. Map.empty) (py_range (n_layers s)) :: pdict list"
  have sub: "set (py_range (n_layers s)) \<subseteq> {0..<int (length ?g0)}"
    by (auto simp: py_range_def)
  have "\<forall>l\<in>set (py_range (n_layers s)).
          losses_return c s X T l ''W'' \<and> losses_return c s X T l ''b''"
    using assms by (auto simp: py_range_def)
  from nga_loop_returns[OF sub this] show ?thesis
    by (auto simp: numerical_gradient_all_unfold)
qed

section \<open>Backpropagation on a single layer\<close>

lemma predict_onehot_train_single:
  assumes "n_layers s = 1" and "predict_onehot_train c s X = Inr (Y, Zs, As)"
  shows "Zs = [] \<and> As = []"
  using assms by (auto simp: predict_onehot_train_def py_range_def bindE_eq_Inr)

lemma py_get_Nil [simp]: "py_get [] i = Inl IndexError"
  by (simp add: py_get_def)

section \<open>The parameter update\<close>

lemma those_map_Some: "those (map (\<lambda>i. Some (f i)) xs) = Some (map f xs)"
  by (induction xs) simp_all

lemma concat_chunks:
  "length d = b * c \<Longrightarrow> concat (map (\<lambda>i. take c (drop (i * c) d)) [0..<b]) = d"
proof (induction b arbitrary: d)
  case 0
  then show ?case by simp
next
  case (Suc b)
  have "[0..<Suc b] = 0 # map Suc [0..<b]"
    by (simp add: upt_conv_Cons map_Suc_upt del: upt_Suc)
  then have "concat (map (\<lambda>i. take c (drop (i * c) d)) [0..<Suc b]) =
        take c d @ concat (map (\<lambda>i. take c (drop (i * c) (drop c d))) [0..<b])"
    by (simp add: comp_def add.commute del: upt_Suc)
  also have "concat (map (\<lambda>i. take c (drop (i * c) (drop c d))) [0..<b]) = drop c d"
    using Suc.prems by (intro Suc.IH) simp
  finally show ?case by simp
qed

lemma chunk_length:
  assumes "length d = b * c" "i < b"
  shows "length (take c (drop (i * c) d)) = c"
proof -
  from assms(2) have "Suc i \<le> b" by simp
  then have "Suc i * c \<le> b * c" by (rule mult_le_mono1)
  then have "c \<le> b * c - i * c" by simp
  with assms(1) show ?thesis by simp
qed

lemma broadcast_data_same:
  "length d = prod_list sh \<Longrightarrow> broadcast_data sh sh d = Some d"
proof (induction sh arbitrary: d)
  case Nil
  then show ?case by simp
next
  case (Cons b bs)
  let ?c = "prod_list bs"
  have "map (\<lambda>i. broadcast_data bs bs (take ?c (drop (i * ?c) d))) [0..<b] =
        map (\<lambda>i. Some (take ?c (drop (i * ?c) d))) [0..<b]"
  proof (rule map_cong[OF refl])
    fix i assume "i \<in> set [0..<b]"
    then have "i < b" by simp
    with Cons.prems have "length (take ?c (drop (i * ?c) d)) = ?c"
      by (intro chunk_length[of d b]) simp_all
    then show "broadcast_data bs bs (take ?c (drop (i * ?c) d)) = Some (take ?c (drop (i * ?c) d))"
      by (rule Cons.IH)
  qed
  then have "broadcast_data (b # bs) (b # bs) d =
        map_option concat (those (map (\<lambda>i. Some (take ?c (drop (i * ?c) d))) [0..<b]))"
    by (simp only: broadcast_data.simps refl if_True)
  also have "\<dots> = Some d"
    using Cons.prems by (simp add: those_map_Some concat_chunks)
  finally show ?case .
qed

lemma isub_same_shape:
  assumes "nd_shape g = nd_shape p" "nd_ok g"
  shows "isub p (scalar_mul lr g) = Inr (sgd_updated lr p g)"
proof -
  have "broadcast_to (scalar_mul lr g) (nd_shape p) = Inr (map (\<lambda>x. lr * x) (nd_data g))"
    using assms by (simp add: broadcast_to_def scalar_mul_def broadcast_data_same nd_ok_def)
  moreover have "map2 (-) (nd_data p) (map (\<lambda>x. lr * x) (nd_data g)) =
        map (\<lambda>xy. fst xy - lr * snd xy) (zip (nd_data p) (nd_data g))"
    by (simp add: zip_map2 case_prod_beta)
  ultimately show ?thesis by (simp add: isub_def sgd_updated_def)
qed

lemma isub_param_char:
  assumes l: "0 \<le> l" "nat l < length (params s)" "nat l < length grads"
      and p: "(params s ! nat l) k = Some p" and g: "(grads ! nat l) k = Some g"
      and sh: "nd_shape g = nd_shape p" "nd_ok g"
  shows "isub_param s grads l k =
           Inr (s\<lparr>params := (params s)[nat l := (params s ! nat l)(k \<mapsto> sgd_updated (learning_rate s) p g)]\<rparr>)"
proof -
  have pg: "param_get s l k = Inr p"
    using l p by (simp add: param_get_def py_get_def dict_get_def)
  have idx: "py_index (length (params s)) l = nat l" using l by (simp add: py_index_def)
  have "py_get grads l = Inr (grads ! nat l)" using l by (simp add: py_get_def)
  then show ?thesis
    using pg g isub_same_shape[OF sh] param_set_char[OF pg] idx
    by (simp add: isub_param_def dict_get_def)
qed

lemma update_body_char:
  assumes l: "0 \<le> l" "nat l < length (params s)" "nat l < length grads"
      and fits: "layer_fits (params s ! nat l) (grads ! nat l)"
  shows "update_body grads l s =
           Inr (s\<lparr>params := (params s)[nat l :=
                  updated_dict (learning_rate s) (params s ! nat l) (grads ! nat l)]\<rparr>)"
proof -
  from fits obtain pW gW pb gb where
    W: "(params s ! nat l) ''W'' = Some pW" "(grads ! nat l) ''W'' = Some gW"
       "nd_shape gW = nd_shape pW" "nd_ok gW" and
    b: "(params s ! nat l) ''b'' = Some pb" "(grads ! nat l) ''b'' = Some gb"
       "nd_shape gb = nd_shape pb" "nd_ok gb"
    unfolding layer_fits_def by auto
  let ?s1 = "s\<lparr>params := (params s)[nat l := (params s ! nat l)(''W'' \<mapsto> sgd_updated (learning_rate s) pW gW)]\<rparr>"
  have 1: "isub_param s grads l ''W'' = Inr ?s1"
    by (rule isub_param_char[OF l W])
  have l1: "nat l < length (params ?s1)" using l by simp
  have b1: "(params ?s1 ! nat l) ''b'' = Some pb" using l b by simp
  have 2: "isub_param ?s1 grads l ''b'' =
       Inr (?s1\<lparr>params := (params ?s1)[nat l := (params ?s1 ! nat l)(''b'' \<mapsto> sgd_updated (learning_rate ?s1) pb gb)]\<rparr>)"
    by (rule isub_param_char[OF l(1) l1 l(3) b1 b(2) b(3) b(4)])
  show ?thesis using 1 2 l W b
    by (simp add: update_body_def updated_dict_def)
qed

lemma update_loop:
  "set ls \<subseteq> {0..<int (length (params s))} \<Longrightarrow> distinct ls \<Longrightarrow>
   length (params s) \<le> length grads \<Longrightarrow>
   \<forall>l\<in>set ls. layer_fits (params s ! nat l) (grads ! nat l) \<Longrightarrow>
   \<exists>ps. for_loop ls (update_body grads) s = Inr (s\<lparr>params := ps\<rparr>) \<and>
        length ps = length (params s) \<and>
        (\<forall>j<length (params s). int j \<notin> set ls \<longrightarrow> ps ! j = params s ! j) \<and>
        (\<forall>l\<in>set ls. ps ! nat l = updated_dict (learning_rate s) (params s ! nat l) (grads ! nat l))"
proof (induction ls arbitrary: s)
  case Nil
  have "s\<lparr>params := params s\<rparr> = s" by simp
  then show ?case by (intro exI[of _ "params s"]) simp
next
  case (Cons l ls)
  from Cons.prems(1,3) have l: "0 \<le> l" "nat l < length (params s)" "nat l < length grads"
    by auto
  from Cons.prems(4) have fits: "layer_fits (params s ! nat l) (grads ! nat l)" by simp
  let ?d = "updated_dict (learning_rate s) (params s ! nat l) (grads ! nat l)"
  let ?s1 = "s\<lparr>params := (params s)[nat l := ?d]\<rparr>"
  note step = update_body_char[OF l fits]
  have lnot: "l \<notin> set ls" and dis: "distinct ls" using Cons.prems(2) by simp_all
  have other: "params ?s1 ! nat l' = params s ! nat l'" if "l' \<in> set ls" for l'
  proof -
    from that Cons.prems(1) have "0 \<le> l'" by auto
    moreover from that lnot have "l' \<noteq> l" by auto
    ultimately have "nat l' \<noteq> nat l" using l by auto
    then show ?thesis by simp
  qed
  have sub1: "set ls \<subseteq> {0..<int (length (params ?s1))}" using Cons.prems(1) by simp
  have len1: "length (params ?s1) \<le> length grads" using Cons.prems(3) by simp
  have fits1: "\<forall>l\<in>set ls. layer_fits (params ?s1 ! nat l) (grads ! nat l)"
    using Cons.prems(4) other by simp
  from Cons.IH[OF sub1 dis len1 fits1] obtain ps where
    run: "for_loop ls (update_body grads) ?s1 = Inr (?s1\<lparr>params := ps\<rparr>)" and
    len: "length ps = length (params ?s1)" and
    frame: "\<forall>j<length (params ?s1). int j \<notin> set ls \<longrightarrow> ps ! j = params ?s1 ! j" and
    upd: "\<forall>l\<in>set ls. ps ! nat l = updated_dict (learning_rate ?s1) (params ?s1 ! nat l) (grads ! nat l)"
    by blast
  have eq: "?s1\<lparr>params := ps\<rparr> = s\<lparr>params := ps\<rparr>" by simp
  show ?case
  proof (intro exI[of _ ps] conjI)
    show "for_loop (l # ls) (update_body grads) s = Inr (s\<lparr>params := ps\<rparr>)"
      using step run eq by simp
    show "length ps = length (params s)" using len by simp
    show "\<forall>j<length (params s). int j \<notin> set (l # ls) \<longrightarrow> ps ! j = params s ! j"
    proof (intro allI impI)
      fix j assume j: "j < length (params s)" "int j \<notin> set (l # ls)"
      then have "ps ! j = params ?s1 ! j" using frame by simp
      moreover have "j \<noteq> nat l" using j l by auto
      ultimately show "ps ! j = params s ! j" by simp
    qed
    show "\<forall>l'\<in>set (l # ls). ps ! nat l' = updated_dict (learning_rate s) (params s ! nat l') (grads ! nat l')"
    proof
      fix l' assume "l' \<in> set (l # ls)"
      then consider "l' = l" | "l' \<in> set ls" by auto
      then show "ps ! nat l' = updated_dict (learning_rate s) (params s ! nat l') (grads ! nat l')"
      proof cases
        case 1
        have "int (nat l) \<notin> set ls" "nat l < length (params ?s1)" using l lnot by simp_all
        with frame have "ps ! nat l = params ?s1 ! nat l" by blast
        with l 1 show ?thesis by simp
      next
        case 2
        with upd other[OF 2] show ?thesis by simp
      qed
    qed
  qed
qed

lemma update_parameters_unfold:
  "update_parameters s grads = for_loop (py_range (n_layers s)) (update_body grads) s"
  by (simp add: update_parameters_def update_body_def)

lemma update_parameters_char:
  assumes len: "length (params s) = nat (n_layers s)" "length grads = length (params s)"
      and fits: "\<forall>l<length (params s). layer_fits (params s ! l) (grads ! l)"
  shows "update_parameters s grads =
           Inr (s\<lparr>params := map (\<lambda>dg. updated_dict (learning_rate s) (fst dg) (snd dg))
                                (zip (params s) grads)\<rparr>)"
proof -
  let ?ls = "py_range (n_layers s)"
  have sub: "set ?ls \<subseteq> {0..<int (length (params s))}" using len by (auto simp: py_range_def)
  have dis: "distinct ?ls" by (simp add: py_range_def distinct_map inj_on_def)
  have fits': "\<forall>l\<in>set ?ls. layer_fits (params s ! nat l) (grads ! nat l)"
    using fits len by (auto simp: py_range_def)
  from update_loop[OF sub dis _ fits'] len obtain ps where
    run: "for_loop ?ls (update_body grads) s = Inr (s\<lparr>params := ps\<rparr>)" and
    lps: "length ps = length (params s)" and
    upd: "\<forall>l\<in>set ?ls. ps ! nat l = updated_dict (learning_rate s) (params s ! nat l) (grads ! nat l)"
    by auto
  have "ps = map (\<lambda>dg. updated_dict (learning_rate s) (fst dg) (snd dg)) (zip (params s) grads)"
  proof (rule nth_equalityI)
    show "length ps = length (map (\<lambda>dg. updated_dict (learning_rate s) (fst dg) (snd dg)) (zip (params s) grads))"
      using lps len by simp
  next
    fix i assume "i < length ps"
    then have i: "i < length (params s)" using lps by simp
    then have "int i \<in> set ?ls" using len by (auto simp: py_range_def)
    with upd have "ps ! nat (int i) = updated_dict (learning_rate s) (params s ! nat (int i)) (grads ! nat (int i))"
      by blast
    then show "ps ! i = map (\<lambda>dg. updated_dict (learning_rate s) (fst dg) (snd dg)) (zip (params s) grads) ! i"
      using i len by simp
  qed
  with run show ?thesis by (simp add: update_parameters_unfold)
qed

lemma aligned_layer_fits:
  assumes al: "aligned grads ps" and okg: "all_ok grads" and l: "l < length ps"
  shows "layer_fits (ps ! l) (grads ! l)"
  unfolding layer_fits_def
proof
  fix k assume k: "k \<in> {''W'', ''b''}"
  from al l have len: "length grads = length ps" and dom: "dom (grads ! l) = {''W'', ''b''}"
    and sh: "(ps ! l) k \<noteq> None"
        "map_option nd_shape ((grads ! l) k) = map_option nd_shape ((ps ! l) k)"
    using k by (auto simp: aligned_def)
  from sh(1) obtain p where p: "(ps ! l) k = Some p" by auto
  from dom k obtain g where g: "(grads ! l) k = Some g" by blast
  from len l have "grads ! l \<in> set grads" by simp
  with okg k g have "nd_ok g" unfolding all_ok_def by blast
  with p g sh(2) show "\<exists>p g. (ps ! l) k = Some p \<and> (grads ! l) k = Some g \<and>
         nd_shape g = nd_shape p \<and> nd_ok g" by simp
qed

lemma sgd_updated_nth:
  assumes "nd_shape g = nd_shape p" "nd_ok g" "nd_ok p" "i < length (nd_data p)"
  shows "nd_data (sgd_updated lr p g) ! i = nd_data p ! i - lr * nd_data g ! i"
  using assms by (simp add: sgd_updated_def nd_ok_def)

lemma sgd_updated_zero:
  assumes "nd_shape g = nd_shape p" "nd_ok g" "nd_ok p" "\<forall>x\<in>set (nd_data g). x = 0"
  shows "sgd_updated lr p g = p"
proof -
  have len: "length (nd_data g) = length (nd_data p)" using assms by (simp add: nd_ok_def)
  have "map (\<lambda>xy. fst xy - lr * snd xy) (zip (nd_data p) (nd_data g)) = nd_data p"
  proof (rule nth_equalityI)
    show "length (map (\<lambda>xy. fst xy - lr * snd xy) (zip (nd_data p) (nd_data g))) = length (nd_data p)"
      using len by simp
  next
    fix i assume "i < length (map (\<lambda>xy. fst xy - lr * snd xy) (zip (nd_data p) (nd_data g)))"
    then have i: "i < length (nd_data p)" "i < length (nd_data g)" using len by simp_all
    then have "nd_data g ! i = 0" using assms(4) by simp
    with i show "map (\<lambda>xy. fst xy - lr * snd xy) (zip (nd_data p) (nd_data g)) ! i = nd_data p ! i"
      by simp
  qed
  then show ?thesis by (cases p) (simp add: sgd_updated_def)
qed

lemma updated_dict_zero:
  assumes fits: "layer_fits d gd"
      and okd: "\<forall>k\<in>{''W'', ''b''}. \<forall>a. d k = Some a \<longrightarrow> nd_ok a"
      and z: "\<forall>k\<in>{''W'', ''b''}. \<forall>a. gd k = Some a \<longrightarrow> (\<forall>x\<in>set (nd_data a). x = 0)"
  shows "updated_dict lr d gd = d"
proof -
  from fits obtain pW gW pb gb where
    W: "d ''W'' = Some pW" "gd ''W'' = Some gW" "nd_shape gW = nd_shape pW" "nd_ok gW" and
    b: "d ''b'' = Some pb" "gd ''b'' = Some gb" "nd_shape gb = nd_shape pb" "nd_ok gb"
    unfolding layer_fits_def by auto
  have "sgd_updated lr pW gW = pW" using W okd z by (intro sgd_updated_zero) auto
  moreover have "sgd_updated lr pb gb = pb" using b okd z by (intro sgd_updated_zero) auto
  ultimately show ?thesis using W b
    by (simp add: updated_dict_def map_upd_triv)
qed

section \<open>One-hot encoding\<close>

lemma row_of_concat:
  "\<forall>x\<in>set xs. length (f x) = k \<Longrightarrow> i < length xs \<Longrightarrow>
   take k (drop (i * k) (concat (map f xs))) = f (xs ! i)"
proof (induction xs arbitrary: i)
  case Nil
  then show ?case by simp
next
  case (Cons x xs)
  show ?case
  proof (cases i)
    case 0
    with Cons.prems show ?thesis by simp
  next
    case (Suc j)
    with Cons.prems have "take k (drop (j * k) (concat (map f xs))) = f (xs ! j)"
      by (intro Cons.IH) simp_all
    with Suc Cons.prems show ?thesis by simp
  qed
qed

lemma argmax_scan_found:
  "argmax_scan (map (\<lambda>x. if x = v then 1 else 0) cs) i best 1 = best"
  by (induction cs arbitrary: i) simp_all

lemma argmax_scan_search:
  "v \<in> set cs \<Longrightarrow>
   \<exists>j<length cs. argmax_scan (map (\<lambda>x. if x = v then 1 else 0) cs) i best 0 = i + j \<and> cs ! j = v"
proof (induction cs arbitrary: i best)
  case Nil
  then show ?case by simp
next
  case (Cons c cs)
  show ?case
  proof (cases "c = v")
    case True
    then show ?thesis by (intro exI[of _ 0]) (simp add: argmax_scan_found)
  next
    case False
    with Cons.prems have "v \<in> set cs" by simp
    from Cons.IH[OF this, of "i + 1" best] obtain j where
      j: "j < length cs"
         "argmax_scan (map (\<lambda>x. if x = v then 1 else 0) cs) (i + 1) best 0 = i + 1 + j"
         "cs ! j = v" by blast
    with False show ?thesis by (intro exI[of _ "Suc j"]) simp
  qed
qed

lemma argmax_row_one_hot:
  assumes "v \<in> set cs"
  shows "argmax_row (map (\<lambda>x. if x = v then 1 else 0) cs) < length cs \<and>
         cs ! argmax_row (map (\<lambda>x. if x = v then 1 else 0) cs) = v"
proof (cases cs)
  case Nil
  with assms show ?thesis by simp
next
  case (Cons c cs')
  show ?thesis
  proof (cases "c = v")
    case True
    with Cons show ?thesis by (simp add: argmax_row_def argmax_scan_found)
  next
    case False
    with assms Cons have "v \<in> set cs'" by simp
    from argmax_scan_search[OF this, of 1 0] obtain j where
      "j < length cs'"
      "argmax_scan (map (\<lambda>x. if x = v then 1 else 0) cs') 1 0 0 = 1 + j" "cs' ! j = v"
      by blast
    with False Cons show ?thesis by (simp add: argmax_row_def)
  qed
qed

lemma one_hot_encoding_labels:
  assumes "xs \<noteq> []"
  shows "one_hot_encoding enc (Labels xs) =
           Inr (NDArray [length xs, length (sort (remdups xs))]
                  (concat (map (\<lambda>v. map (\<lambda>x. if x = v then 1 else 0) (sort (remdups xs))) xs)),
                Some [sort (remdups xs)])"
  using assms
  by (simp add: one_hot_encoding_def OneHotEncoder_fit_def OneHotEncoder_transform_def)

lemma one_hot_rows:
  fixes cats :: "'a list"
  assumes "i < length xs"
  shows "nd_row (length cats)
           (NDArray [length xs, length cats]
              (concat (map (\<lambda>v. map (\<lambda>x. if x = v then 1 else 0) cats) xs))) i =
         map (\<lambda>x. if x = xs ! i then 1 else 0) cats"
  unfolding nd_row_def using assms
  by (simp add: row_of_concat)

lemma one_hot_labels:
  fixes cats :: "'a list"
  assumes "cats \<noteq> []"
  shows "argmax_axis1 (NDArray [length xs, length cats]
              (concat (map (\<lambda>v. map (\<lambda>x. if x = v then 1 else 0) cats) xs))) =
         Inr (map (\<lambda>v. argmax_row (map (\<lambda>x. if x = v then 1 else 0) cats)) xs)"
proof -
  let ?M = "NDArray [length xs, length cats]
              (concat (map (\<lambda>v. map (\<lambda>x. if x = v then (1::real) else 0) cats) xs))"
  have "map (\<lambda>i. argmax_row (nd_row (length cats) ?M i)) [0..<length xs] =
        map (\<lambda>v. argmax_row (map (\<lambda>x. if x = v then 1 else 0) cats)) xs"
    by (rule nth_equalityI) (simp_all add: one_hot_rows)
  with assms show ?thesis by (simp add: argmax_axis1_def)
qed

section \<open>Accuracy\<close>

lemma count_matches:
  "length (filter (\<lambda>b. b) (map2 (=) (map f xs) (map g xs))) =
   length (filter (\<lambda>i. f i = g i) xs)"
  by (induction xs) simp_all

lemma count_matches_zip:
  "length (filter ((\<lambda>b. b) \<circ> (\<lambda>(x, y). x = y)) (zip (map f xs) (map g xs))) =
   length (filter (\<lambda>i. f i = g i) xs)"
  by (induction xs) simp_all

lemma argmax_axis1_matrix:
  "nd_shape a = [n, k] \<Longrightarrow> 0 < k \<Longrightarrow>
   argmax_axis1 a = Inr (map (\<lambda>i. argmax_row (nd_row k a i)) [0..<n])"
  by (simp add: argmax_axis1_def)

lemma accuracy_value_char:
  assumes X: "nd_shape X = n # rest" "0 < n"
      and Y: "nd_shape Y = [n, k]" "0 < k"
      and T: "nd_shape T = [n, k']" "0 < k'"
  shows "accuracy_value X Y T = Inr (match_fraction n Y T)"
proof -
  have "np_equal (map (\<lambda>i. argmax_row (nd_row k Y i)) [0..<n])
                 (map (\<lambda>i. argmax_row (nd_row k' T i)) [0..<n]) =
        Inr (map2 (=) (map (\<lambda>i. argmax_row (nd_row k Y i)) [0..<n])
                      (map (\<lambda>i. argmax_row (nd_row k' T i)) [0..<n]))"
    by (simp add: np_equal_def)
  moreover have "py_get (nd_shape X) 0 = Inr n" using X by (simp add: py_get_def)
  ultimately show ?thesis
    using X Y T
    by (simp add: accuracy_value_def argmax_axis1_matrix count_matches_zip match_fraction_def
          argmax_index_def)
qed

lemma match_fraction_all:
  assumes "0 < n" "\<forall>i<n. argmax_index Y i = argmax_index T i"
  shows "match_fraction n Y T = 1"
proof -
  have "filter (\<lambda>i. argmax_index Y i = argmax_index T i) [0..<n] = [0..<n]"
    using assms(2) by (intro filter_True) simp
  with assms(1) show ?thesis by (simp add: match_fraction_def)
qed

lemma match_fraction_none:
  assumes "\<forall>i<n. argmax_index Y i \<noteq> argmax_index T i"
  shows "match_fraction n Y T = 0"
proof -
  have "filter (\<lambda>i. argmax_index Y i = argmax_index T i) [0..<n] = []"
    using assms by (intro filter_False) simp
  then show ?thesis by (simp add: match_fraction_def)
qed

section \<open>Minibatch selection\<close>

lemma take_rows_char:
  assumes "nd_shape a = n # rest" "\<forall>i\<in>set idxs. i < n"
  shows "take_rows a idxs =
           Inr (NDArray (length idxs # rest)
                  (concat (map (\<lambda>i. nd_row (prod_list rest) a i) idxs)))"
  using assms by (simp add: take_rows_def)

lemma take_rows_Inr:
  assumes "take_rows a idxs = Inr r"
  shows "\<exists>n rest. nd_shape a = n # rest \<and> (\<forall>i\<in>set idxs. i < n) \<and>
           r = NDArray (length idxs # rest)
                 (concat (map (\<lambda>i. nd_row (prod_list rest) a i) idxs))"
  using assms by (cases "nd_shape a") (auto simp: take_rows_def split: if_splits)

lemma nd_row_length:
  assumes "nd_ok a" "nd_shape a = n # rest" "i < n"
  shows "length (nd_row (prod_list rest) a i) = prod_list rest"
proof -
  from assms have "length (nd_data a) = n * prod_list rest" by (simp add: nd_ok_def)
  from chunk_length[OF this assms(3)] show ?thesis by (simp add: nd_row_def)
qed

lemma take_rows_row:
  assumes ok: "nd_ok a" and sh: "nd_shape a = n # rest" and idx: "\<forall>i\<in>set idxs. i < n"
      and j: "j < length idxs"
  shows "nd_row (prod_list rest)
           (NDArray (length idxs # rest)
              (concat (map (\<lambda>i. nd_row (prod_list rest) a i) idxs))) j =
         nd_row (prod_list rest) a (idxs ! j)"
proof -
  have "\<forall>i\<in>set idxs. length (nd_row (prod_list rest) a i) = prod_list rest"
    using nd_row_length[OF ok sh] idx by blast
  from row_of_concat[OF this j] show ?thesis by (simp add: nd_row_def)
qed

lemma np_random_choice_Inr:
  assumes "np_random_choice draws n b = Inr picks"
  shows "0 \<le> b \<and> picks = map (\<lambda>j. draws j mod n) [0..<nat b]"
  using assms by (auto simp: np_random_choice_def split: if_splits)

lemma np_random_choice_any:
  assumes "length picks = nat b" "0 \<le> b" "\<forall>i\<in>set picks. i < n"
  shows "np_random_choice (\<lambda>j. picks ! j) n b = Inr picks"
proof -
  have "map (\<lambda>j. picks ! j mod n) [0..<nat b] = picks"
    using assms by (intro nth_equalityI) simp_all
  moreover have "\<not> (n = 0 \<and> b \<noteq> 0)"
  proof
    assume "n = 0 \<and> b \<noteq> 0"
    with assms(1,2) have "picks \<noteq> []" by auto
    then obtain x where "x \<in> set picks" by (cases picks) auto
    with assms(3) \<open>n = 0 \<and> b \<noteq> 0\<close> show False by auto
  qed
  ultimately show ?thesis using assms(2) by (auto simp: np_random_choice_def)
qed

section \<open>Loops with invariants, and initialisation\<close>

text \<open>
  A loop keeps an invariant of the indices seen so far and of the state, or leaves with
  an exception of a given kind.
\<close>

lemma for_loop_rule_gen:
  assumes step: "\<And>seen i rest s. seen @ i # rest = is \<Longrightarrow> Inv seen s \<Longrightarrow>
                   (\<exists>s'. body i s = Inr s' \<and> Inv (seen @ [i]) s') \<or>
                   (\<exists>e. body i s = Inl e \<and> E e)"
  shows "seen @ rest = is \<Longrightarrow> Inv seen s \<Longrightarrow>
         (\<exists>s'. for_loop rest body s = Inr s' \<and> Inv is s') \<or>
         (\<exists>e. for_loop rest body s = Inl e \<and> E e)"
proof (induction rest arbitrary: "seen" s)
  case Nil
  then show ?case by simp
next
  case (Cons i rest)
  from step[OF Cons.prems] show ?case
  proof
    assume "\<exists>s'. body i s = Inr s' \<and> Inv (seen @ [i]) s'"
    then obtain s' where s': "body i s = Inr s'" "Inv (seen @ [i]) s'" by blast
    from Cons.prems(1) have "(seen @ [i]) @ rest = is" by simp
    from Cons.IH[OF this s'(2)] s'(1) show ?thesis by simp
  next
    assume "\<exists>e. body i s = Inl e \<and> E e"
    then show ?thesis by auto
  qed
qed

lemma for_loop_rule_err:
  assumes "Inv [] s"
      and "\<And>seen i rest s. seen @ i # rest = is \<Longrightarrow> Inv seen s \<Longrightarrow>
                   (\<exists>s'. body i s = Inr s' \<and> Inv (seen @ [i]) s') \<or>
                   (\<exists>e. body i s = Inl e \<and> E e)"
  shows "(\<exists>s'. for_loop is body s = Inr s' \<and> Inv is s') \<or>
         (\<exists>e. for_loop is body s = Inl e \<and> E e)"
  using for_loop_rule_gen[of "is" Inv body E "[]" "is" s] assms by blast

lemma for_loop_rule:
  assumes "Inv [] s"
      and "\<And>seen i rest s. seen @ i # rest = is \<Longrightarrow> Inv seen s \<Longrightarrow>
                   \<exists>s'. body i s = Inr s' \<and> Inv (seen @ [i]) s'"
  shows "\<exists>s'. for_loop is body s = Inr s' \<and> Inv is s'"
  using for_loop_rule_err[of Inv s "is" body "\<lambda>e. False"] assms by blast

lemma py_range_split:
  assumes "seen @ i # rest = py_range n"
  shows "i = int (length seen) \<and> int (length seen) < n \<and> seen = py_range (int (length seen))"
proof -
  let ?k = "length seen"
  from assms have len: "length (py_range n) = ?k + Suc (length rest)"
    by (metis length_append length_Cons)
  then have k: "?k < nat n" by (simp add: py_range_def)
  have "py_range n ! ?k = i" using assms by (metis nth_append_length)
  then have i: "i = int ?k" using k by (simp add: py_range_def)
  have "take ?k (py_range n) = seen" using assms by (metis append_eq_conv_conj)
  then have "seen = py_range (int ?k)"
    using k by (simp add: py_range_def take_map min_def)
  with i k show ?thesis by simp
qed

lemma py_get_nat:
  "l < length xs \<Longrightarrow> py_get xs (int l) = Inr (xs ! l)"
  by (simp add: py_get_def)

lemma py_set_nat:
  "l < length xs \<Longrightarrow> py_set xs (int l) v = Inr (xs[l := v])"
  by (simp add: py_set_def)

lemma conv_layer_loop:
  fixes ops :: "('l, 'o) layer_ops" and ls0 :: "'l list"
  shows "(\<exists>ls. for_loop (py_range (int (length ls0))) (conv_layer_body ops) ls0 = Inr ls \<and>
            length ls = length ls0 \<and>
            (\<forall>j<length ls0. layer_initialize_parameters ops (ls0 ! j) (given_shape ops ls0 ls j)
                               = Inr (ls ! j))) \<or>
         (\<exists>e. for_loop (py_range (int (length ls0))) (conv_layer_body ops) ls0 = Inl e \<and>
            (\<exists>ly sh. layer_initialize_parameters ops ly sh = Inl e))"
proof -
  let ?N = "length ls0"
  let ?Inv = "\<lambda>seen ls. length ls = ?N \<and>
     (\<forall>j<?N. (j < length seen \<longrightarrow>
                 layer_initialize_parameters ops (ls0 ! j) (given_shape ops ls0 ls j) = Inr (ls ! j)) \<and>
              (length seen \<le> j \<longrightarrow> ls ! j = ls0 ! j))"
  let ?E = "\<lambda>e. \<exists>ly sh. layer_initialize_parameters ops ly sh = Inl e"
  let ?body = "conv_layer_body ops"
  have "(\<exists>ls. for_loop (py_range (int ?N)) ?body ls0 = Inr ls \<and> ?Inv (py_range (int ?N)) ls) \<or>
        (\<exists>e. for_loop (py_range (int ?N)) ?body ls0 = Inl e \<and> ?E e)"
  proof (rule for_loop_rule_err)
    show "?Inv [] ls0" by simp
  next
    fix seen :: "int list" and i rest and ls :: "'l list"
    assume split: "seen @ i # rest = py_range (int ?N)" and inv: "?Inv seen ls"
    let ?k = "length seen"
    from py_range_split[OF split] have i: "i = int ?k" and k: "?k < ?N" by simp_all
    from inv have len: "length ls = ?N" by simp
    from inv k have cur: "ls ! ?k = ls0 ! ?k" by simp
    have get: "py_get ls i = Inr (ls0 ! ?k)" using i k len cur by (simp add: py_get_nat)
    have prev: "py_get ls (i - 1) = Inr (ls ! (?k - 1))" if "?k \<noteq> 0"
    proof -
      from that have "i - 1 = int (?k - 1)" using i by (cases seen) auto
      moreover have "?k - 1 < length ls" using k len by simp
      ultimately show ?thesis by (simp add: py_get_nat)
    qed
    have first: "ls0 ! ?k = ls0 ! 0" if "?k = 0" using that by simp
    have body_eq: "?body i ls =
        bindE (layer_initialize_parameters ops (ls0 ! ?k) (given_shape ops ls0 ls ?k))
          (\<lambda>layer'. py_set ls i layer')"
    proof (cases "?k = 0")
      case True
      then have "i = 0" using i by simp
      with True get show ?thesis by (simp add: conv_layer_body_def given_shape_def)
    next
      case False
      then have "i \<noteq> 0" using i by simp
      with False get prev show ?thesis by (simp add: conv_layer_body_def given_shape_def)
    qed
    show "(\<exists>ls'. ?body i ls = Inr ls' \<and> ?Inv (seen @ [i]) ls') \<or> (\<exists>e. ?body i ls = Inl e \<and> ?E e)"
    proof (cases "layer_initialize_parameters ops (ls0 ! ?k) (given_shape ops ls0 ls ?k)")
      case (Inl e)
      then have "?body i ls = Inl e" unfolding body_eq by simp
      with Inl show ?thesis by blast
    next
      case (Inr layer')
      let ?ls' = "ls[?k := layer']"
      have run: "?body i ls = Inr ?ls'"
        unfolding body_eq using Inr i k len by (simp add: py_set_nat)
      have gs: "given_shape ops ls0 ?ls' j = given_shape ops ls0 ls j" if "j \<le> ?k" for j
        using that by (simp add: given_shape_def)
      have "?Inv (seen @ [i]) ?ls'"
      proof (intro conjI allI impI)
        show "length ?ls' = ?N" using len by simp
      next
        fix j assume j: "j < ?N" "j < length (seen @ [i])"
        show "layer_initialize_parameters ops (ls0 ! j) (given_shape ops ls0 ?ls' j) = Inr (?ls' ! j)"
        proof (cases "j = ?k")
          case True
          with Inr gs[of j] len k show ?thesis by simp
        next
          case False
          with j have "j < ?k" by simp
          with inv j(1) gs[of j] show ?thesis by simp
        qed
      next
        fix j assume j: "j < ?N" "length (seen @ [i]) \<le> j"
        then have "j \<noteq> ?k" "?k \<le> j" by simp_all
        with inv j(1) show "?ls' ! j = ls0 ! j" by simp
      qed
      with run show ?thesis by blast
    qed
  qed
  moreover have "length (py_range (int ?N)) = ?N" by (simp add: py_range_def)
  ultimately show ?thesis by auto
qed

lemma zip_range_split:
  assumes "seen @ x # rest = zip (py_range (int (length ls))) ls"
  shows "fst x = int (length seen) \<and> length seen < length ls \<and> snd x = ls ! length seen"
proof -
  let ?k = "length seen"
  let ?z = "zip (py_range (int (length ls))) ls"
  have lz: "length ?z = length ls" by (simp add: py_range_def)
  from assms have "length ?z = ?k + Suc (length rest)"
    by (metis length_append length_Cons)
  with lz have k: "?k < length ls" by simp
  have "?z ! ?k = x" using assms by (metis nth_append_length)
  then have "x = (int ?k, ls ! ?k)" using k by (simp add: py_range_def)
  with k show ?thesis by simp
qed

lemma conv_initialize_optimizers_cases:
  fixes ops :: "('l, 'o) layer_ops" and s :: "('a, 'l, 'o) convnet"
  shows "(\<exists>opts. conv_initialize_optimizers ops s = Inr (s\<lparr>optimizers := opts\<rparr>)) \<or>
   (\<exists>e. conv_initialize_optimizers ops s = Inl e \<and>
      ((\<exists>opt ps. initialize_opt_params ops opt ps = Inl e) \<or>
       (e = IndexError \<and> solver s \<notin> set known_solvers)))"
proof -
  let ?is = "zip (py_range (int (length (layers s)))) (layers s)"
  let ?new = "\<lambda>opts. (if solver s = ''sgd'' then
                          opts @ [new_optimizer ops (SGD (cn_learning_rate s))]
                        else if solver s = ''momentum'' then
                          opts @ [new_optimizer ops (Momentum (cn_learning_rate s) (momentum s))]
                        else if solver s = ''adagrad'' then
                          opts @ [new_optimizer ops (AdaGrad (cn_learning_rate s) (epsilon s))]
                        else if solver s = ''rmsprop'' then
                          opts @ [new_optimizer ops
                                    (RMSprop (cn_learning_rate s) (beta_2 s) (epsilon s))]
                        else if solver s = ''adam'' then
                          opts @ [new_optimizer ops
                                    (Adam (cn_learning_rate s) (beta_1 s) (beta_2 s) (epsilon s))]
                        else opts)"
  let ?body = "\<lambda>ll opts. bindE (py_get (?new opts) (fst ll)) (\<lambda>opt.
                    bindE (initialize_opt_params ops opt (layer_params ops (snd ll))) (\<lambda>opt'.
                    py_set (?new opts) (fst ll) opt'))"
  let ?Inv = "\<lambda>seen opts. length opts = length seen"
  let ?E = "\<lambda>e. (\<exists>opt ps. initialize_opt_params ops opt ps = Inl e) \<or>
                 (e = IndexError \<and> solver s \<notin> set known_solvers)"
  have unfold: "conv_initialize_optimizers ops s =
        bindE (for_loop ?is ?body []) (\<lambda>opts. Inr (s\<lparr>optimizers := opts\<rparr>))"
    by (simp add: conv_initialize_optimizers_def Let_def)
  have "(\<exists>opts. for_loop ?is ?body [] = Inr opts \<and> ?Inv ?is opts) \<or>
        (\<exists>e. for_loop ?is ?body [] = Inl e \<and> ?E e)"
  proof (rule for_loop_rule_err)
    show "?Inv [] []" by simp
  next
    fix seen :: "(int \<times> 'l) list" and ll rest and opts :: "'o list"
    assume split: "seen @ ll # rest = ?is" and inv: "?Inv seen opts"
    let ?k = "length seen"
    from zip_range_split[OF split] have l: "fst ll = int ?k" by simp
    show "(\<exists>opts'. ?body ll opts = Inr opts' \<and> ?Inv (seen @ [ll]) opts') \<or>
          (\<exists>e. ?body ll opts = Inl e \<and> ?E e)"
    proof (cases "solver s \<in> set known_solvers")
      case False
      then have "?new opts = opts" by (auto simp: known_solvers_def)
      moreover have "py_get opts (int ?k) = Inl IndexError" using inv by (simp add: py_get_def)
      ultimately have "?body ll opts = Inl IndexError" using l by simp
      with False show ?thesis by blast
    next
      case True
      then obtain o1 where new: "?new opts = opts @ [o1]"
        by (auto simp: known_solvers_def)
      have len: "length (opts @ [o1]) = Suc ?k" using inv by simp
      then have get: "py_get (opts @ [o1]) (int ?k) = Inr o1"
        using inv by (simp add: py_get_nat nth_append)
      show ?thesis
      proof (cases "initialize_opt_params ops o1 (layer_params ops (snd ll))")
        case (Inl e)
        with new get l have "?body ll opts = Inl e" by simp
        with Inl show ?thesis by blast
      next
        case (Inr o')
        have "py_set (opts @ [o1]) (int ?k) o' = Inr ((opts @ [o1])[?k := o'])"
          using len by (simp add: py_set_nat)
        with Inr new get l have "?body ll opts = Inr ((opts @ [o1])[?k := o'])" by simp
        moreover have "?Inv (seen @ [ll]) ((opts @ [o1])[?k := o'])" using inv by simp
        ultimately show ?thesis by blast
      qed
    qed
  qed
  then show ?thesis by (auto simp: unfold)
qed

lemma conv_initialize_parameters_cases:
  fixes ops :: "('l, 'o) layer_ops" and s :: "('a, 'l, 'o) convnet"
  shows "(\<exists>ls opts. conv_initialize_parameters ops s = Inr (s\<lparr>layers := ls, optimizers := opts\<rparr>) \<and>
      length ls = length (layers s) \<and>
      (\<forall>j<length (layers s).
         layer_initialize_parameters ops (layers s ! j) (given_shape ops (layers s) ls j)
           = Inr (ls ! j))) \<or>
   (\<exists>e. conv_initialize_parameters ops s = Inl e \<and>
      ((\<exists>ly sh. layer_initialize_parameters ops ly sh = Inl e) \<or>
       (\<exists>opt ps. initialize_opt_params ops opt ps = Inl e) \<or>
       (e = IndexError \<and> solver s \<notin> set known_solvers)))"
proof -
  let ?loop = "for_loop (py_range (int (length (layers s)))) (conv_layer_body ops) (layers s)"
  have unfold: "conv_initialize_parameters ops s =
      bindE ?loop (\<lambda>ls. conv_initialize_optimizers ops (s\<lparr>layers := ls\<rparr>))"
    by (simp add: conv_initialize_parameters_def conv_layer_body_def)
  from conv_layer_loop[where ops = ops and ?ls0.0 = "layers s"] show ?thesis
  proof
    assume "\<exists>e. ?loop = Inl e \<and> (\<exists>ly sh. layer_initialize_parameters ops ly sh = Inl e)"
    then show ?thesis by (auto simp: unfold)
  next
    assume "\<exists>ls. ?loop = Inr ls \<and> length ls = length (layers s) \<and>
            (\<forall>j<length (layers s).
               layer_initialize_parameters ops (layers s ! j) (given_shape ops (layers s) ls j)
                 = Inr (ls ! j))"
    then obtain ls where ls: "?loop = Inr ls" "length ls = length (layers s)"
      "\<forall>j<length (layers s).
               layer_initialize_parameters ops (layers s ! j) (given_shape ops (layers s) ls j)
                 = Inr (ls ! j)" by blast
    have sv: "solver (s\<lparr>layers := ls\<rparr>) = solver s" by simp
    from conv_initialize_optimizers_cases[of ops "s\<lparr>layers := ls\<rparr>"] ls show ?thesis
      by (auto simp: unfold)
  qed
qed

lemma py_range2_split:
  assumes "seen @ i # rest = py_range2 a b"
  shows "i = a + int (length seen) \<and> a + int (length seen) < b"
proof -
  let ?k = "length seen"
  from assms have len: "length (py_range2 a b) = ?k + Suc (length rest)"
    by (metis length_append length_Cons)
  then have k: "?k < nat (b - a)" by (simp add: py_range2_def)
  have "py_range2 a b ! ?k = i" using assms by (metis nth_append_length)
  then have "i = a + int ?k" using k by (simp add: py_range2_def)
  with k show ?thesis by auto
qed

lemma param_set_params:
  assumes "l < length ps"
  shows "param_set (s\<lparr>params := ps\<rparr>) (int l) k v = Inr (s\<lparr>params := ps[l := (ps ! l)(k \<mapsto> v)]\<rparr>)"
  using assms by (simp add: param_set_def py_get_nat py_set_nat)

lemma W_ok_update:
  assumes "l < length ps"
  shows "W_ok (ps[l := (ps ! l)(k \<mapsto> v)]) j r c =
           (if j = l \<and> k = ''W'' then is_matrix v r c else W_ok ps j r c)"
  using assms by (cases "j = l") (simp_all add: W_ok_def)

lemma b_ok_update:
  assumes "l < length ps"
  shows "b_ok (ps[l := (ps ! l)(k \<mapsto> v)]) j c =
           (if j = l \<and> k = ''b'' then is_vector v c else b_ok ps j c)"
  using assms by (cases "j = l") (simp_all add: b_ok_def)

lemma randn_char:
  "randn g (int r) (int c) =
     Inr (NDArray [r, c] (map g [0..<r * c]), \<lambda>i. g (i + r * c))"
  by (simp add: randn_def)

lemma is_matrix_scaled_randn:
  "is_matrix (scalar_mul x (NDArray [r, c] (map g [0..<r * c]))) r c"
  by (simp add: is_matrix_def scalar_mul_def nd_ok_def)

lemma zeros_char: "zeros (int c) = Inr (NDArray [c] (replicate c 0))"
  by (simp add: zeros_def)

lemma is_vector_zeros: "is_vector (NDArray [c] (replicate c 0)) c"
  by (simp add: is_vector_def nd_ok_def)

lemma initialize_parameters_shapes:
  fixes s :: "'a net"
  assumes n2: "2 \<le> n_layers s" and h0: "0 \<le> hidden_size s"
  shows "\<exists>ps g'. initialize_parameters s g = Inr (s\<lparr>params := ps\<rparr>, g') \<and>
           length ps = nat (n_layers s) \<and> params_shaped (layer_widths s) ps"
proof -
  define n where "n = nat (n_layers s)"
  define h where "h = nat (hidden_size s)"
  let ?inp = "input_size s" and ?out = "output_size s" and ?std = "weight_init_std s"
  have nl: "n_layers s = int n" and n: "2 \<le> n" using n2 by (simp_all add: n_def)
  have hs: "hidden_size s = int h" using h0 by (simp add: h_def)
  define ps0 where "ps0 = (map (\<lambda>l. Map.empty) (py_range (n_layers s)) :: pdict list)"
  have len0: "length ps0 = n" by (simp add: ps0_def py_range_def n_def)
  then have pos0: "0 < length ps0" using n by simp
  \<comment> \<open>the first weight matrix\<close>
  let ?A0 = "scalar_mul ?std (NDArray [?inp, h] (map g [0..<?inp * h]))"
  let ?g1 = "\<lambda>i. g (i + ?inp * h)"
  let ?ps1 = "ps0[0 := (ps0 ! 0)(''W'' \<mapsto> ?A0)]"
  have r0: "randn g (int ?inp) (hidden_size s) = Inr (NDArray [?inp, h] (map g [0..<?inp * h]), ?g1)"
    unfolding hs by (rule randn_char)
  have s1: "param_set (s\<lparr>params := ps0\<rparr>) 0 ''W'' ?A0 = Inr (s\<lparr>params := ?ps1\<rparr>)"
    using param_set_params[OF pos0, of s "''W''" ?A0] by simp
  have len1: "length ?ps1 = n" using len0 by simp
  have W0: "W_ok ?ps1 0 ?inp h"
    using pos0 by (simp add: W_ok_update is_matrix_scaled_randn)
  \<comment> \<open>the weight matrices of the layers in the middle\<close>
  let ?bodyW = "\<lambda>l st.
                     bindE (randn (snd st) (hidden_size s) (hidden_size s)) (\<lambda>r.
                     bindE (param_set (fst st) l ''W''
                              (scalar_mul (weight_init_std s) (fst r))) (\<lambda>sa.
                     Inr (sa, snd r)))"
  let ?InvW = "\<lambda>seen st. \<exists>ps. fst st = s\<lparr>params := ps\<rparr> \<and> length ps = n \<and>
                  W_ok ps 0 ?inp h \<and> (\<forall>j. 1 \<le> j \<and> j < 1 + length seen \<longrightarrow> W_ok ps j h h)"
  let ?isW = "py_range2 1 (n_layers s - 1)"
  have "\<exists>st. for_loop ?isW ?bodyW (s\<lparr>params := ?ps1\<rparr>, ?g1) = Inr st \<and> ?InvW ?isW st"
  proof (rule for_loop_rule)
    show "?InvW [] (s\<lparr>params := ?ps1\<rparr>, ?g1)" using len1 W0 by auto
  next
    fix seen :: "int list" and i rest and st :: "'a net \<times> rng"
    assume split: "seen @ i # rest = ?isW" and inv: "?InvW seen st"
    let ?k = "length seen"
    from py_range2_split[OF split] have i: "i = int (1 + ?k)" and k: "1 + ?k < n - 1"
      using nl by auto
    from inv obtain ps where ps: "fst st = s\<lparr>params := ps\<rparr>" "length ps = n"
      "W_ok ps 0 ?inp h" "\<forall>j. 1 \<le> j \<and> j < 1 + ?k \<longrightarrow> W_ok ps j h h" by blast
    let ?A = "scalar_mul ?std (NDArray [h, h] (map (snd st) [0..<h * h]))"
    let ?ps' = "ps[1 + ?k := (ps ! (1 + ?k))(''W'' \<mapsto> ?A)]"
    have lk: "1 + ?k < length ps" using k ps(2) by simp
    have run: "?bodyW i st = Inr (s\<lparr>params := ?ps'\<rparr>, \<lambda>j. snd st (j + h * h))"
      unfolding hs i randn_char ps(1) using param_set_params[OF lk, of s "''W''" ?A]
      by simp
    have "W_ok ?ps' 0 ?inp h" using ps(3) lk by (simp add: W_ok_update)
    moreover have "\<forall>j. 1 \<le> j \<and> j < 1 + length (seen @ [i]) \<longrightarrow> W_ok ?ps' j h h"
      using ps(4) lk by (auto simp: W_ok_update is_matrix_scaled_randn)
    ultimately have "?InvW (seen @ [i]) (s\<lparr>params := ?ps'\<rparr>, \<lambda>j. snd st (j + h * h))"
      using ps(2) by auto
    with run show "\<exists>st'. ?bodyW i st = Inr st' \<and> ?InvW (seen @ [i]) st'" by blast
  qed
  then obtain st2 where
    loopW0: "for_loop ?isW ?bodyW (s\<lparr>params := ?ps1\<rparr>, ?g1) = Inr st2" and
    inv2: "?InvW ?isW st2" by blast
  from inv2 obtain ps2 where
    fst2: "fst st2 = s\<lparr>params := ps2\<rparr>" and
    len2: "length ps2 = n" and W0_2: "W_ok ps2 0 ?inp h" and
    Wmid0: "\<forall>j. 1 \<le> j \<and> j < 1 + length ?isW \<longrightarrow> W_ok ps2 j h h"
    by blast
  define g2 where "g2 = snd st2"
  have "st2 = (s\<lparr>params := ps2\<rparr>, g2)" using fst2 by (cases st2) (simp add: g2_def)
  with loopW0 have
    loopW: "for_loop ?isW ?bodyW (s\<lparr>params := ?ps1\<rparr>, ?g1) = Inr (s\<lparr>params := ps2\<rparr>, g2)"
    by simp
  have "length ?isW = n - 2" using nl by (simp add: py_range2_def)
  then have "1 + length ?isW = n - 1" using n by simp
  with Wmid0 have Wmid: "\<forall>j. 1 \<le> j \<and> j < n - 1 \<longrightarrow> W_ok ps2 j h h"
    by (simp only:)
  \<comment> \<open>the last weight matrix\<close>
  let ?A3 = "scalar_mul ?std (NDArray [h, ?out] (map g2 [0..<h * ?out]))"
  let ?g3 = "\<lambda>i. g2 (i + h * ?out)"
  let ?ps3 = "ps2[n - 1 := (ps2 ! (n - 1))(''W'' \<mapsto> ?A3)]"
  have last: "n_layers s - 1 = int (n - 1)" using nl n by simp
  have ln: "n - 1 < length ps2" using len2 n by simp
  have r3: "randn g2 (hidden_size s) (int ?out) = Inr (NDArray [h, ?out] (map g2 [0..<h * ?out]), ?g3)"
    unfolding hs by (rule randn_char)
  have s3: "param_set (s\<lparr>params := ps2\<rparr>) (n_layers s - 1) ''W'' ?A3 = Inr (s\<lparr>params := ?ps3\<rparr>)"
    unfolding last by (rule param_set_params[OF ln])
  have len3: "length ?ps3 = n" using len2 by simp
  have W3: "W_ok ?ps3 0 ?inp h" "\<forall>j. 1 \<le> j \<and> j < n - 1 \<longrightarrow> W_ok ?ps3 j h h"
           "W_ok ?ps3 (n - 1) h ?out"
    using W0_2 Wmid ln n by (auto simp: W_ok_update is_matrix_scaled_randn)
  \<comment> \<open>the bias vectors of all layers but the last\<close>
  let ?bodyb = "\<lambda>l sa. bindE (zeros (hidden_size s)) (\<lambda>z. param_set sa l ''b'' z)"
  let ?Invb = "\<lambda>seen sa. \<exists>ps. sa = s\<lparr>params := ps\<rparr> \<and> length ps = n \<and>
                  W_ok ps 0 ?inp h \<and> (\<forall>j. 1 \<le> j \<and> j < n - 1 \<longrightarrow> W_ok ps j h h) \<and>
                  W_ok ps (n - 1) h ?out \<and> (\<forall>j<length seen. b_ok ps j h)"
  let ?isb = "py_range (n_layers s - 1)"
  have "\<exists>sa. for_loop ?isb ?bodyb (s\<lparr>params := ?ps3\<rparr>) = Inr sa \<and> ?Invb ?isb sa"
  proof (rule for_loop_rule)
    show "?Invb [] (s\<lparr>params := ?ps3\<rparr>)" using len3 W3 by auto
  next
    fix seen :: "int list" and i rest and sa :: "'a net"
    assume split: "seen @ i # rest = ?isb" and inv: "?Invb seen sa"
    let ?k = "length seen"
    from py_range_split[OF split] have i: "i = int ?k" and k: "?k < n - 1"
      using last by auto
    from inv obtain ps where ps: "sa = s\<lparr>params := ps\<rparr>" "length ps = n"
      "W_ok ps 0 ?inp h" "\<forall>j. 1 \<le> j \<and> j < n - 1 \<longrightarrow> W_ok ps j h h"
      "W_ok ps (n - 1) h ?out" "\<forall>j<?k. b_ok ps j h" by blast
    let ?z = "NDArray [h] (replicate h 0)"
    let ?ps' = "ps[?k := (ps ! ?k)(''b'' \<mapsto> ?z)]"
    have lk: "?k < length ps" using k ps(2) by simp
    have run: "?bodyb i sa = Inr (s\<lparr>params := ?ps'\<rparr>)"
      unfolding hs i zeros_char ps(1) using param_set_params[OF lk, of s "''b''" ?z] by simp
    have "W_ok ?ps' 0 ?inp h" "\<forall>j. 1 \<le> j \<and> j < n - 1 \<longrightarrow> W_ok ?ps' j h h"
         "W_ok ?ps' (n - 1) h ?out"
      using ps(3,4,5) lk by (simp_all add: W_ok_update)
    moreover have "\<forall>j<length (seen @ [i]). b_ok ?ps' j h"
      using ps(6) lk by (auto simp: b_ok_update is_vector_zeros less_Suc_eq)
    ultimately have "?Invb (seen @ [i]) (s\<lparr>params := ?ps'\<rparr>)" using ps(2) by auto
    with run show "\<exists>sa'. ?bodyb i sa = Inr sa' \<and> ?Invb (seen @ [i]) sa'" by blast
  qed
  then obtain ps4 where
    loopb: "for_loop ?isb ?bodyb (s\<lparr>params := ?ps3\<rparr>) = Inr (s\<lparr>params := ps4\<rparr>)" and
    len4: "length ps4 = n" and
    W4: "W_ok ps4 0 ?inp h" "\<forall>j. 1 \<le> j \<and> j < n - 1 \<longrightarrow> W_ok ps4 j h h"
        "W_ok ps4 (n - 1) h ?out" and
    b4_0: "\<forall>j<length ?isb. b_ok ps4 j h"
    by blast
  have "length ?isb = n - 1" using last by (simp add: py_range_def)
  with b4_0 have b4: "\<forall>j<n - 1. b_ok ps4 j h" by simp
  \<comment> \<open>the last bias vector\<close>
  let ?z5 = "NDArray [?out] (replicate ?out 0)"
  let ?ps5 = "ps4[n - 1 := (ps4 ! (n - 1))(''b'' \<mapsto> ?z5)]"
  have ln4: "n - 1 < length ps4" using len4 n by simp
  have s5: "param_set (s\<lparr>params := ps4\<rparr>) (n_layers s - 1) ''b'' ?z5 = Inr (s\<lparr>params := ?ps5\<rparr>)"
    unfolding last by (rule param_set_params[OF ln4])
  have len5: "length ?ps5 = n" using len4 by simp
  have W5: "W_ok ?ps5 0 ?inp h" "\<forall>j. 1 \<le> j \<and> j < n - 1 \<longrightarrow> W_ok ?ps5 j h h"
           "W_ok ?ps5 (n - 1) h ?out"
    using W4 ln4 by (simp_all add: W_ok_update)
  have b5: "\<forall>j<n - 1. b_ok ?ps5 j h" "b_ok ?ps5 (n - 1) ?out"
    using b4 ln4 by (auto simp: b_ok_update is_vector_zeros)
  \<comment> \<open>the whole initialisation\<close>
  have run: "initialize_parameters s g = Inr (s\<lparr>params := ?ps5\<rparr>, ?g3)"
    unfolding initialize_parameters_def Let_def ps0_def[symmetric]
    by (simp only: r0 bindE_Inr fst_conv snd_conv s1 loopW r3 s3 loopb zeros_char s5)
  \<comment> \<open>the shapes\<close>
  let ?ws = "layer_widths s"
  have ws: "?ws = ?inp # replicate (n - 1) h @ [?out]"
    by (simp add: layer_widths_def n_def h_def)
  have wlen: "length ?ws = Suc n" using n by (simp add: ws)
  have w0: "?ws ! 0 = ?inp" by (simp add: ws)
  have wmid: "?ws ! j = h" if "1 \<le> j" "j \<le> n - 1" for j
  proof -
    from that obtain j' where j': "j = Suc j'" by (cases j) auto
    with that have "j' < n - 1" by simp
    then show ?thesis by (simp add: ws j' nth_append)
  qed
  have wlast: "?ws ! n = ?out"
  proof -
    from n obtain n' where n': "n = Suc n'" by (cases n) auto
    then show ?thesis by (simp add: ws nth_append)
  qed
  have shaped: "params_shaped ?ws ?ps5"
    unfolding params_shaped_def
  proof (intro conjI allI impI)
    show "length ?ws = Suc (length ?ps5)" using wlen len5 by simp
  next
    fix l assume "l < length ?ps5"
    then have l: "l < n" using len5 by simp
    have Wl: "W_ok ?ps5 l (?ws ! l) (?ws ! Suc l)"
    proof (cases "l = 0")
      case True
      with W5(1) w0 wmid[of 1] n show ?thesis by simp
    next
      case False
      show ?thesis
      proof (cases "l = n - 1")
        case True
        with False W5(3) wmid[of l] wlast n show ?thesis by simp
      next
        case F2: False
        with False l have "1 \<le> l" "l < n - 1" by simp_all
        with W5(2) wmid[of l] wmid[of "Suc l"] show ?thesis by simp
      qed
    qed
    have bl: "b_ok ?ps5 l (?ws ! Suc l)"
    proof (cases "l = n - 1")
      case True
      with b5(2) wlast n show ?thesis by simp
    next
      case False
      with l have "l < n - 1" by simp
      with b5(1) wmid[of "Suc l"] show ?thesis by simp
    qed
    show "case (?ps5 ! l) ''W'' of None \<Rightarrow> False | Some W \<Rightarrow> is_matrix W (?ws ! l) (?ws ! Suc l)"
      using Wl by (simp add: W_ok_def)
    show "case (?ps5 ! l) ''b'' of None \<Rightarrow> False | Some b \<Rightarrow> is_vector b (?ws ! Suc l)"
      using bl by (simp add: b_ok_def)
  qed
  from run len5 shaped show ?thesis unfolding n_def by blast
qed

section \<open>Shapes of the backpropagated gradients\<close>

text \<open>The reference helpers keep the shape contract.\<close>

lemma concat_rows_length:
  "\<forall>x\<in>set xs. length (f x) = k \<Longrightarrow> length (concat (map f xs)) = length xs * k"
  by (induction xs) simp_all

lemma matrix_of_is_matrix: "is_matrix (matrix_of n k f) n k"
  by (simp add: is_matrix_def matrix_of_def nd_ok_def length_concat comp_def sum_list_triv)

lemma ref_affine_shape:
  assumes "is_matrix Z m r" "is_matrix W r k" "is_vector b k"
  shows "\<exists>A. ref_affine Z W b = Inr A \<and> is_matrix A m k"
  using assms matrix_of_is_matrix[of m k]
  by (auto simp: ref_affine_def is_matrix_def is_vector_def)

lemma map_nd_is_matrix: "is_matrix A m k \<Longrightarrow> is_matrix (map_nd f A) m k"
  by (simp add: is_matrix_def map_nd_def nd_ok_def)

lemma softmax_row_length: "length (softmax_row r) = length r"
  by (simp add: softmax_row_def Let_def)

lemma ref_softmax_is_matrix:
  assumes "is_matrix A m k"
  shows "is_matrix (ref_softmax A) m k"
proof -
  from assms have sh: "nd_shape A = m # [k]" and ok: "nd_ok A" by (simp_all add: is_matrix_def)
  have "length (nd_row k A i) = k" if "i < m" for i
    using nd_row_length[OF ok sh that] by simp
  then have "\<forall>i\<in>set [0..<m]. length (softmax_row (nd_row k A i)) = k"
    by (simp add: softmax_row_length)
  from concat_rows_length[OF this]
  have "length (concat (map (\<lambda>i. softmax_row (nd_row k A i)) [0..<m])) = m * k"
    by simp
  with sh show ?thesis by (simp add: ref_softmax_def is_matrix_def nd_ok_def)
qed

lemma zip_map_is_matrix:
  assumes "is_matrix Y m k \<and> is_matrix T m k"
  shows "same_matrix_shape Y T \<and>
         is_matrix (NDArray (nd_shape Y) (map f (zip (nd_data Y) (nd_data T)))) m k"
  using assms by (simp add: same_matrix_shape_def is_matrix_def nd_ok_def)

lemma ref_common_shape_contract: "shape_contract ref_common"
  unfolding shape_contract_def
proof (intro conjI allI impI)
  fix Z W b act m r k
  assume a: "is_matrix Z m r \<and> is_matrix W r k \<and> is_vector b k \<and> act \<in> {''relu'', ''sigmoid''}"
  then obtain A where A: "ref_affine Z W b = Inr A" "is_matrix A m k"
    using ref_affine_shape by blast
  with a show "\<exists>Zo A. forward_middle ref_common Z W b act = Inr (Zo, A) \<and>
                is_matrix Zo m k \<and> is_matrix A m k"
    by (auto simp: ref_common_def ref_forward_middle_def map_nd_is_matrix)
next
  fix Z W b m r k
  assume "is_matrix Z m r \<and> is_matrix W r k \<and> is_vector b k"
  then obtain A where A: "ref_affine Z W b = Inr A" "is_matrix A m k"
    using ref_affine_shape by blast
  then show "\<exists>Y. forward_last_classification ref_common Z W b = Inr Y \<and> is_matrix Y m k"
    by (simp add: ref_common_def ref_forward_last_classification_def ref_softmax_is_matrix)
next
  fix Y T m k
  assume "is_matrix Y m k \<and> is_matrix T m k"
  from zip_map_is_matrix[OF this]
  show "\<exists>dA. softmax_loss_backward ref_common Y T = Inr dA \<and> is_matrix dA m k"
    by (simp add: ref_common_def ref_softmax_loss_backward_def)
next
  fix dA m k
  assume "is_matrix dA m k"
  then show "\<exists>db. affine_backward_bias ref_common dA = Inr db \<and> is_vector db k"
    by (simp add: ref_common_def ref_affine_backward_bias_def is_matrix_def is_vector_def
          nd_ok_def)
next
  fix dA Z m k r
  assume "is_matrix dA m k \<and> is_matrix Z m r"
  then show "\<exists>dW. affine_backward_weight ref_common dA Z = Inr dW \<and> is_matrix dW r k"
    using matrix_of_is_matrix[of r k]
    by (auto simp: ref_common_def ref_affine_backward_weight_def is_matrix_def)
next
  fix dA W m k r
  assume "is_matrix dA m k \<and> is_matrix W r k"
  then show "\<exists>dZ. affine_backward_zprev ref_common dA W = Inr dZ \<and> is_matrix dZ m r"
    using matrix_of_is_matrix[of m r]
    by (auto simp: ref_common_def ref_affine_backward_zprev_def is_matrix_def)
next
  fix dZ A m k
  assume "is_matrix dZ m k \<and> is_matrix A m k"
  from zip_map_is_matrix[OF this]
  show "\<exists>dA. relu_backward ref_common dZ A = Inr dA \<and> is_matrix dA m k"
    by (simp add: ref_common_def ref_relu_backward_def)
next
  fix dZ Z m k
  assume "is_matrix dZ m k \<and> is_matrix Z m k"
  from zip_map_is_matrix[OF this]
  show "\<exists>dA. sigmoid_backward ref_common dZ Z = Inr dA \<and> is_matrix dA m k"
    by (simp add: ref_common_def ref_sigmoid_backward_def)
qed

text \<open>What the contract gives for each helper, and the parameters of a layer.\<close>

lemma py_range_down_split:
  assumes "seen @ i # rest = py_range_down a b"
  shows "i = a - int (length seen) \<and> b < a - int (length seen)"
proof -
  let ?k = "length seen"
  from assms have len: "length (py_range_down a b) = ?k + Suc (length rest)"
    by (metis length_append length_Cons)
  then have k: "?k < nat (a - b)" by (simp add: py_range_down_def)
  have "py_range_down a b ! ?k = i" using assms by (metis nth_append_length)
  then have "i = a - int ?k" using k by (simp add: py_range_down_def)
  with k show ?thesis by auto
qed

lemma param_get_shaped:
  assumes "params_shaped ws (params s)" "l < length (params s)"
  shows "\<exists>W b. param_get s (int l) ''W'' = Inr W \<and> is_matrix W (ws ! l) (ws ! Suc l) \<and>
               param_get s (int l) ''b'' = Inr b \<and> is_vector b (ws ! Suc l)"
proof -
  from assms have
    "(case (params s ! l) ''W'' of None \<Rightarrow> False | Some W \<Rightarrow> is_matrix W (ws ! l) (ws ! Suc l)) \<and>
     (case (params s ! l) ''b'' of None \<Rightarrow> False | Some b \<Rightarrow> is_vector b (ws ! Suc l))"
    unfolding params_shaped_def by blast
  then obtain W b where "(params s ! l) ''W'' = Some W" "is_matrix W (ws ! l) (ws ! Suc l)"
    "(params s ! l) ''b'' = Some b" "is_vector b (ws ! Suc l)"
    by (auto split: option.splits)
  then show ?thesis using assms(2) by (simp add: param_get_def py_get_nat dict_get_def)
qed

lemma contract_forward_middle:
  assumes "shape_contract c" "is_matrix Z m r" "is_matrix W r k" "is_vector b k"
          "act \<in> {''relu'', ''sigmoid''}"
  shows "\<exists>Zo A. forward_middle c Z W b act = Inr (Zo, A) \<and> is_matrix Zo m k \<and> is_matrix A m k"
proof -
  from assms(1) have "\<forall>Z W b act m r k.
         is_matrix Z m r \<and> is_matrix W r k \<and> is_vector b k \<and> act \<in> {''relu'', ''sigmoid''} \<longrightarrow>
         (\<exists>Zo A. forward_middle c Z W b act = Inr (Zo, A) \<and> is_matrix Zo m k \<and> is_matrix A m k)"
    unfolding shape_contract_def by (elim conjE)
  with assms(2-) show ?thesis by blast
qed

lemma contract_forward_last:
  assumes "shape_contract c" "is_matrix Z m r" "is_matrix W r k" "is_vector b k"
  shows "\<exists>Y. forward_last_classification c Z W b = Inr Y \<and> is_matrix Y m k"
proof -
  from assms(1) have "\<forall>Z W b m r k.
         is_matrix Z m r \<and> is_matrix W r k \<and> is_vector b k \<longrightarrow>
         (\<exists>Y. forward_last_classification c Z W b = Inr Y \<and> is_matrix Y m k)"
    unfolding shape_contract_def by (elim conjE)
  with assms(2-) show ?thesis by blast
qed

lemma contract_softmax_loss_backward:
  assumes "shape_contract c" "is_matrix Y m k" "is_matrix T m k"
  shows "\<exists>dA. softmax_loss_backward c Y T = Inr dA \<and> is_matrix dA m k"
proof -
  from assms(1) have "\<forall>Y T m k.
         is_matrix Y m k \<and> is_matrix T m k \<longrightarrow>
         (\<exists>dA. softmax_loss_backward c Y T = Inr dA \<and> is_matrix dA m k)"
    unfolding shape_contract_def by (elim conjE)
  with assms(2-) show ?thesis by blast
qed

lemma contract_affine_backward_bias:
  assumes "shape_contract c" "is_matrix dA m k"
  shows "\<exists>db. affine_backward_bias c dA = Inr db \<and> is_vector db k"
proof -
  from assms(1) have "\<forall>dA m k.
         is_matrix dA m k \<longrightarrow> (\<exists>db. affine_backward_bias c dA = Inr db \<and> is_vector db k)"
    unfolding shape_contract_def by (elim conjE)
  with assms(2-) show ?thesis by blast
qed

lemma contract_affine_backward_weight:
  assumes "shape_contract c" "is_matrix dA m k" "is_matrix Z m r"
  shows "\<exists>dW. affine_backward_weight c dA Z = Inr dW \<and> is_matrix dW r k"
proof -
  from assms(1) have "\<forall>dA Z m k r.
         is_matrix dA m k \<and> is_matrix Z m r \<longrightarrow>
         (\<exists>dW. affine_backward_weight c dA Z = Inr dW \<and> is_matrix dW r k)"
    unfolding shape_contract_def by (elim conjE)
  with assms(2-) show ?thesis by blast
qed

lemma contract_affine_backward_zprev:
  assumes "shape_contract c" "is_matrix dA m k" "is_matrix W r k"
  shows "\<exists>dZ. affine_backward_zprev c dA W = Inr dZ \<and> is_matrix dZ m r"
proof -
  from assms(1) have "\<forall>dA W m k r.
         is_matrix dA m k \<and> is_matrix W r k \<longrightarrow>
         (\<exists>dZ. affine_backward_zprev c dA W = Inr dZ \<and> is_matrix dZ m r)"
    unfolding shape_contract_def by (elim conjE)
  with assms(2-) show ?thesis by blast
qed

lemma contract_relu_backward:
  assumes "shape_contract c" "is_matrix dZ m k" "is_matrix A m k"
  shows "\<exists>dA. relu_backward c dZ A = Inr dA \<and> is_matrix dA m k"
proof -
  from assms(1) have "\<forall>dZ A m k.
         is_matrix dZ m k \<and> is_matrix A m k \<longrightarrow>
         (\<exists>dA. relu_backward c dZ A = Inr dA \<and> is_matrix dA m k)"
    unfolding shape_contract_def by (elim conjE)
  with assms(2-) show ?thesis by blast
qed

lemma contract_sigmoid_backward:
  assumes "shape_contract c" "is_matrix dZ m k" "is_matrix Z m k"
  shows "\<exists>dA. sigmoid_backward c dZ Z = Inr dA \<and> is_matrix dA m k"
proof -
  from assms(1) have "\<forall>dZ Z m k.
         is_matrix dZ m k \<and> is_matrix Z m k \<longrightarrow>
         (\<exists>dA. sigmoid_backward c dZ Z = Inr dA \<and> is_matrix dA m k)"
    unfolding shape_contract_def by (elim conjE)
  with assms(2-) show ?thesis by blast
qed

text \<open>The forward pass with cache returns arrays of the widths of the network.\<close>

lemma predict_onehot_train_shapes:
  fixes s :: "'a net"
  assumes c: "shape_contract c"
      and n: "2 \<le> n_layers s" "length (params s) = nat (n_layers s)"
      and ps: "params_shaped ws (params s)"
      and act: "activation_function s \<in> {''relu'', ''sigmoid''}"
      and X: "is_matrix X m (ws ! 0)"
  shows "\<exists>Y Zs As. predict_onehot_train c s X = Inr (Y, Zs, As) \<and>
           is_matrix Y m (ws ! nat (n_layers s)) \<and>
           length Zs = nat (n_layers s) - 1 \<and> length As = nat (n_layers s) - 1 \<and>
           (\<forall>j<nat (n_layers s) - 1.
              is_matrix (Zs ! j) m (ws ! Suc j) \<and> is_matrix (As ! j) m (ws ! Suc j))"
proof -
  define k where "k = nat (n_layers s) - 1"
  have nl: "n_layers s = int (Suc k)" and k1: "1 \<le> k" using n(1) by (simp_all add: k_def)
  have lenp: "length (params s) = Suc k" using n(2) nl by simp
  let ?body = "\<lambda>l st.
                 bindE (param_get s l ''W'') (\<lambda>W.
                 bindE (param_get s l ''b'') (\<lambda>b.
                 bindE (forward_middle c (fst st) W b (activation_function s)) (\<lambda>ZA.
                 Inr (fst ZA, fst (snd st) @ [fst ZA], snd (snd st) @ [snd ZA]))))"
  let ?Inv = "\<lambda>seen st.
      is_matrix (fst st) m (ws ! length seen) \<and>
      length (fst (snd st)) = length seen \<and> length (snd (snd st)) = length seen \<and>
      (\<forall>j<length seen. is_matrix (fst (snd st) ! j) m (ws ! Suc j) \<and>
                        is_matrix (snd (snd st) ! j) m (ws ! Suc j))"
  let ?is = "py_range (n_layers s - 1)"
  have "\<exists>st. for_loop ?is ?body (X, [], []) = Inr st \<and> ?Inv ?is st"
  proof (rule for_loop_rule)
    show "?Inv [] (X, [], [])" using X by simp
  next
    fix seen :: "int list" and i rest and st :: "ndarray \<times> ndarray list \<times> ndarray list"
    assume split: "seen @ i # rest = ?is" and inv: "?Inv seen st"
    let ?j = "length seen"
    from py_range_split[OF split] have i: "i = int ?j" and j: "?j < k"
      using nl by auto
    then have jn: "?j < length (params s)" using lenp by simp
    from param_get_shaped[OF ps jn] obtain W b where
      W: "param_get s (int ?j) ''W'' = Inr W" "is_matrix W (ws ! ?j) (ws ! Suc ?j)"
      and b: "param_get s (int ?j) ''b'' = Inr b" "is_vector b (ws ! Suc ?j)" by blast
    from inv have Z: "is_matrix (fst st) m (ws ! ?j)" by simp
    from contract_forward_middle[OF c Z W(2) b(2) act] obtain Zo A where
      f: "forward_middle c (fst st) W b (activation_function s) = Inr (Zo, A)"
         "is_matrix Zo m (ws ! Suc ?j)" "is_matrix A m (ws ! Suc ?j)" by blast
    have run: "?body i st = Inr (Zo, fst (snd st) @ [Zo], snd (snd st) @ [A])"
      unfolding i using W(1) b(1) f(1) by simp
    have "?Inv (seen @ [i]) (Zo, fst (snd st) @ [Zo], snd (snd st) @ [A])"
      using inv f(2,3) by (auto simp: nth_append less_Suc_eq)
    with run show "\<exists>st'. ?body i st = Inr st' \<and> ?Inv (seen @ [i]) st'" by blast
  qed
  then obtain st where loop: "for_loop ?is ?body (X, [], []) = Inr st" and fin: "?Inv ?is st"
    by blast
  have lis: "length ?is = k" using nl by (simp add: py_range_def)
  obtain Z Zs As where st: "st = (Z, Zs, As)" by (cases st) auto
  from fin lis st have Z: "is_matrix Z m (ws ! k)" and lens: "length Zs = k" "length As = k"
    and each: "\<forall>j<k. is_matrix (Zs ! j) m (ws ! Suc j) \<and> is_matrix (As ! j) m (ws ! Suc j)"
    by simp_all
  have kn: "k < length (params s)" using lenp by simp
  from param_get_shaped[OF ps kn] obtain W b where
    W: "param_get s (int k) ''W'' = Inr W" "is_matrix W (ws ! k) (ws ! Suc k)"
    and b: "param_get s (int k) ''b'' = Inr b" "is_vector b (ws ! Suc k)" by blast
  from contract_forward_last[OF c Z W(2) b(2)] obtain Y where
    Y: "forward_last_classification c Z W b = Inr Y" "is_matrix Y m (ws ! Suc k)" by blast
  have last: "n_layers s - 1 = int k" using nl by simp
  have "predict_onehot_train c s X = Inr (Y, Zs, As)"
    unfolding predict_onehot_train_def using loop st W(1) b(1) Y(1) last by simp
  moreover have "nat (n_layers s) = Suc k" using nl by simp
  ultimately show ?thesis using Y(2) lens each k_def by auto
qed

text \<open>One pass of the hidden-layer loop fills the entry of its layer.\<close>

lemma backprop_step_shapes:
  fixes s :: "'a net"
  assumes c: "shape_contract c"
      and lenp: "length (params s) = n"
      and ps: "params_shaped ws (params s)"
      and act: "activation_function s \<in> {''relu'', ''sigmoid''}"
      and X: "is_matrix X m (ws ! 0)"
      and Zs: "length Zs = n - 1" "\<forall>j<n - 1. is_matrix (Zs ! j) m (ws ! Suc j)"
      and As: "length As = n - 1" "\<forall>j<n - 1. is_matrix (As ! j) m (ws ! Suc j)"
      and l: "Suc l < n"
      and g: "length grads = n" "grads ! l = Map.empty"
      and dZ: "is_matrix dZ_prev m (ws ! Suc l)"
  shows "\<exists>dW db dA dZ'. backprop_step c s X Zs As (int l) (grads, dA0, dZ_prev) =
            Inr (grads[l := [''b'' \<mapsto> db, ''W'' \<mapsto> dW]], dA, dZ') \<and>
            is_matrix dW (ws ! l) (ws ! Suc l) \<and> is_vector db (ws ! Suc l) \<and>
            (0 < l \<longrightarrow> is_matrix dZ' m (ws ! l))"
proof -
  have ln: "l < n - 1" using l by simp
  have getA: "py_get As (int l) = Inr (As ! l)" using ln As(1) by (simp add: py_get_nat)
  have getZ: "py_get Zs (int l) = Inr (Zs ! l)" using ln Zs(1) by (simp add: py_get_nat)
  have Al: "is_matrix (As ! l) m (ws ! Suc l)" using As(2) ln by blast
  have Zl: "is_matrix (Zs ! l) m (ws ! Suc l)" using Zs(2) ln by blast
  \<comment> \<open>the gradient with respect to the affine output\<close>
  have "\<exists>dA1 dA.
          (if activation_function s = ''relu''
           then bindE (py_get As (int l)) (\<lambda>A. relu_backward c dZ_prev A)
           else Inr dA0) = Inr dA1 \<and>
          (if activation_function s = ''sigmoid''
           then bindE (py_get Zs (int l)) (\<lambda>Z. sigmoid_backward c dZ_prev Z)
           else Inr dA1) = Inr dA \<and>
          is_matrix dA m (ws ! Suc l)"
  proof (cases "activation_function s = ''relu''")
    case True
    from contract_relu_backward[OF c dZ Al] obtain dA where
      "relu_backward c dZ_prev (As ! l) = Inr dA" "is_matrix dA m (ws ! Suc l)" by blast
    with True getA show ?thesis by simp
  next
    case False
    with act have sg: "activation_function s = ''sigmoid''" by simp
    from contract_sigmoid_backward[OF c dZ Zl] obtain dA where
      "sigmoid_backward c dZ_prev (Zs ! l) = Inr dA" "is_matrix dA m (ws ! Suc l)" by blast
    with sg getZ show ?thesis by simp
  qed
  then obtain dA1 dA where
    a1: "(if activation_function s = ''relu''
           then bindE (py_get As (int l)) (\<lambda>A. relu_backward c dZ_prev A)
           else Inr dA0) = Inr dA1" and
    a2: "(if activation_function s = ''sigmoid''
           then bindE (py_get Zs (int l)) (\<lambda>Z. sigmoid_backward c dZ_prev Z)
           else Inr dA1) = Inr dA" and
    dA: "is_matrix dA m (ws ! Suc l)" by blast
  from contract_affine_backward_bias[OF c dA] obtain db where
    db: "affine_backward_bias c dA = Inr db" "is_vector db (ws ! Suc l)" by blast
  \<comment> \<open>the weight gradient and the gradient handed to the layer before\<close>
  have "\<exists>dW dZ'.
          (if int l > 0
           then bindE (py_get Zs (int l - 1)) (\<lambda>Z_prev.
                bindE (affine_backward_weight c dA Z_prev) (\<lambda>dW.
                bindE (param_get s (int l) ''W'') (\<lambda>W.
                bindE (affine_backward_zprev c dA W) (\<lambda>dZ_prev'.
                Inr (dW, dZ_prev')))))
           else bindE (affine_backward_weight c dA X) (\<lambda>dW.
                Inr (dW, dZ_prev))) = Inr (dW, dZ') \<and>
          is_matrix dW (ws ! l) (ws ! Suc l) \<and> (0 < l \<longrightarrow> is_matrix dZ' m (ws ! l))"
  proof (cases l)
    case 0
    from contract_affine_backward_weight[OF c dA X] obtain dW where
      "affine_backward_weight c dA X = Inr dW" "is_matrix dW (ws ! 0) (ws ! Suc l)" by blast
    with 0 show ?thesis by simp
  next
    case (Suc l')
    have l'n: "l' < n - 1" using ln Suc by simp
    have getP: "py_get Zs (int l - 1) = Inr (Zs ! l')"
      using l'n Zs(1) Suc by (simp add: py_get_nat)
    have Zp: "is_matrix (Zs ! l') m (ws ! l)" using Zs(2) l'n Suc by blast
    from contract_affine_backward_weight[OF c dA Zp] obtain dW where
      dW: "affine_backward_weight c dA (Zs ! l') = Inr dW" "is_matrix dW (ws ! l) (ws ! Suc l)"
      by blast
    have "l < length (params s)" using l lenp by simp
    from param_get_shaped[OF ps this] obtain W where
      W: "param_get s (int l) ''W'' = Inr W" "is_matrix W (ws ! l) (ws ! Suc l)" by blast
    from contract_affine_backward_zprev[OF c dA W(2)] obtain dZ' where
      dZ': "affine_backward_zprev c dA W = Inr dZ'" "is_matrix dZ' m (ws ! l)" by blast
    have "int l > 0" using Suc by simp
    with getP dW W dZ' show ?thesis by simp
  qed
  then obtain dW dZ' where
    r: "(if int l > 0
           then bindE (py_get Zs (int l - 1)) (\<lambda>Z_prev.
                bindE (affine_backward_weight c dA Z_prev) (\<lambda>dW.
                bindE (param_get s (int l) ''W'') (\<lambda>W.
                bindE (affine_backward_zprev c dA W) (\<lambda>dZ_prev'.
                Inr (dW, dZ_prev')))))
           else bindE (affine_backward_weight c dA X) (\<lambda>dW.
                Inr (dW, dZ_prev))) = Inr (dW, dZ')" and
    dW: "is_matrix dW (ws ! l) (ws ! Suc l)" and dZ': "0 < l \<longrightarrow> is_matrix dZ' m (ws ! l)"
    by blast
  \<comment> \<open>the two assignments to the gradient set\<close>
  have lg: "l < length grads" using l g(1) by simp
  have s1: "grads_set grads (int l) ''b'' db = Inr (grads[l := [''b'' \<mapsto> db]])"
    using grads_set_char[of "int l" grads "''b''" db] lg g(2) by simp
  have s2: "grads_set (grads[l := [''b'' \<mapsto> db]]) (int l) ''W'' dW =
              Inr (grads[l := [''b'' \<mapsto> db, ''W'' \<mapsto> dW]])"
    using grads_set_char[of "int l" "grads[l := [''b'' \<mapsto> db]]" "''W''" dW] lg by simp
  have "backprop_step c s X Zs As (int l) (grads, dA0, dZ_prev) =
          Inr (grads[l := [''b'' \<mapsto> db, ''W'' \<mapsto> dW]], dA, dZ')"
    unfolding backprop_step_def Let_def fst_conv snd_conv
    by (simp only: a1 a2 db(1) r s1 s2 bindE_Inr fst_conv snd_conv)
  with dW db(2) dZ' show ?thesis by blast
qed

lemma grad_entry_ok_aligned:
  assumes ps: "params_shaped ws ps" and len: "length grads = length ps"
      and each: "\<forall>j<length ps. grad_entry_ok ws j (grads ! j)"
  shows "aligned grads ps"
  unfolding aligned_def
proof (intro conjI allI impI)
  show "length grads = length ps" by (rule len)
next
  fix l assume l: "l < length ps"
  with each obtain dW db where
    g: "grads ! l = [''b'' \<mapsto> db, ''W'' \<mapsto> dW]"
       "is_matrix dW (ws ! l) (ws ! Suc l)" "is_vector db (ws ! Suc l)"
    unfolding grad_entry_ok_def by blast
  from ps l have
    "(case (ps ! l) ''W'' of None \<Rightarrow> False | Some W \<Rightarrow> is_matrix W (ws ! l) (ws ! Suc l)) \<and>
     (case (ps ! l) ''b'' of None \<Rightarrow> False | Some b \<Rightarrow> is_vector b (ws ! Suc l))"
    unfolding params_shaped_def by blast
  then obtain W b where p: "(ps ! l) ''W'' = Some W" "is_matrix W (ws ! l) (ws ! Suc l)"
    "(ps ! l) ''b'' = Some b" "is_vector b (ws ! Suc l)"
    by (auto split: option.splits)
  show "dom (grads ! l) = {''W'', ''b''}" using g(1) by auto
  show "\<forall>k\<in>{''W'', ''b''}. (ps ! l) k \<noteq> None \<and>
            map_option nd_shape ((grads ! l) k) = map_option nd_shape ((ps ! l) k)"
    using g p by (simp add: is_matrix_def is_vector_def)
qed

text \<open>
  Under the shape contract backpropagation returns, and every entry of its result has
  the shapes of its layer.
\<close>

lemma grads_set_nat:
  "l < length grads \<Longrightarrow>
   grads_set grads (int l) k v = Inr (grads[l := (grads ! l)(k \<mapsto> v)])"
  using grads_set_char[of "int l" grads k v] by simp

lemma gradient_backpropagation_shapes:
  fixes s :: "'a net"
  assumes c: "shape_contract c"
      and n: "2 \<le> n_layers s" "length (params s) = nat (n_layers s)"
      and ps: "params_shaped ws (params s)"
      and act: "activation_function s \<in> {''relu'', ''sigmoid''}"
      and X: "is_matrix X m (ws ! 0)"
      and T: "is_matrix T m (ws ! nat (n_layers s))"
  shows "\<exists>grads. gradient_backpropagation c s X T = Inr (grads, s) \<and>
           length grads = nat (n_layers s) \<and>
           (\<forall>j<nat (n_layers s). grad_entry_ok ws j (grads ! j))"
proof -
  define k where "k = nat (n_layers s) - 2"
  have nl: "n_layers s = int (Suc (Suc k))" using n(1) by (simp add: k_def)
  have N: "nat (n_layers s) = Suc (Suc k)" using nl by simp
  have lenp: "length (params s) = Suc (Suc k)" using n(2) N by simp
  from predict_onehot_train_shapes[OF c n ps act X] N obtain Y Zs As where
    fw: "predict_onehot_train c s X = Inr (Y, Zs, As)" and
    Y: "is_matrix Y m (ws ! Suc (Suc k))" and
    lens: "length Zs = Suc k" "length As = Suc k" and
    each: "\<forall>j<Suc k. is_matrix (Zs ! j) m (ws ! Suc j) \<and> is_matrix (As ! j) m (ws ! Suc j)"
    by auto
  have Zs: "length Zs = Suc (Suc k) - 1" "\<forall>j<Suc (Suc k) - 1. is_matrix (Zs ! j) m (ws ! Suc j)"
    using lens each by simp_all
  have As: "length As = Suc (Suc k) - 1" "\<forall>j<Suc (Suc k) - 1. is_matrix (As ! j) m (ws ! Suc j)"
    using lens each by simp_all
  define g0 where "g0 = (map (\<lambda>l. Map.empty) (py_range (n_layers s)) :: pdict list)"
  have len0: "length g0 = Suc (Suc k)" using N by (simp add: g0_def py_range_def)
  have empty0: "g0 ! j = Map.empty" if "j < Suc (Suc k)" for j
  proof -
    from that N have "j < length (py_range (n_layers s))" by (simp add: py_range_def)
    then show ?thesis unfolding g0_def by (rule nth_map)
  qed
  \<comment> \<open>the output layer\<close>
  from T N have T': "is_matrix T m (ws ! Suc (Suc k))" by simp
  from contract_softmax_loss_backward[OF c Y T'] obtain dA where
    dA: "softmax_loss_backward c Y T = Inr dA" "is_matrix dA m (ws ! Suc (Suc k))" by blast
  from contract_affine_backward_bias[OF c dA(2)] obtain db where
    db: "affine_backward_bias c dA = Inr db" "is_vector db (ws ! Suc (Suc k))" by blast
  have i2: "n_layers s - 2 = int k" and i1: "n_layers s - 1 = int (Suc k)" using nl by simp_all
  have getZ: "py_get Zs (int k) = Inr (Zs ! k)" using lens by (simp add: py_get_nat)
  have Zk: "is_matrix (Zs ! k) m (ws ! Suc k)" using each by simp
  from contract_affine_backward_weight[OF c dA(2) Zk] obtain dW where
    dW: "affine_backward_weight c dA (Zs ! k) = Inr dW"
        "is_matrix dW (ws ! Suc k) (ws ! Suc (Suc k))" by blast
  have "Suc k < length (params s)" using lenp by simp
  from param_get_shaped[OF ps this] obtain W where
    W: "param_get s (int (Suc k)) ''W'' = Inr W" "is_matrix W (ws ! Suc k) (ws ! Suc (Suc k))"
    by blast
  from contract_affine_backward_zprev[OF c dA(2) W(2)] obtain dZ where
    dZ: "affine_backward_zprev c dA W = Inr dZ" "is_matrix dZ m (ws ! Suc k)" by blast
  define g2 where "g2 = g0[Suc k := [''b'' \<mapsto> db, ''W'' \<mapsto> dW]]"
  have s1: "grads_set g0 (int (Suc k)) ''b'' db = Inr (g0[Suc k := [''b'' \<mapsto> db]])"
  proof -
    have lt: "Suc k < length g0" using len0 by simp
    have e: "g0 ! Suc k = Map.empty" by (rule empty0) simp
    from grads_set_nat[OF lt, of "''b''" db] show ?thesis unfolding e .
  qed
  have s2: "grads_set (g0[Suc k := [''b'' \<mapsto> db]]) (int (Suc k)) ''W'' dW = Inr g2"
  proof -
    have lt: "Suc k < length (g0[Suc k := [''b'' \<mapsto> db]])" using len0 by simp
    have e: "(g0[Suc k := [''b'' \<mapsto> db]])[Suc k :=
               ((g0[Suc k := [''b'' \<mapsto> db]]) ! Suc k)(''W'' \<mapsto> dW)] = g2"
      using len0 by (simp add: g2_def)
    from grads_set_nat[OF lt, of "''W''" dW] show ?thesis unfolding e .
  qed
  have len2: "length g2 = Suc (Suc k)" using len0 by (simp add: g2_def)
  have last2: "grad_entry_ok ws (Suc k) (g2 ! Suc k)"
    using dW(2) db(2) len0 by (auto simp: grad_entry_ok_def g2_def)
  have empty2: "g2 ! j = Map.empty" if "j < Suc k" for j
    using that empty0[of j] by (simp add: g2_def)
  \<comment> \<open>the hidden layers, from the last one down\<close>
  let ?body = "backprop_step c s X Zs As"
  let ?Inv = "\<lambda>seen st.
      length (fst st) = Suc (Suc k) \<and>
      (\<forall>j<Suc (Suc k). Suc k - length seen \<le> j \<longrightarrow> grad_entry_ok ws j (fst st ! j)) \<and>
      (\<forall>j<Suc k - length seen. fst st ! j = Map.empty) \<and>
      (length seen < Suc k \<longrightarrow> is_matrix (snd (snd st)) m (ws ! (Suc k - length seen)))"
  let ?is = "py_range_down (n_layers s - 2) (- 1)"
  have "\<exists>st. for_loop ?is ?body (g2, dA, dZ) = Inr st \<and> ?Inv ?is st"
  proof (rule for_loop_rule)
    have "grad_entry_ok ws j (g2 ! j)" if "j < Suc (Suc k)" "Suc k \<le> j" for j
    proof -
      from that have "j = Suc k" by simp
      with last2 show ?thesis by simp
    qed
    then show "?Inv [] (g2, dA, dZ)" using len2 empty2 dZ(2) by simp
  next
    fix seen :: "int list" and i rest and st :: "pdict list \<times> ndarray \<times> ndarray"
    assume split: "seen @ i # rest = ?is" and inv: "?Inv seen st"
    let ?q = "length seen"
    from py_range_down_split[OF split] have i: "i = int k - int ?q" and q: "?q \<le> k"
      unfolding i2 by auto
    define l where "l = k - ?q"
    have il: "i = int l" and lq: "Suc k - ?q = Suc l" and l_lt: "Suc l < Suc (Suc k)"
      using i q by (simp_all add: l_def)
    obtain grads dA0 dZp where st: "st = (grads, dA0, dZp)" by (cases st) auto
    from inv st lq have leng: "length grads = Suc (Suc k)"
      and okg: "\<forall>j<Suc (Suc k). Suc l \<le> j \<longrightarrow> grad_entry_ok ws j (grads ! j)"
      and emg: "\<forall>j<Suc l. grads ! j = Map.empty"
      and dZp: "is_matrix dZp m (ws ! Suc l)"
      using q by simp_all
    from emg have gl: "grads ! l = Map.empty" by simp
    from backprop_step_shapes[OF c lenp ps act X Zs As l_lt leng gl dZp, of dA0]
    obtain dW' db' dA' dZ' where
      run: "backprop_step c s X Zs As (int l) (grads, dA0, dZp) =
              Inr (grads[l := [''b'' \<mapsto> db', ''W'' \<mapsto> dW']], dA', dZ')" and
      sh: "is_matrix dW' (ws ! l) (ws ! Suc l)" "is_vector db' (ws ! Suc l)"
          "0 < l \<longrightarrow> is_matrix dZ' m (ws ! l)"
      by blast
    let ?g' = "grads[l := [''b'' \<mapsto> db', ''W'' \<mapsto> dW']]"
    have lq': "Suc k - length (seen @ [i]) = l" using q by (simp add: l_def)
    have entry: "grad_entry_ok ws l (?g' ! l)"
      using sh(1,2) leng l_lt by (auto simp: grad_entry_ok_def)
    have ok': "grad_entry_ok ws j (?g' ! j)" if "j < Suc (Suc k)" "l \<le> j" for j
    proof (cases "j = l")
      case True
      with entry show ?thesis by simp
    next
      case False
      with that have "Suc l \<le> j" by simp
      with okg that(1) have "grad_entry_ok ws j (grads ! j)" by blast
      with False show ?thesis by simp
    qed
    have em': "?g' ! j = Map.empty" if "j < l" for j
      using that emg by simp
    have dz': "length (seen @ [i]) < Suc k \<longrightarrow> is_matrix dZ' m (ws ! l)"
      using sh(3) q by (auto simp: l_def)
    have "?Inv (seen @ [i]) (?g', dA', dZ')"
      unfolding lq' fst_conv snd_conv using leng ok' em' dz' by simp
    with run st il
    show "\<exists>st'. ?body i st = Inr st' \<and> ?Inv (seen @ [i]) st'" by blast
  qed
  then obtain st where loop: "for_loop ?is ?body (g2, dA, dZ) = Inr st" and fin: "?Inv ?is st"
    by blast
  have lis: "length ?is = Suc k" unfolding i2 by (simp add: py_range_down_def)
  from fin lis have lenf: "length (fst st) = Suc (Suc k)"
    and okf: "\<forall>j<Suc (Suc k). grad_entry_ok ws j (fst st ! j)"
    by simp_all
  have "gradient_backpropagation c s X T = Inr (fst st, s)"
    unfolding gradient_backpropagation_def Let_def
    by (simp only: fw bindE_Inr fst_conv snd_conv dA(1) db(1) i2 i1 getZ dW(1) W(1) dZ(1)
          g0_def[symmetric] s1 s2 loop[unfolded i2])
  with lenf okf N show ?thesis by simp
qed

text \<open>
  Whatever the helpers compute: a call of backpropagation that returns has run on at
  least two layers and has written both keys of every layer.
\<close>

lemma gradient_backpropagation_needs_two_layers:
  assumes "gradient_backpropagation c s X T = Inr r"
  shows "2 \<le> n_layers s"
proof (rule ccontr)
  assume "\<not> 2 \<le> n_layers s"
  then have empty: "py_range (n_layers s - 1) = []" by (simp add: py_range_def)
  from assms obtain fw where fw: "predict_onehot_train c s X = Inr fw"
    by (auto simp: gradient_backpropagation_def bindE_eq_Inr)
  then have "fst (snd fw) = []"
    unfolding predict_onehot_train_def empty by (auto simp: bindE_eq_Inr)
  with assms fw show False
    by (auto simp: gradient_backpropagation_def Let_def bindE_eq_Inr)
qed

lemma backprop_step_Inr:
  assumes run: "backprop_step c s X Zs As (int l) st = Inr st'" and l: "l < length (fst st)"
  shows "\<exists>db dW. fst st' = (fst st)[l := (fst st ! l)(''b'' \<mapsto> db, ''W'' \<mapsto> dW)]"
proof -
  from run obtain db dW g1 g2 where
    s1: "grads_set (fst st) (int l) ''b'' db = Inr g1" and
    s2: "grads_set g1 (int l) ''W'' dW = Inr g2" and
    st': "fst st' = g2"
    unfolding backprop_step_def Let_def by (auto simp: bindE_eq_Inr)
  from s1 grads_set_nat[OF l, of "''b''" db]
  have g1: "g1 = (fst st)[l := (fst st ! l)(''b'' \<mapsto> db)]" by simp
  then have "l < length g1" using l by simp
  from s2 grads_set_nat[OF this, of "''W''" dW]
  have "g2 = g1[l := (g1 ! l)(''W'' \<mapsto> dW)]" by simp
  with g1 l st' show ?thesis by auto
qed

lemma gradient_backpropagation_keys:
  fixes s :: "'a net"
  assumes run: "gradient_backpropagation c s X T = Inr (g, s')"
  shows "length g = nat (n_layers s) \<and> (\<forall>l<nat (n_layers s). dom (g ! l) = {''W'', ''b''})"
proof -
  from gradient_backpropagation_needs_two_layers[OF run] have n2: "2 \<le> n_layers s" .
  define k where "k = nat (n_layers s) - 2"
  have nl: "n_layers s = int (Suc (Suc k))" using n2 by (simp add: k_def)
  have N: "nat (n_layers s) = Suc (Suc k)" using nl by simp
  have i2: "n_layers s - 2 = int k" and i1: "n_layers s - 1 = int (Suc k)" using nl by simp_all
  define g0 where "g0 = (map (\<lambda>l. Map.empty) (py_range (n_layers s)) :: pdict list)"
  have len0: "length g0 = Suc (Suc k)" using N by (simp add: g0_def py_range_def)
  have empty0: "g0 ! j = Map.empty" if "j < Suc (Suc k)" for j
  proof -
    from that N have "j < length (py_range (n_layers s))" by (simp add: py_range_def)
    then show ?thesis unfolding g0_def by (rule nth_map)
  qed
  from run obtain Zs As db dW dA dZ g1 g2 st where
    s1: "grads_set g0 (int (Suc k)) ''b'' db = Inr g1" and
    s2: "grads_set g1 (int (Suc k)) ''W'' dW = Inr g2" and
    loop: "for_loop (py_range_down (int k) (- 1)) (backprop_step c s X Zs As) (g2, dA, dZ)
             = Inr st" and
    g: "g = fst st"
    unfolding gradient_backpropagation_def Let_def i2 i1 g0_def[symmetric]
    by (auto simp: bindE_eq_Inr)
  have lt0: "Suc k < length g0" using len0 by simp
  from s1 grads_set_nat[OF lt0, of "''b''" db]
  have g1: "g1 = g0[Suc k := (g0 ! Suc k)(''b'' \<mapsto> db)]" by simp
  then have lt1: "Suc k < length g1" using lt0 by simp
  from s2 grads_set_nat[OF lt1, of "''W''" dW]
  have "g2 = g1[Suc k := (g1 ! Suc k)(''W'' \<mapsto> dW)]" by simp
  with g1 lt0 empty0[of "Suc k"]
  have g2: "g2 = g0[Suc k := [''b'' \<mapsto> db, ''W'' \<mapsto> dW]]" by simp
  have len2: "length g2 = Suc (Suc k)" using len0 g2 by simp
  have last2: "dom (g2 ! Suc k) = {''W'', ''b''}" using g2 lt0 by auto
  have sub2: "dom (g2 ! j) \<subseteq> {''W'', ''b''}" if "j < Suc (Suc k)" for j
  proof (cases "j = Suc k")
    case True
    with last2 show ?thesis by simp
  next
    case False
    with g2 empty0[OF that] show ?thesis by simp
  qed
  let ?body = "backprop_step c s X Zs As"
  let ?Inv = "\<lambda>seen st.
      length (fst st) = Suc (Suc k) \<and>
      (\<forall>j<Suc (Suc k). dom (fst st ! j) \<subseteq> {''W'', ''b''}) \<and>
      (\<forall>j<Suc (Suc k). Suc k - length seen \<le> j \<longrightarrow> dom (fst st ! j) = {''W'', ''b''})"
  let ?is = "py_range_down (int k) (- 1)"
  have "(\<exists>st'. for_loop ?is ?body (g2, dA, dZ) = Inr st' \<and> ?Inv ?is st') \<or>
        (\<exists>e. for_loop ?is ?body (g2, dA, dZ) = Inl e \<and> True)"
  proof (rule for_loop_rule_err)
    have "dom (g2 ! j) = {''W'', ''b''}" if "j < Suc (Suc k)" "Suc k \<le> j" for j
    proof -
      from that have "j = Suc k" by simp
      with last2 show ?thesis by simp
    qed
    then show "?Inv [] (g2, dA, dZ)" using len2 sub2 by simp
  next
    fix seen :: "int list" and i rest and st :: "pdict list \<times> ndarray \<times> ndarray"
    assume split: "seen @ i # rest = ?is" and inv: "?Inv seen st"
    let ?q = "length seen"
    from py_range_down_split[OF split] have i: "i = int k - int ?q" and q: "?q \<le> k" by auto
    define l where "l = k - ?q"
    have il: "i = int l" and lq: "Suc k - ?q = Suc l" and l_lt: "l < Suc (Suc k)"
      using i q by (simp_all add: l_def)
    have lq': "Suc k - length (seen @ [i]) = l" using q by (simp add: l_def)
    from inv lq have leng: "length (fst st) = Suc (Suc k)"
      and subg: "\<forall>j<Suc (Suc k). dom (fst st ! j) \<subseteq> {''W'', ''b''}"
      and okg: "\<forall>j<Suc (Suc k). Suc l \<le> j \<longrightarrow> dom (fst st ! j) = {''W'', ''b''}"
      by simp_all
    show "(\<exists>st'. ?body i st = Inr st' \<and> ?Inv (seen @ [i]) st') \<or>
          (\<exists>e. ?body i st = Inl e \<and> True)"
    proof (cases "?body i st")
      case (Inl e)
      then show ?thesis by simp
    next
      case (Inr st')
      have ll: "l < length (fst st)" using l_lt leng by simp
      from backprop_step_Inr[OF Inr[unfolded il] ll] obtain db' dW' where
        st': "fst st' = (fst st)[l := (fst st ! l)(''b'' \<mapsto> db', ''W'' \<mapsto> dW')]" by blast
      have len': "length (fst st') = Suc (Suc k)" using st' leng by simp
      from subg l_lt have "dom (fst st ! l) \<subseteq> {''W'', ''b''}" by blast
      then have entry: "dom (fst st' ! l) = {''W'', ''b''}" using st' ll by auto
      have sub': "dom (fst st' ! j) \<subseteq> {''W'', ''b''}" if "j < Suc (Suc k)" for j
      proof (cases "j = l")
        case True
        with entry show ?thesis by simp
      next
        case False
        with st' subg that show ?thesis by simp
      qed
      have ok': "dom (fst st' ! j) = {''W'', ''b''}" if "j < Suc (Suc k)" "l \<le> j" for j
      proof (cases "j = l")
        case True
        with entry show ?thesis by simp
      next
        case False
        with that have "Suc l \<le> j" by simp
        with okg that(1) have "dom (fst st ! j) = {''W'', ''b''}" by blast
        with False st' show ?thesis by simp
      qed
      have "?Inv (seen @ [i]) st'" unfolding lq' using len' sub' ok' by simp
      with Inr show ?thesis by blast
    qed
  qed
  with loop have fin: "?Inv ?is st" by simp
  have lis: "length ?is = Suc k" by (simp add: py_range_down_def)
  from fin lis g N show ?thesis by simp
qed

text \<open>\<open>ConvolutionNet.gradient_backpropagation\<close> hands back \<open>None\<close> whenever it returns.\<close>

lemma conv_gradient_backpropagation_value:
  assumes "conv_gradient_backpropagation ops cs X T = Inr (r, cs')"
  shows "r = PyNone"
  using assms by (auto simp: conv_gradient_backpropagation_def bindE_eq_Inr)


section \<open>Running the example network\<close>

lemmas ref_defs = ref_common_def ref_forward_middle_def ref_forward_last_classification_def
  ref_affine_def ref_cross_entropy_error_def ref_squared_error_def ref_softmax_def softmax_row_def
  is_matrix_def is_vector_def nd_ok_def at2_def matrix_of_def map_nd_def nd_row_def
  same_matrix_shape_def ref_softmax_loss_backward_def ref_affine_backward_bias_def
  ref_affine_backward_weight_def ref_affine_backward_zprev_def ref_relu_backward_def
  ref_sigmoid_backward_def

lemmas eval_defs = py_range_def py_range_down_def param_get_def param_set_def py_get_def
  py_set_def dict_get_def Let_def upt_rec grads_set_def

lemma example_losses_return:
  "losses_return ref_common example_net example_X example_T 0 ''W''"
  "losses_return ref_common example_net example_X example_T 0 ''b''"
  "losses_return ref_common example_net example_X example_T 1 ''W''"
  "losses_return ref_common example_net example_X example_T 1 ''b''"
  by (simp_all add: losses_return_def store_param_def perturb_def py_index_def h_step_def
        loss_def predict_onehot_def example_net_def example_X_def example_T_def
        eval_defs ref_defs All_less_Suc)

lemma example_numerical_gradient_all_returns:
  "\<exists>grads. numerical_gradient_all ref_common example_net example_X example_T =
            Inr (grads, example_net)"
proof (rule numerical_gradient_all_returns)
  have "nat (n_layers example_net) = 2" by (simp add: example_net_def)
  then show "\<forall>l<nat (n_layers example_net).
          losses_return ref_common example_net example_X example_T (int l) ''W'' \<and>
          losses_return ref_common example_net example_X example_T (int l) ''b''"
    using example_losses_return by (simp add: All_less_Suc numeral_2_eq_2)
qed

lemma example_backpropagation_returns:
  "returns (gradient_backpropagation ref_common example_net example_X example_T)"
  by (simp add: gradient_backpropagation_def backprop_step_def predict_onehot_train_def
        example_net_def example_X_def example_T_def eval_defs ref_defs)

lemma example_aligned:
  "aligned example_grads (params example_net)" "aligned zero_grads (params example_net)"
  "all_ok example_grads" "all_ok zero_grads" "all_ok (params example_net)"
  "all_zero zero_grads" "length (params example_net) = nat (n_layers example_net)"
  by (auto simp: aligned_def all_ok_def all_zero_def example_grads_def zero_grads_def
        example_net_def nd_ok_def All_less_Suc numeral_2_eq_2)

lemma example_predictions:
  "predict_onehot ref_common (example_net\<lparr>one_hot_encoder := None\<rparr>) example_X = Inr example_Y"
  "\<exists>cs'. conv_predict_onehot dense_ops (example_convnet\<lparr>cn_one_hot_encoder := None\<rparr>) example_X
           = Inr (example_Y, cs')"
  by (simp_all add: predict_onehot_def conv_predict_onehot_def example_net_def example_convnet_def
        example_X_def example_Y_def dense_ops_def dense_forward_def new_dense_def
        eval_defs ref_defs)

lemma exp_m1_less_1: "exp (- 1 :: real) < 1"
  by simp

lemma example_argmax:
  "argmax_index example_Y 0 = 0" "argmax_index example_T 0 = 0" "argmax_index other_T 0 = 1"
  by (simp_all add: argmax_index_def argmax_row_def nd_row_def example_Y_def example_T_def
        other_T_def divide_less_cancel add_pos_pos)

lemmas conv_eval_defs = conv_init_def conv_initialize_parameters_def conv_initialize_optimizers_def
  dense_ops_def dense_initialize_parameters_def new_dense_def mismatched_layers_def
  fitting_layers_def mismatched_convnet_def fitting_convnet_def conv_weight_shapes_def

lemma example_conv_initialisations:
  "conv_initialize_parameters dense_ops mismatched_convnet = Inl ValueError"
  "conv_weight_shapes (conv_initialize_parameters dense_ops fitting_convnet) =
     Inr [Some [4, 5], Some [5, 3]]"
  by (simp_all add: conv_eval_defs eval_defs)

lemma example_conv_backpropagation:
  "returned_value (conv_gradient_backpropagation dense_ops example_convnet example_X example_T)
     = Inr PyNone"
  by (simp add: returned_value_def conv_gradient_backpropagation_def conv_predict_onehot_def
        layer_get_def layer_put_def example_convnet_def example_X_def example_T_def
        dense_ops_def dense_forward_def dense_backward_def dense_backward_last_def new_dense_def
        eval_defs ref_defs)

lemma example_shapes:
  "2 \<le> n_layers example_net" "length (params example_net) = nat (n_layers example_net)"
  "params_shaped [1, 1, 2] (params example_net)"
  "activation_function example_net \<in> {''relu'', ''sigmoid''}"
  "is_matrix example_X 1 ([1, 1, 2] ! 0)"
  "is_matrix example_T 1 ([1, 1, 2] ! nat (n_layers example_net))"
  by (simp_all add: example_net_def example_X_def example_T_def params_shaped_def
        is_matrix_def is_vector_def nd_ok_def All_less_Suc numeral_2_eq_2)


text \<open>The network of a single layer that the constructor builds over two features.\<close>

lemma single_layer_construction:
  "net_init two_feature_X two_labels 3 1 10 100 ''cross_entropy'' ''relu'' (1 / 10) (1 / 100)
     zero_rng =
   Inr (\<lparr> input_size = 2, output_size = 2, hidden_size = 3, n_layers = 1,
          learning_rate = 1 / 10, batch_size = 10, n_iter = 100,
          loss_type = ''cross_entropy'', activation_function = ''relu'',
          weight_init_std = 1 / 100,
          params = [[''W'' \<mapsto> NDArray [3, 2] [0, 0, 0, 0, 0, 0], ''b'' \<mapsto> NDArray [2] [0, 0]]],
          one_hot_encoder = None \<rparr>, zero_rng)"
  by (simp add: eval_defs net_init_def initialize_parameters_def two_feature_X_def
        two_labels_def zero_rng_def randn_def zeros_def scalar_mul_def py_range2_def fun_eq_iff)

section \<open>Layers that refuse the shape they are given\<close>

lemma dense_initialize_parameters_error:
  "dense_initialize_parameters ly shp = Inl e \<Longrightarrow> e = ValueError"
  by (auto simp: dense_initialize_parameters_def split: option.splits list.splits if_splits)

lemma dense_initialize_parameters_Inr:
  assumes "dense_initialize_parameters ly shp = Inr ly'"
  shows "dn_output_shape ly' = Some [dn_units ly] \<and>
         (dn_input_shape ly = None \<or> dn_input_shape ly = shp)"
  using assms
  by (auto simp: dense_initialize_parameters_def split: option.splits list.splits if_splits)

lemma dense_layer_loop_mismatch:
  assumes l: "Suc l < length ls0"
      and decl: "dn_input_shape (ls0 ! Suc l) = Some sh"
      and ne: "sh \<noteq> [dn_units (ls0 ! l)]"
  shows "for_loop (py_range (int (length ls0))) (conv_layer_body dense_ops) ls0 = Inl ValueError"
proof -
  let ?loop = "for_loop (py_range (int (length ls0))) (conv_layer_body dense_ops) ls0"
  have ops: "layer_initialize_parameters dense_ops = dense_initialize_parameters"
    "output_shape dense_ops = dn_output_shape"
    by (simp_all add: dense_ops_def)
  from conv_layer_loop[where ops = dense_ops and ?ls0.0 = ls0] show ?thesis
  proof
    assume "\<exists>ls. ?loop = Inr ls \<and> length ls = length ls0 \<and>
              (\<forall>j<length ls0.
                 layer_initialize_parameters dense_ops (ls0 ! j) (given_shape dense_ops ls0 ls j)
                   = Inr (ls ! j))"
    then obtain ls where each: "\<forall>j<length ls0.
         dense_initialize_parameters (ls0 ! j) (given_shape dense_ops ls0 ls j) = Inr (ls ! j)"
      unfolding ops by blast
    from each l have "dense_initialize_parameters (ls0 ! l) (given_shape dense_ops ls0 ls l)
                        = Inr (ls ! l)" by simp
    from dense_initialize_parameters_Inr[OF this]
    have out: "dn_output_shape (ls ! l) = Some [dn_units (ls0 ! l)]" by simp
    have given: "given_shape dense_ops ls0 ls (Suc l) = Some [dn_units (ls0 ! l)]"
      using out by (simp add: given_shape_def ops)
    from each l have "dense_initialize_parameters (ls0 ! Suc l)
                        (given_shape dense_ops ls0 ls (Suc l)) = Inr (ls ! Suc l)" by blast
    from dense_initialize_parameters_Inr[OF this] decl given ne show ?thesis by simp
  next
    assume "\<exists>e. ?loop = Inl e \<and>
              (\<exists>ly sh. layer_initialize_parameters dense_ops ly sh = Inl e)"
    then obtain e ly shp where e: "?loop = Inl e"
      and "dense_initialize_parameters ly shp = Inl e"
      unfolding ops by blast
    from dense_initialize_parameters_error[OF this(2)] e show ?thesis by simp
  qed
qed

lemma dense_mismatch_raises:
  fixes ds :: "('d, dense, optimizer_class \<times> pdict) convnet"
  assumes "Suc l < length (layers ds)"
      and "dn_input_shape (layers ds ! Suc l) = Some sh"
      and "sh \<noteq> [dn_units (layers ds ! l)]"
  shows "conv_initialize_parameters dense_ops ds = Inl ValueError"
proof -
  have "conv_initialize_parameters dense_ops ds =
      bindE (for_loop (py_range (int (length (layers ds)))) (conv_layer_body dense_ops) (layers ds))
        (\<lambda>ls. conv_initialize_optimizers dense_ops (ds\<lparr>layers := ls\<rparr>))"
    by (simp add: conv_initialize_parameters_def conv_layer_body_def)
  with dense_layer_loop_mismatch[OF assms] show ?thesis by simp
qed

lemma dense_mismatch_fails_construction:
  assumes "Suc l < length ls"
      and "dn_input_shape (ls ! Suc l) = Some sh"
      and "sh \<noteq> [dn_units (ls ! l)]"
  shows "\<exists>e. (conv_init dense_ops ls bs ni lt lr sv mo b1 b2 ep
                :: error + ('d, dense, optimizer_class \<times> pdict) convnet) = Inl e"
proof -
  let ?s = "\<lparr> layers = ls, cn_learning_rate = lr, cn_batch_size = bs, cn_n_iter = ni,
              cn_loss_type = lt, solver = sv, momentum = mo, beta_1 = b1, beta_2 = b2,
              epsilon = ep, cn_n_layers = None, optimizers = [],
              cn_one_hot_encoder = None \<rparr> :: ('d, dense, optimizer_class \<times> pdict) convnet"
  have "conv_initialize_parameters dense_ops ?s = Inl ValueError"
    by (rule dense_mismatch_raises[of l _ sh]) (use assms in simp_all)
  then show ?thesis by (simp add: conv_init_def Let_def)
qed

section \<open>The update on float64 components\<close>

lemmas f64_eval_defs = f64_update_parameters_def f64_isub_param_def f64_isub_def
  f64_scalar_mul_def f64_broadcast_to_def f64_component_def negative_zero_params_def
  negative_zero_grads_def positive_zero_grads_def f64_of_def

lemma f64_zero_gradient_keeps_value:
  assumes "f64_is_zero g" "f64_is_finite lr" "p \<noteq> F64_nan"
  shows "f64_eq (f64_sub p (f64_mul lr g)) p"
  using assms by (cases g; cases lr; cases p) (simp_all add: f64_of_def)

lemma f64_isub_same_shape:
  assumes "fa_shape g = fa_shape p" "length (fa_data g) = prod_list (fa_shape g)"
  shows "f64_isub p (f64_scalar_mul lr g) =
           Inr (FArray (fa_shape p) (map2 f64_sub (fa_data p) (map (f64_mul lr) (fa_data g))))"
  using assms by (simp add: f64_isub_def f64_scalar_mul_def f64_broadcast_to_def broadcast_data_same)

lemma f64_isub_zero_gradient:
  assumes sh: "fa_shape g = fa_shape p" "length (fa_data g) = prod_list (fa_shape g)"
              "length (fa_data p) = prod_list (fa_shape p)"
      and z: "\<forall>x\<in>set (fa_data g). f64_is_zero x"
      and lr: "f64_is_finite lr"
      and p: "F64_nan \<notin> set (fa_data p)"
  shows "\<exists>p'. f64_isub p (f64_scalar_mul lr g) = Inr p' \<and> fa_shape p' = fa_shape p \<and>
              list_all2 f64_eq (fa_data p') (fa_data p)"
proof -
  let ?d = "map2 f64_sub (fa_data p) (map (f64_mul lr) (fa_data g))"
  have len: "length (fa_data g) = length (fa_data p)" using sh by simp
  have "list_all2 f64_eq ?d (fa_data p)"
  proof (rule list_all2_all_nthI)
    show "length ?d = length (fa_data p)" using len by simp
  next
    fix i assume "i < length ?d"
    then have i: "i < length (fa_data p)" "i < length (fa_data g)" using len by simp_all
    then have mem: "fa_data g ! i \<in> set (fa_data g)" "fa_data p ! i \<in> set (fa_data p)"
      by simp_all
    from mem(1) z have "f64_is_zero (fa_data g ! i)" by blast
    moreover from mem(2) p have "fa_data p ! i \<noteq> F64_nan" by metis
    ultimately have "f64_is_zero (fa_data g ! i)" "fa_data p ! i \<noteq> F64_nan" by simp_all
    from f64_zero_gradient_keeps_value[OF this(1) lr this(2)] i
    show "f64_eq (?d ! i) (fa_data p ! i)" by simp
  qed
  with f64_isub_same_shape[OF sh(1,2), of lr] show ?thesis by simp
qed

section \<open>Backpropagation against the numerical gradient\<close>




















section \<open>The claims\<close>


text \<open>
  C2: for every layer index, parameter key and scalar component of that parameter, the
  numerical engine computes the partial derivative as the loss with that single
  component increased by \<open>h\<close>, minus the loss with it decreased by \<open>h\<close>, divided by
  \<open>2h\<close>, with \<open>h = 1e-4\<close> and all other components held fixed; after each component
  the original value of the parameter is back in place.
\<close>

theorem numerical_gradient_central_difference:
  assumes P: "param_get s l name = Inr P"
      and run: "numerical_gradient c s X T name l = Inr (G, s')"
  shows "nd_shape G = nd_shape P \<and> length (nd_data G) = length (nd_data P) \<and>
         (\<forall>idx<length (nd_data P). \<exists>s_plus s_minus f_plus f_minus.
            param_set s l name (perturb P idx (1 / 10000)) = Inr s_plus \<and>
            loss c s_plus X T = Inr f_plus \<and>
            param_set s l name (perturb P idx (- (1 / 10000))) = Inr s_minus \<and>
            loss c s_minus X T = Inr f_minus \<and>
            nd_data G ! idx = (f_plus - f_minus) / (2 * (1 / 10000))) \<and>
         (\<forall>idx<length (nd_data P). \<forall>g st.
            numerical_gradient_step c X T name l P idx (s, g) = Inr st \<longrightarrow> fst st = s) \<and>
         s' = s"
proof -
  let ?n = "length (nd_data P)"
  from run P obtain st where
    loop: "for_loop [0..<?n] (numerical_gradient_step c X T name l P) (s, replicate ?n 0) = Inr st"
    and G: "reshape (NDArray [?n] (snd st)) (nd_shape P) = Inr G" and s': "s' = fst st"
    by (auto simp: numerical_gradient_def Let_def bindE_eq_Inr ravel_def zeros_like_def)
  have L: "fst st = s \<and> length (snd st) = length (replicate ?n (0::real)) \<and>
         (\<forall>j. j \<notin> set [0..<?n] \<longrightarrow> snd st ! j = replicate ?n (0::real) ! j) \<and>
         (\<forall>idx\<in>set [0..<?n]. \<exists>f_plus f_minus.
            loss c (store_param s l name (perturb P idx h_step)) X T = Inr f_plus \<and>
            loss c (store_param s l name (perturb P idx (- h_step))) X T = Inr f_minus \<and>
            snd st ! idx = (f_plus - f_minus) / (2 * h_step))"
    by (rule numerical_gradient_loop[OF P _ _ _ loop]) auto
  from G have Gd: "nd_shape G = nd_shape P" "nd_data G = snd st"
    by (auto simp: reshape_def split: if_splits)
  have 1: "nd_shape G = nd_shape P" by (rule Gd)
  have 2: "length (nd_data G) = ?n" using Gd L by simp
  have 3: "\<forall>idx<?n. \<exists>s_plus s_minus f_plus f_minus.
            param_set s l name (perturb P idx (1 / 10000)) = Inr s_plus \<and>
            loss c s_plus X T = Inr f_plus \<and>
            param_set s l name (perturb P idx (- (1 / 10000))) = Inr s_minus \<and>
            loss c s_minus X T = Inr f_minus \<and>
            nd_data G ! idx = (f_plus - f_minus) / (2 * (1 / 10000))"
    using L Gd(2) by (auto simp: param_set_store[OF P] h_step_def)
  have 4: "\<forall>idx<?n. \<forall>g st.
            numerical_gradient_step c X T name l P idx (s, g) = Inr st \<longrightarrow> fst st = s"
    using numerical_gradient_step_char[OF P] by blast
  from 1 2 3 4 s' L show ?thesis by blast
qed

theorem numerical_gradient_central_difference_witness:
  "param_get example_net 0 ''b'' = Inr (NDArray [1] [0]) \<and>
   (\<exists>G s'. numerical_gradient ref_common example_net example_X example_T ''b'' 0 = Inr (G, s') \<and>
      nd_shape G = [1] \<and>
      (\<exists>s_plus s_minus f_plus f_minus.
            param_set example_net 0 ''b'' (NDArray [1] [1 / 10000]) = Inr s_plus \<and>
            loss ref_common s_plus example_X example_T = Inr f_plus \<and>
            param_set example_net 0 ''b'' (NDArray [1] [- (1 / 10000)]) = Inr s_minus \<and>
            loss ref_common s_minus example_X example_T = Inr f_minus \<and>
            nd_data G ! 0 = (f_plus - f_minus) / (2 * (1 / 10000))) \<and>
      s' = example_net)"
proof -
  have P: "param_get example_net 0 ''b'' = Inr (NDArray [1] [0])"
    by (simp add: example_net_def eval_defs)
  from losses_return_numerical_gradient[OF example_losses_return(2)] obtain G where
    run: "numerical_gradient ref_common example_net example_X example_T ''b'' 0 =
            Inr (G, example_net)"
    by blast
  from numerical_gradient_central_difference[OF P run] P run show ?thesis
    by (simp add: perturb_def)
qed

text \<open>
  C3: after a call of either gradient computation has returned, every weight matrix and
  bias vector in \<open>self.params\<close> is equal to what it was before the call, for every input
  batch and target batch.
\<close>

theorem gradient_computation_keeps_params:
  "(numerical_gradient_all c s X T = Inr (grads, s') \<longrightarrow> params s' = params s) \<and>
   (gradient_backpropagation c s X T = Inr (grads, s') \<longrightarrow> params s' = params s)"
proof (intro conjI impI)
  assume "numerical_gradient_all c s X T = Inr (grads, s')"
  from numerical_gradient_all_char[OF this] show "params s' = params s" by simp
next
  assume "gradient_backpropagation c s X T = Inr (grads, s')"
  then have "s' = s"
    by (auto simp: gradient_backpropagation_def Let_def bindE_eq_Inr)
  then show "params s' = params s" by simp
qed

theorem gradient_computation_keeps_params_witness:
  "(\<exists>grads s'. numerical_gradient_all ref_common example_net example_X example_T = Inr (grads, s') \<and>
      params s' = params example_net) \<and>
   (\<exists>grads s'. gradient_backpropagation ref_common example_net example_X example_T = Inr (grads, s') \<and>
      params s' = params example_net)"
proof -
  from example_numerical_gradient_all_returns obtain g1 where
    r1: "numerical_gradient_all ref_common example_net example_X example_T = Inr (g1, example_net)"
    by blast
  from example_backpropagation_returns obtain g2 s2 where
    r2: "gradient_backpropagation ref_common example_net example_X example_T = Inr (g2, s2)"
    by (auto simp: returns_iff)
  from gradient_computation_keeps_params[of ref_common example_net example_X example_T g1 example_net]
       gradient_computation_keeps_params[of ref_common example_net example_X example_T g2 s2]
       r1 r2
  show ?thesis by blast
qed

text \<open>
  C9 as the specification states it: with \<open>n_layers = 1\<close> the call of
  \<open>BackpropNeuralNet.gradient_backpropagation\<close> fails with an index error.  The
  constructor builds a network of a single layer with a weight matrix of \<open>hidden_size\<close>
  rows.  Over two features and three hidden neurons the forward pass multiplies a batch
  of two columns with a matrix of three rows, and the call ends there with a
  \<open>ValueError\<close>; the indexing of \<open>Z_intermediate\<close> is not reached.
\<close>

theorem single_layer_backpropagation_shape_error:
  "bindE (net_init two_feature_X two_labels 3 1 10 100 ''cross_entropy'' ''relu'' (1 / 10)
            (1 / 100) zero_rng) (\<lambda>sg. Inr (n_layers (fst sg))) = Inr 1 \<and>
   bindE (net_init two_feature_X two_labels 3 1 10 100 ''cross_entropy'' ''relu'' (1 / 10)
            (1 / 100) zero_rng)
     (\<lambda>sg. gradient_backpropagation ref_common (fst sg) two_feature_X two_T) = Inl ValueError \<and>
   bindE (net_init two_feature_X two_labels 3 1 10 100 ''cross_entropy'' ''relu'' (1 / 10)
            (1 / 100) zero_rng)
     (\<lambda>sg. gradient_backpropagation ref_common (fst sg) two_feature_X two_T) \<noteq> Inl IndexError"
  unfolding single_layer_construction
  by (simp add: gradient_backpropagation_def predict_onehot_train_def two_feature_X_def two_T_def
        eval_defs ref_defs)

text \<open>
  C9 as amended: \<open>BackpropNeuralNet.gradient_backpropagation\<close> is only defined for
  networks with \<open>n_layers \<ge> 2\<close>: with \<open>n_layers = 1\<close> the call never returns a gradient
  set.  When the forward pass and the two helper calls before the weight-gradient step
  of the output layer have returned, that step indexes the empty list of intermediate
  outputs, \<open>Z_intermediate[n_layers - 2]\<close>, and the call fails with an index error; an
  exception of the forward pass or of the helper calls ends the call earlier.
\<close>

theorem backpropagation_single_layer_fails:
  assumes "n_layers s = 1"
  shows "\<not> returns (gradient_backpropagation c s X T) \<and>
         (\<forall>Y Zs As dA db.
            predict_onehot_train c s X = Inr (Y, Zs, As) \<longrightarrow>
            softmax_loss_backward c Y T = Inr dA \<longrightarrow>
            affine_backward_bias c dA = Inr db \<longrightarrow>
              Zs = [] \<and> py_get Zs (n_layers s - 2) = Inl IndexError \<and>
              gradient_backpropagation c s X T = Inl IndexError)"
proof (intro conjI allI impI)
  show "\<not> returns (gradient_backpropagation c s X T)"
  proof
    assume "returns (gradient_backpropagation c s X T)"
    then obtain r where r: "gradient_backpropagation c s X T = Inr r"
      by (auto simp: returns_iff)
    then obtain fw where fw: "predict_onehot_train c s X = Inr fw"
      by (auto simp: gradient_backpropagation_def bindE_eq_Inr)
    obtain Y Zs As where "fw = (Y, Zs, As)" by (cases fw) auto
    with fw predict_onehot_train_single[OF assms] have "fst (snd fw) = []" by auto
    with r fw show False
      by (auto simp: gradient_backpropagation_def Let_def bindE_eq_Inr)
  qed
next
  fix Y Zs As dA db
  assume fw: "predict_onehot_train c s X = Inr (Y, Zs, As)"
     and sm: "softmax_loss_backward c Y T = Inr dA"
     and bi: "affine_backward_bias c dA = Inr db"
  from predict_onehot_train_single[OF assms fw] show "Zs = []" by simp
  then show "py_get Zs (n_layers s - 2) = Inl IndexError" by simp
  from fw sm bi \<open>Zs = []\<close> show "gradient_backpropagation c s X T = Inl IndexError"
    by (simp add: gradient_backpropagation_def Let_def)
qed

theorem backpropagation_single_layer_fails_witness:
  "n_layers single_layer_net = 1 \<and>
   (\<exists>Y Zs As dA db.
      predict_onehot_train ref_common single_layer_net example_X = Inr (Y, Zs, As) \<and>
      softmax_loss_backward ref_common Y example_T = Inr dA \<and>
      affine_backward_bias ref_common dA = Inr db) \<and>
   \<not> returns (gradient_backpropagation ref_common single_layer_net example_X example_T) \<and>
   gradient_backpropagation ref_common single_layer_net example_X example_T = Inl IndexError"
proof -
  have n: "n_layers single_layer_net = 1" by (simp add: single_layer_net_def)
  have ex: "\<exists>Y Zs As dA db.
      predict_onehot_train ref_common single_layer_net example_X = Inr (Y, Zs, As) \<and>
      softmax_loss_backward ref_common Y example_T = Inr dA \<and>
      affine_backward_bias ref_common dA = Inr db"
    by (simp add: predict_onehot_train_def single_layer_net_def example_X_def example_T_def
          eval_defs ref_defs)
  from backpropagation_single_layer_fails[OF n, of ref_common example_X example_T] n ex
  show ?thesis by blast
qed

text \<open>
  C5 as the specification states it: \<open>update_parameters\<close> with a gradient set of zeros
  leaves every parameter bit-identical.  A parameter \<open>-0.0\<close> and a gradient \<open>-0.0\<close>,
  which is a zero, give \<open>-0.0 - 0.1 * (-0.0) = +0.0\<close>: the sign bit of the parameter has
  changed.  With an infinite learning rate the product with a zero gradient is NaN, and
  so is the parameter after the update.
\<close>

theorem zero_gradient_update_changes_bits:
  "f64_component negative_zero_params 0 ''W'' 0 = Inr (F64_zero True) \<and>
   f64_component negative_zero_grads 0 ''W'' 0 = Inr (F64_zero True) \<and>
   f64_is_zero (F64_zero True) \<and>
   bindE (f64_update_parameters (F64_finite (1 / 10)) 1 negative_zero_params negative_zero_grads)
     (\<lambda>ps. f64_component ps 0 ''W'' 0) = Inr (F64_zero False) \<and>
   F64_zero False \<noteq> F64_zero True \<and>
   f64_component negative_zero_params 0 ''b'' 0 = Inr (F64_finite 1) \<and>
   bindE (f64_update_parameters (F64_inf False) 1 negative_zero_params positive_zero_grads)
     (\<lambda>ps. f64_component ps 0 ''b'' 0) = Inr F64_nan"
  by (simp add: f64_eval_defs eval_defs)

text \<open>
  C5 as amended: \<open>update_parameters\<close> applied to a gradient set subtracts
  \<open>learning_rate\<close> times the corresponding gradient, component by component, from the
  weight matrix and the bias vector of every layer; with a gradient set of zeros every
  parameter keeps its value.  A gradient set is aligned with the parameters, and the
  arrays are numpy arrays, which hold as many elements as their shape says.  On float64
  components the statement \<open>p -= learning_rate * g\<close>, for an array \<open>g\<close> of zeros of the
  shape of \<open>p\<close>, a finite learning rate and no NaN in \<open>p\<close>, keeps the shape of \<open>p\<close> and
  leaves every component equal to what it was under \<open>==\<close>, which does not tell the two
  zeros apart.
\<close>

theorem update_parameters_subtracts_scaled_gradient:
  assumes len: "length (params s) = nat (n_layers s)"
      and al: "aligned grads (params s)"
      and okg: "all_ok grads" and okp: "all_ok (params s)"
  shows "(\<exists>s'. update_parameters s grads = Inr s' \<and>
           s' = s\<lparr>params := params s'\<rparr> \<and>
           length (params s') = length (params s) \<and>
           (\<forall>l<length (params s). \<forall>k\<in>{''W'', ''b''}. \<exists>p g p'.
              (params s ! l) k = Some p \<and> (grads ! l) k = Some g \<and>
              (params s' ! l) k = Some p' \<and> nd_shape p' = nd_shape p \<and>
              length (nd_data p') = length (nd_data p) \<and>
              (\<forall>i<length (nd_data p).
                 nd_data p' ! i = nd_data p ! i - learning_rate s * nd_data g ! i)) \<and>
           (all_zero grads \<longrightarrow> s' = s)) \<and>
         (fa_shape ga = fa_shape pa \<and> length (fa_data ga) = prod_list (fa_shape ga) \<and>
          length (fa_data pa) = prod_list (fa_shape pa) \<and>
          (\<forall>x\<in>set (fa_data ga). f64_is_zero x) \<and> f64_is_finite eta \<and>
          F64_nan \<notin> set (fa_data pa) \<longrightarrow>
            (\<exists>pa'. f64_isub pa (f64_scalar_mul eta ga) = Inr pa' \<and>
               fa_shape pa' = fa_shape pa \<and> list_all2 f64_eq (fa_data pa') (fa_data pa)))"
proof -
  let ?lr = "learning_rate s"
  let ?ps = "map (\<lambda>dg. updated_dict ?lr (fst dg) (snd dg)) (zip (params s) grads)"
  from al have leng: "length grads = length (params s)" by (simp add: aligned_def)
  have fits: "\<forall>l<length (params s). layer_fits (params s ! l) (grads ! l)"
    using aligned_layer_fits[OF al okg] by blast
  have run: "update_parameters s grads = Inr (s\<lparr>params := ?ps\<rparr>)"
    by (rule update_parameters_char[OF len leng fits])
  have comp: "\<forall>l<length (params s). \<forall>k\<in>{''W'', ''b''}. \<exists>p g p'.
              (params s ! l) k = Some p \<and> (grads ! l) k = Some g \<and>
              (?ps ! l) k = Some p' \<and> nd_shape p' = nd_shape p \<and>
              length (nd_data p') = length (nd_data p) \<and>
              (\<forall>i<length (nd_data p). nd_data p' ! i = nd_data p ! i - ?lr * nd_data g ! i)"
  proof (intro allI impI ballI)
    fix l k assume l: "l < length (params s)" and k: "k \<in> {''W'', ''b''}"
    from fits l k obtain p g where
      pg: "(params s ! l) k = Some p" "(grads ! l) k = Some g" "nd_shape g = nd_shape p" "nd_ok g"
      unfolding layer_fits_def by blast
    from l have "params s ! l \<in> set (params s)" by simp
    with okp k pg(1) have okp': "nd_ok p" unfolding all_ok_def by blast
    have "?ps ! l = updated_dict ?lr (params s ! l) (grads ! l)" using l leng by simp
    then have p': "(?ps ! l) k = Some (sgd_updated ?lr p g)"
      using k pg by (auto simp: updated_dict_def)
    have "nd_shape (sgd_updated ?lr p g) = nd_shape p" by (simp add: sgd_updated_def)
    moreover have "length (nd_data (sgd_updated ?lr p g)) = length (nd_data p)"
      using pg okp' by (simp add: sgd_updated_def nd_ok_def)
    moreover have "\<forall>i<length (nd_data p).
        nd_data (sgd_updated ?lr p g) ! i = nd_data p ! i - ?lr * nd_data g ! i"
      using sgd_updated_nth[OF pg(3,4) okp'] by blast
    ultimately show "\<exists>p g p'.
              (params s ! l) k = Some p \<and> (grads ! l) k = Some g \<and>
              (?ps ! l) k = Some p' \<and> nd_shape p' = nd_shape p \<and>
              length (nd_data p') = length (nd_data p) \<and>
              (\<forall>i<length (nd_data p). nd_data p' ! i = nd_data p ! i - ?lr * nd_data g ! i)"
      using pg p' by blast
  qed
  have zero: "s\<lparr>params := ?ps\<rparr> = s" if z: "all_zero grads"
  proof -
    have "?ps = params s"
    proof (rule nth_equalityI)
      show "length ?ps = length (params s)" using leng by simp
    next
      fix l assume "l < length ?ps"
      then have l: "l < length (params s)" "l < length grads" using leng by simp_all
      then have mem: "params s ! l \<in> set (params s)" "grads ! l \<in> set grads" by simp_all
      have "updated_dict ?lr (params s ! l) (grads ! l) = params s ! l"
      proof (rule updated_dict_zero)
        show "layer_fits (params s ! l) (grads ! l)" using fits l by simp
        show "\<forall>k\<in>{''W'', ''b''}. \<forall>a. (params s ! l) k = Some a \<longrightarrow> nd_ok a"
          using okp mem unfolding all_ok_def by blast
        show "\<forall>k\<in>{''W'', ''b''}. \<forall>a. (grads ! l) k = Some a \<longrightarrow> (\<forall>x\<in>set (nd_data a). x = 0)"
          using z mem unfolding all_zero_def by blast
      qed
      with l show "?ps ! l = params s ! l" by simp
    qed
    then show ?thesis by simp
  qed
  have first: "\<exists>s'. update_parameters s grads = Inr s' \<and>
           s' = s\<lparr>params := params s'\<rparr> \<and>
           length (params s') = length (params s) \<and>
           (\<forall>l<length (params s). \<forall>k\<in>{''W'', ''b''}. \<exists>p g p'.
              (params s ! l) k = Some p \<and> (grads ! l) k = Some g \<and>
              (params s' ! l) k = Some p' \<and> nd_shape p' = nd_shape p \<and>
              length (nd_data p') = length (nd_data p) \<and>
              (\<forall>i<length (nd_data p).
                 nd_data p' ! i = nd_data p ! i - learning_rate s * nd_data g ! i)) \<and>
           (all_zero grads \<longrightarrow> s' = s)"
  proof (intro exI[of _ "s\<lparr>params := ?ps\<rparr>"] conjI)
    show "update_parameters s grads = Inr (s\<lparr>params := ?ps\<rparr>)" by (rule run)
    show "s\<lparr>params := ?ps\<rparr> = s\<lparr>params := params (s\<lparr>params := ?ps\<rparr>)\<rparr>" by simp
    show "length (params (s\<lparr>params := ?ps\<rparr>)) = length (params s)" using leng by simp
    show "\<forall>l<length (params s). \<forall>k\<in>{''W'', ''b''}. \<exists>p g p'.
              (params s ! l) k = Some p \<and> (grads ! l) k = Some g \<and>
              (params (s\<lparr>params := ?ps\<rparr>) ! l) k = Some p' \<and> nd_shape p' = nd_shape p \<and>
              length (nd_data p') = length (nd_data p) \<and>
              (\<forall>i<length (nd_data p).
                 nd_data p' ! i = nd_data p ! i - learning_rate s * nd_data g ! i)"
      using comp by simp
    show "all_zero grads \<longrightarrow> s\<lparr>params := ?ps\<rparr> = s" using zero by blast
  qed
  have second: "fa_shape ga = fa_shape pa \<and> length (fa_data ga) = prod_list (fa_shape ga) \<and>
          length (fa_data pa) = prod_list (fa_shape pa) \<and>
          (\<forall>x\<in>set (fa_data ga). f64_is_zero x) \<and> f64_is_finite eta \<and>
          F64_nan \<notin> set (fa_data pa) \<longrightarrow>
            (\<exists>pa'. f64_isub pa (f64_scalar_mul eta ga) = Inr pa' \<and>
               fa_shape pa' = fa_shape pa \<and> list_all2 f64_eq (fa_data pa') (fa_data pa))"
    using f64_isub_zero_gradient[of ga pa eta] by blast
  from first second show ?thesis by (rule conjI)
qed

theorem update_parameters_subtracts_scaled_gradient_witness:
  "length (params example_net) = nat (n_layers example_net) \<and>
   aligned example_grads (params example_net) \<and> all_ok example_grads \<and>
   aligned zero_grads (params example_net) \<and> all_ok zero_grads \<and> all_zero zero_grads \<and>
   all_ok (params example_net) \<and>
   update_parameters example_net zero_grads = Inr example_net \<and>
   (\<exists>s' p'. update_parameters example_net example_grads = Inr s' \<and>
      (params s' ! 1) ''b'' = Some p' \<and> nd_shape p' = [2] \<and>
      nd_data p' ! 0 = 0 - 1 / 10 * 5 \<and> nd_data p' ! 1 = 0 - 1 / 10 * 6) \<and>
   f64_is_zero (F64_zero True) \<and> f64_is_finite (F64_finite (1 / 10)) \<and>
   (\<exists>pa'. f64_isub (FArray [1, 1] [F64_zero True])
             (f64_scalar_mul (F64_finite (1 / 10)) (FArray [1, 1] [F64_zero True])) = Inr pa' \<and>
      fa_shape pa' = [1, 1] \<and> list_all2 f64_eq (fa_data pa') [F64_zero True])"
proof -
  note h = example_aligned
  note T0 = update_parameters_subtracts_scaled_gradient[OF h(7) h(2) h(4) h(5),
              of "FArray [1, 1] [F64_zero True]" "FArray [1, 1] [F64_zero True]"
                 "F64_finite (1 / 10)"]
  note T1 = update_parameters_subtracts_scaled_gradient[OF h(7) h(1) h(3) h(5),
              of "FArray [1, 1] [F64_zero True]" "FArray [1, 1] [F64_zero True]"
                 "F64_finite (1 / 10)"]
  from T0[THEN conjunct1] h(6)
  have z: "update_parameters example_net zero_grads = Inr example_net" by auto
  from T1[THEN conjunct1]
  obtain s' where
    run: "update_parameters example_net example_grads = Inr s'" and
    comp: "\<forall>l<length (params example_net). \<forall>k\<in>{''W'', ''b''}. \<exists>p g p'.
              (params example_net ! l) k = Some p \<and> (example_grads ! l) k = Some g \<and>
              (params s' ! l) k = Some p' \<and> nd_shape p' = nd_shape p \<and>
              length (nd_data p') = length (nd_data p) \<and>
              (\<forall>i<length (nd_data p).
                 nd_data p' ! i = nd_data p ! i - learning_rate example_net * nd_data g ! i)"
    by blast
  have "1 < length (params example_net)" by (simp add: example_net_def)
  with comp obtain p g p' where
    x: "(params example_net ! 1) ''b'' = Some p" "(example_grads ! 1) ''b'' = Some g"
       "(params s' ! 1) ''b'' = Some p'" "nd_shape p' = nd_shape p"
       "\<forall>i<length (nd_data p).
                 nd_data p' ! i = nd_data p ! i - learning_rate example_net * nd_data g ! i"
    by blast
  from x(1,2) have pg: "p = NDArray [2] [0, 0]" "g = NDArray [2] [5, 6]"
    by (simp_all add: example_net_def example_grads_def)
  have lr: "learning_rate example_net = 1 / 10" by (simp add: example_net_def)
  from x(5) pg lr have "nd_data p' ! 0 = 0 - 1 / 10 * 5" "nd_data p' ! 1 = 0 - 1 / 10 * 6"
    by (simp_all add: All_less_Suc numeral_2_eq_2)
  with h z run x(3,4) pg
  have real_part: "length (params example_net) = nat (n_layers example_net) \<and>
   aligned example_grads (params example_net) \<and> all_ok example_grads \<and>
   aligned zero_grads (params example_net) \<and> all_ok zero_grads \<and> all_zero zero_grads \<and>
   all_ok (params example_net) \<and>
   update_parameters example_net zero_grads = Inr example_net \<and>
   (\<exists>s' p'. update_parameters example_net example_grads = Inr s' \<and>
      (params s' ! 1) ''b'' = Some p' \<and> nd_shape p' = [2] \<and>
      nd_data p' ! 0 = 0 - 1 / 10 * 5 \<and> nd_data p' ! 1 = 0 - 1 / 10 * 6)"
    by auto
  from T0[THEN conjunct2]
  have float_part: "\<exists>pa'. f64_isub (FArray [1, 1] [F64_zero True])
             (f64_scalar_mul (F64_finite (1 / 10)) (FArray [1, 1] [F64_zero True])) = Inr pa' \<and>
      fa_shape pa' = [1, 1] \<and> list_all2 f64_eq (fa_data pa') [F64_zero True]"
    by simp
  have flags: "f64_is_zero (F64_zero True)" "f64_is_finite (F64_finite (1 / 10))" by simp_all
  from real_part flags float_part show ?thesis by (intro conjI) (elim conjE, assumption)+
qed

text \<open>
  C6: for every one-dimensional label vector over any finite set of distinct category
  values, encoding it to one-hot form with \<open>_one_hot_encoding\<close> and decoding the result
  with \<open>_one_hot_encoding_reverse\<close> gives the label vector back.  The vector has at
  least one label: the encoder refuses to fit no samples.
\<close>

theorem one_hot_round_trip:
  fixes xs :: "'a::linorder list"
  assumes "xs \<noteq> []"
  shows "\<exists>M enc'. one_hot_encoding enc (Labels xs) = Inr (M, enc') \<and>
                  one_hot_encoding_reverse enc' M = Inr xs"
proof -
  let ?cats = "sort (remdups xs)"
  let ?M = "NDArray [length xs, length ?cats]
              (concat (map (\<lambda>v. map (\<lambda>x. if x = v then (1::real) else 0) ?cats) xs))"
  let ?labels = "map (\<lambda>v. argmax_row (map (\<lambda>x. if x = v then (1::real) else 0) ?cats)) xs"
  have cats: "set ?cats = set xs" by simp
  with assms have ne: "?cats \<noteq> []" by (metis set_empty)
  have enc: "one_hot_encoding enc (Labels xs) = Inr (?M, Some [?cats])"
    by (rule one_hot_encoding_labels[OF assms])
  have lab: "argmax_axis1 ?M = Inr ?labels" by (rule one_hot_labels[OF ne])
  have each: "argmax_row (map (\<lambda>x. if x = v then (1::real) else 0) ?cats) < length ?cats \<and>
              ?cats ! argmax_row (map (\<lambda>x. if x = v then (1::real) else 0) ?cats) = v"
    if "v \<in> set xs" for v
    using that cats by (intro argmax_row_one_hot) simp
  have inrange: "\<forall>x\<in>set (?labels). x < length ?cats" using each by auto
  have decoded: "map (\<lambda>x. ?cats ! x) ?labels = xs"
    by (rule nth_equalityI) (simp_all add: each)
  have "?labels \<noteq> []" using assms by simp
  then have "one_hot_encoding_reverse (Some [?cats]) ?M = Inr xs"
    using lab inrange decoded by (simp add: one_hot_encoding_reverse_def py_get_def)
  with enc show ?thesis by blast
qed

theorem one_hot_round_trip_witness:
  "[2, 0, 2, 1 :: nat] \<noteq> [] \<and>
   (\<exists>M enc'. one_hot_encoding None (Labels [2, 0, 2, 1 :: nat]) = Inr (M, enc') \<and>
             one_hot_encoding_reverse enc' M = Inr [2, 0, 2, 1])"
  using one_hot_round_trip[of "[2, 0, 2, 1 :: nat]" None] by simp

text \<open>
  C7: for every non-empty test batch, \<open>accuracy\<close> returns the fraction of the rows
  whose predicted arg-max index equals the arg-max index of the target: exactly 1 when
  the two indices agree in every row and exactly 0 when they agree in none.  The
  prediction and the encoded target have one row per sample and at least one class.
\<close>

theorem accuracy_is_fraction_of_matching_rows:
  fixes s :: "('a::linorder) net" and cs :: "('b::linorder, 'l, 'o) convnet"
  assumes X: "nd_shape X = n # rest" "0 < n"
      and Y: "nd_shape Y = [n, k]" "0 < k"
      and T: "nd_shape T1 = [n, k']" "0 < k'"
  shows "(one_hot_encoding (one_hot_encoder s) T_test = Inr (T1, enc) \<longrightarrow>
          predict_onehot c (s\<lparr>one_hot_encoder := enc\<rparr>) X = Inr Y \<longrightarrow>
            accuracy c s X T_test = Inr (match_fraction n Y T1, s\<lparr>one_hot_encoder := enc\<rparr>)) \<and>
         (one_hot_encoding (cn_one_hot_encoder cs) T_test' = Inr (T1, enc') \<longrightarrow>
          conv_predict_onehot ops (cs\<lparr>cn_one_hot_encoder := enc'\<rparr>) X = Inr (Y, cs') \<longrightarrow>
            conv_accuracy ops cs X T_test' = Inr (match_fraction n Y T1, cs')) \<and>
         ((\<forall>i<n. argmax_index Y i = argmax_index T1 i) \<longrightarrow> match_fraction n Y T1 = 1) \<and>
         ((\<forall>i<n. argmax_index Y i \<noteq> argmax_index T1 i) \<longrightarrow> match_fraction n Y T1 = 0)"
proof -
  note av = accuracy_value_char[OF X Y T]
  have 1: "accuracy c s X T_test = Inr (match_fraction n Y T1, s\<lparr>one_hot_encoder := enc\<rparr>)"
    if "one_hot_encoding (one_hot_encoder s) T_test = Inr (T1, enc)"
       "predict_onehot c (s\<lparr>one_hot_encoder := enc\<rparr>) X = Inr Y"
    using that av by (simp add: accuracy_def Let_def)
  have 2: "conv_accuracy ops cs X T_test' = Inr (match_fraction n Y T1, cs')"
    if "one_hot_encoding (cn_one_hot_encoder cs) T_test' = Inr (T1, enc')"
       "conv_predict_onehot ops (cs\<lparr>cn_one_hot_encoder := enc'\<rparr>) X = Inr (Y, cs')"
    using that av by (simp add: conv_accuracy_def)
  from 1 2 match_fraction_all[OF X(2)] match_fraction_none show ?thesis by blast
qed

theorem accuracy_is_fraction_of_matching_rows_witness:
  "accuracy ref_common example_net example_X (Encoded example_T :: nat target) =
     Inr (1, example_net) \<and>
   accuracy ref_common example_net example_X (Encoded other_T :: nat target) =
     Inr (0, example_net) \<and>
   (\<exists>cs'. conv_accuracy dense_ops example_convnet example_X (Encoded example_T :: nat target) =
     Inr (1, cs')) \<and>
   (\<exists>cs'. conv_accuracy dense_ops example_convnet example_X (Encoded other_T :: nat target) =
     Inr (0, cs'))"
proof -
  have X: "nd_shape example_X = 1 # [1]" "0 < (1::nat)" by (simp_all add: example_X_def)
  have Y: "nd_shape example_Y = [1, 2]" "0 < (2::nat)" by (simp_all add: example_Y_def)
  have T: "nd_shape example_T = [1, 2]" "nd_shape other_T = [1, 2]"
    by (simp_all add: example_T_def other_T_def)
  have e1: "one_hot_encoding (one_hot_encoder example_net) (Encoded example_T :: nat target)
              = Inr (example_T, None)"
           "one_hot_encoding (one_hot_encoder example_net) (Encoded other_T :: nat target)
              = Inr (other_T, None)"
    by (simp_all add: one_hot_encoding_def example_net_def)
  have e2: "one_hot_encoding (cn_one_hot_encoder example_convnet) (Encoded example_T :: nat target)
              = Inr (example_T, None)"
           "one_hot_encoding (cn_one_hot_encoder example_convnet) (Encoded other_T :: nat target)
              = Inr (other_T, None)"
    by (simp_all add: one_hot_encoding_def example_convnet_def)
  have same: "example_net\<lparr>one_hot_encoder := None\<rparr> = example_net"
    by (simp add: example_net_def)
  from example_predictions(2) obtain cs' where
    cp: "conv_predict_onehot dense_ops (example_convnet\<lparr>cn_one_hot_encoder := None\<rparr>) example_X
           = Inr (example_Y, cs')" by blast
  have m: "\<forall>i<1. argmax_index example_Y i = argmax_index example_T i"
          "\<forall>i<1. argmax_index example_Y i \<noteq> argmax_index other_T i"
    using example_argmax by simp_all
  from accuracy_is_fraction_of_matching_rows[OF X Y T(1) Y(2),
         of example_net "Encoded example_T" None ref_common example_convnet "Encoded example_T"
            None dense_ops cs']
       accuracy_is_fraction_of_matching_rows[OF X Y T(2) Y(2),
         of example_net "Encoded other_T" None ref_common example_convnet "Encoded other_T"
            None dense_ops cs']
       e1 e2 example_predictions(1) cp m same
  show ?thesis by auto
qed

text \<open>
  C10: \<open>select_minibatch\<close> draws \<open>batch_size\<close> indices below the number of rows of the
  data set, with replacement, so the minibatch has exactly \<open>batch_size\<close> rows, also when
  \<open>batch_size\<close> exceeds the size of the data set, and may contain a sample more than
  once; row \<open>j\<close> of either result is the row of the input at the \<open>j\<close>-th index drawn.  The
  arguments are values and the results new arrays, so \<open>X\<close> and \<open>T\<close> are as they were.
  Every list of \<open>batch_size\<close> indices below the number of rows is a possible draw; how
  probable a draw is, is not part of the model.
\<close>

theorem select_minibatch_has_batch_size_rows:
  "(select_minibatch draws b X T = Inr (Xb, Tb) \<longrightarrow>
      0 \<le> b \<and>
      (\<exists>n restX m restT.
         nd_shape X = n # restX \<and> nd_shape T = m # restT \<and>
         nd_shape Xb = nat b # restX \<and> nd_shape Tb = nat b # restT \<and>
         (\<forall>j<nat b. draws j mod n < n \<and> draws j mod n < m \<and>
            (nd_ok X \<longrightarrow>
               nd_row (prod_list restX) Xb j = nd_row (prod_list restX) X (draws j mod n)) \<and>
            (nd_ok T \<longrightarrow>
               nd_row (prod_list restT) Tb j = nd_row (prod_list restT) T (draws j mod n))))) \<and>
   (0 \<le> b \<and> nd_shape X = n' # restX' \<and> 0 < n' \<and> nd_shape T = m' # restT' \<and> n' \<le> m' \<longrightarrow>
      returns (select_minibatch draws b X T)) \<and>
   (0 \<le> b \<and> length picks = nat b \<and> (\<forall>i\<in>set picks. i < n') \<longrightarrow>
      (\<exists>draws'. np_random_choice draws' n' b = Inr picks))"
proof (intro conjI impI)
  assume run: "select_minibatch draws b X T = Inr (Xb, Tb)"
  then obtain n picks where
    n: "py_get (nd_shape X) 0 = Inr n" and
    ch: "np_random_choice draws n b = Inr picks" and
    xb: "take_rows X picks = Inr Xb" and tb: "take_rows T picks = Inr Tb"
    by (auto simp: select_minibatch_def bindE_eq_Inr)
  from np_random_choice_Inr[OF ch] have b: "0 \<le> b" and
    picks: "picks = map (\<lambda>j. draws j mod n) [0..<nat b]" by simp_all
  show "0 \<le> b" by (rule b)
  from take_rows_Inr[OF xb] obtain n1 restX where
    X: "nd_shape X = n1 # restX" "\<forall>i\<in>set picks. i < n1"
       "Xb = NDArray (length picks # restX) (concat (map (\<lambda>i. nd_row (prod_list restX) X i) picks))"
    by blast
  from n X(1) have n1: "n1 = n" by (simp add: py_get_def)
  from take_rows_Inr[OF tb] obtain m restT where
    T: "nd_shape T = m # restT" "\<forall>i\<in>set picks. i < m"
       "Tb = NDArray (length picks # restT) (concat (map (\<lambda>i. nd_row (prod_list restT) T i) picks))"
    by blast
  have len: "length picks = nat b" using picks by simp
  have nth: "picks ! j = draws j mod n" if "j < nat b" for j using that picks by simp
  have rows: "draws j mod n < n \<and> draws j mod n < m \<and>
            (nd_ok X \<longrightarrow>
               nd_row (prod_list restX) Xb j = nd_row (prod_list restX) X (draws j mod n)) \<and>
            (nd_ok T \<longrightarrow>
               nd_row (prod_list restT) Tb j = nd_row (prod_list restT) T (draws j mod n))"
    if j: "j < nat b" for j
  proof -
    from j len have jm: "j < length picks" by simp
    then have mem: "picks ! j \<in> set picks" by simp
    have a: "draws j mod n < n" using X(2) mem nth[OF j] n1 by auto
    have b': "draws j mod n < m" using T(2) mem nth[OF j] by auto
    have c: "nd_row (prod_list restX) Xb j = nd_row (prod_list restX) X (draws j mod n)"
      if "nd_ok X"
      using take_rows_row[OF that X(1) X(2) jm] X(3) nth[OF j] by simp
    have d: "nd_row (prod_list restT) Tb j = nd_row (prod_list restT) T (draws j mod n)"
      if "nd_ok T"
      using take_rows_row[OF that T(1) T(2) jm] T(3) nth[OF j] by simp
    from a b' c d show ?thesis by blast
  qed
  show "\<exists>n restX m restT.
         nd_shape X = n # restX \<and> nd_shape T = m # restT \<and>
         nd_shape Xb = nat b # restX \<and> nd_shape Tb = nat b # restT \<and>
         (\<forall>j<nat b. draws j mod n < n \<and> draws j mod n < m \<and>
            (nd_ok X \<longrightarrow>
               nd_row (prod_list restX) Xb j = nd_row (prod_list restX) X (draws j mod n)) \<and>
            (nd_ok T \<longrightarrow>
               nd_row (prod_list restT) Tb j = nd_row (prod_list restT) T (draws j mod n)))"
    using X(1,3) T(1,3) n1 len rows by (intro exI[of _ n] exI[of _ restX] exI[of _ m] exI[of _ restT]) simp
next
  assume pre: "0 \<le> b \<and> nd_shape X = n' # restX' \<and> 0 < n' \<and> nd_shape T = m' # restT' \<and> n' \<le> m'"
  let ?picks = "map (\<lambda>j. draws j mod n') [0..<nat b]"
  have ch: "np_random_choice draws n' b = Inr ?picks"
    using pre by (simp add: np_random_choice_def)
  have inX: "\<forall>i\<in>set ?picks. i < n'" using pre by auto
  have inT: "\<forall>i\<in>set ?picks. i < m'"
  proof
    fix i assume "i \<in> set ?picks"
    with inX have "i < n'" by blast
    with pre show "i < m'" by simp
  qed
  from pre have X: "nd_shape X = n' # restX'" and T: "nd_shape T = m' # restT'" by simp_all
  have "py_get (nd_shape X) 0 = Inr n'" using X by (simp add: py_get_def)
  then show "returns (select_minibatch draws b X T)"
    using ch take_rows_char[OF X inX] take_rows_char[OF T inT]
    by (simp add: select_minibatch_def)
next
  assume "0 \<le> b \<and> length picks = nat b \<and> (\<forall>i\<in>set picks. i < n')"
  then have "np_random_choice (\<lambda>j. picks ! j) n' b = Inr picks"
    by (intro np_random_choice_any) simp_all
  then show "\<exists>draws'. np_random_choice draws' n' b = Inr picks" by blast
qed

theorem select_minibatch_has_batch_size_rows_witness:
  "select_minibatch counting_draws 3 two_X two_T =
     Inr (NDArray [3, 1] [10, 20, 10], NDArray [3, 2] [1, 0, 0, 1, 1, 0]) \<and>
   returns (select_minibatch counting_draws 3 two_X two_T) \<and>
   (\<exists>draws'. np_random_choice draws' 2 3 = Inr [1, 1, 0])"
proof -
  have run: "select_minibatch counting_draws 3 two_X two_T =
     Inr (NDArray [3, 1] [10, 20, 10], NDArray [3, 2] [1, 0, 0, 1, 1, 0])"
    by (simp add: select_minibatch_def np_random_choice_def take_rows_def nd_row_def
          counting_draws_def two_X_def two_T_def py_get_def upt_rec)
  have pre: "(0::int) \<le> 3 \<and> nd_shape two_X = 2 # [1] \<and> 0 < (2::nat) \<and>
               nd_shape two_T = 2 # [2] \<and> (2::nat) \<le> 2"
    by (simp add: two_X_def two_T_def)
  have picks: "(0::int) \<le> 3 \<and> length [1, 1, 0 :: nat] = nat 3 \<and> (\<forall>i\<in>set [1, 1, 0 :: nat]. i < 2)"
    by simp
  from select_minibatch_has_batch_size_rows[of counting_draws 3 two_X two_T
         "NDArray [3, 1] [10, 20, 10]" "NDArray [3, 2] [1, 0, 0, 1, 1, 0]" 2 "[1]" 2 "[2]"
         "[1, 1, 0]"]
       run pre picks
  show ?thesis by blast
qed

text \<open>
  C8: when the widths of adjacent layers are inconsistent (the output width of layer
  \<open>l\<close> differs from the input width that layer \<open>l + 1\<close> expects), construction and
  initialisation raise an error at once, and not only at the first forward call.  The
  layers of a \<open>ConvolutionNet\<close> are objects of classes that are missing from the sources:
  with dense layers, a network in which layer \<open>l + 1\<close> declares an input shape other
  than the output shape of layer \<open>l\<close> ends \<open>_initialize_parameters\<close> with the layer's
  \<open>ValueError\<close>, and the constructor with an exception.  \<open>_initialize_parameters\<close>
  hands every layer the \<open>output_shape\<close> of the layer before, and returns only when every
  layer has accepted the shape it was given.  The plain networks cannot be given
  inconsistent widths: for \<open>n_layers \<ge> 2\<close> and a hidden width that is not negative,
  \<open>_initialize_parameters\<close> returns and lays every layer out from \<open>input_size\<close>,
  \<open>hidden_size\<close> and \<open>output_size\<close>, so that the output width of a layer is the input
  width of the next.
\<close>

theorem inconsistent_widths_raise_at_initialization:
  fixes s :: "'a net" and ops :: "('l, 'o) layer_ops" and cs :: "('b, 'l, 'o) convnet"
    and ds :: "('d, dense, optimizer_class \<times> pdict) convnet"
  shows "(Suc l < length (layers ds) \<and>
          input_shape dense_ops (layers ds ! Suc l) = Some sh \<and>
          sh \<noteq> [dn_units (layers ds ! l)] \<longrightarrow>
            conv_initialize_parameters dense_ops ds = Inl ValueError \<and>
            (\<exists>e. (conv_init dense_ops (layers ds) bs ni lt lr sv mo b1 b2 ep
                    :: error + ('d, dense, optimizer_class \<times> pdict) convnet) = Inl e)) \<and>
         (conv_initialize_parameters ops cs = Inr cs' \<longrightarrow>
            length (layers cs') = length (layers cs) \<and>
            (\<forall>j<length (layers cs).
               layer_initialize_parameters ops (layers cs ! j)
                 (given_shape ops (layers cs) (layers cs') j) = Inr (layers cs' ! j))) \<and>
         (2 \<le> n_layers s \<and> 0 \<le> hidden_size s \<longrightarrow>
            (\<exists>ps g'. initialize_parameters s g = Inr (s\<lparr>params := ps\<rparr>, g') \<and>
               length ps = nat (n_layers s) \<and> params_shaped (layer_widths s) ps))"
proof (intro conjI impI)
  assume a: "Suc l < length (layers ds) \<and>
          input_shape dense_ops (layers ds ! Suc l) = Some sh \<and>
          sh \<noteq> [dn_units (layers ds ! l)]"
  then have l: "Suc l < length (layers ds)"
    and decl: "dn_input_shape (layers ds ! Suc l) = Some sh"
    and ne: "sh \<noteq> [dn_units (layers ds ! l)]"
    by (simp_all add: dense_ops_def)
  from dense_mismatch_raises[OF l decl ne]
  show "conv_initialize_parameters dense_ops ds = Inl ValueError" .
  from dense_mismatch_fails_construction[OF l decl ne]
  show "\<exists>e. (conv_init dense_ops (layers ds) bs ni lt lr sv mo b1 b2 ep
                :: error + ('d, dense, optimizer_class \<times> pdict) convnet) = Inl e" .
next
  assume run: "conv_initialize_parameters ops cs = Inr cs'"
  with conv_initialize_parameters_cases[of ops cs] obtain ls opts where
    cs': "cs' = cs\<lparr>layers := ls, optimizers := opts\<rparr>" and len: "length ls = length (layers cs)"
    and each: "\<forall>j<length (layers cs).
         layer_initialize_parameters ops (layers cs ! j) (given_shape ops (layers cs) ls j)
           = Inr (ls ! j)"
    by auto
  from cs' have l: "layers cs' = ls" by simp
  show "length (layers cs') = length (layers cs)" using l len by simp
  show "\<forall>j<length (layers cs).
               layer_initialize_parameters ops (layers cs ! j)
                 (given_shape ops (layers cs) (layers cs') j) = Inr (layers cs' ! j)"
    using l each by simp
next
  assume "2 \<le> n_layers s \<and> 0 \<le> hidden_size s"
  then show "\<exists>ps g'. initialize_parameters s g = Inr (s\<lparr>params := ps\<rparr>, g') \<and>
               length ps = nat (n_layers s) \<and> params_shaped (layer_widths s) ps"
    using initialize_parameters_shapes[of s g] by blast
qed

theorem inconsistent_widths_raise_at_initialization_witness:
  "(Suc 0 < length (layers mismatched_convnet) \<and>
    input_shape dense_ops (layers mismatched_convnet ! Suc 0) = Some [7] \<and>
    [7] \<noteq> [dn_units (layers mismatched_convnet ! 0)]) \<and>
   conv_initialize_parameters dense_ops mismatched_convnet = Inl ValueError \<and>
   (\<exists>e. (conv_init dense_ops (layers mismatched_convnet) 10 100 ''cross_entropy'' (1 / 10)
            ''sgd'' (9 / 10) (9 / 10) (999 / 1000) (1 / 10 ^ 8)
            :: error + (nat, dense, optimizer_class \<times> pdict) convnet) = Inl e) \<and>
   (\<exists>cs'. conv_initialize_parameters dense_ops fitting_convnet = Inr cs' \<and>
      length (layers cs') = 2 \<and>
      dense_initialize_parameters (fitting_layers ! 1) (dn_output_shape (layers cs' ! 0))
        = Inr (layers cs' ! 1)) \<and>
   (2 \<le> n_layers example_net \<and> 0 \<le> hidden_size example_net) \<and>
   (\<exists>ps g'. initialize_parameters example_net zero_rng = Inr (example_net\<lparr>params := ps\<rparr>, g') \<and>
      length ps = 2 \<and> params_shaped [1, 1, 2] ps)"
proof -
  have h0: "Suc 0 < length (layers mismatched_convnet) \<and>
            input_shape dense_ops (layers mismatched_convnet ! Suc 0) = Some [7] \<and>
            [7] \<noteq> [dn_units (layers mismatched_convnet ! 0)]"
    by (simp add: mismatched_convnet_def mismatched_layers_def dense_ops_def new_dense_def)
  have h1: "2 \<le> n_layers example_net \<and> 0 \<le> hidden_size example_net"
    by (simp add: example_net_def)
  have w: "layer_widths example_net = [1, 1, 2]" "nat (n_layers example_net) = 2"
    by (simp_all add: layer_widths_def example_net_def)
  have "returns (conv_initialize_parameters dense_ops fitting_convnet)"
    using example_conv_initialisations(2)
    by (cases "conv_initialize_parameters dense_ops fitting_convnet")
       (simp_all add: conv_weight_shapes_def)
  then obtain cs' where
    h2: "conv_initialize_parameters dense_ops fitting_convnet = Inr cs'"
    by (auto simp: returns_iff)
  have ops: "layer_initialize_parameters dense_ops = dense_initialize_parameters"
    "layers fitting_convnet = fitting_layers"
    "given_shape dense_ops fitting_layers (layers cs') 1 = dn_output_shape (layers cs' ! 0)"
    by (simp_all add: dense_ops_def fitting_convnet_def mismatched_convnet_def given_shape_def)
  have len: "length fitting_layers = 2" by (simp add: fitting_layers_def)
  note T = inconsistent_widths_raise_at_initialization[of 0 mismatched_convnet "[7]"
         10 100 "''cross_entropy''" "1 / 10" "''sgd''" "9 / 10" "9 / 10" "999 / 1000" "1 / 10 ^ 8"
         dense_ops fitting_convnet cs' example_net zero_rng]
  from T h0
  have a: "conv_initialize_parameters dense_ops mismatched_convnet = Inl ValueError"
    and a': "\<exists>e. (conv_init dense_ops (layers mismatched_convnet) 10 100 ''cross_entropy''
            (1 / 10) ''sgd'' (9 / 10) (9 / 10) (999 / 1000) (1 / 10 ^ 8)
            :: error + (nat, dense, optimizer_class \<times> pdict) convnet) = Inl e"
    by blast+
  from T h2
  have bc: "length (layers cs') = length (layers fitting_convnet) \<and>
            (\<forall>j<length (layers fitting_convnet).
               layer_initialize_parameters dense_ops (layers fitting_convnet ! j)
                 (given_shape dense_ops (layers fitting_convnet) (layers cs') j)
                 = Inr (layers cs' ! j))"
    by blast
  from bc ops(2) len have b: "length (layers cs') = 2" by simp
  have "(1::nat) < length (layers fitting_convnet)" using ops(2) len by simp
  with bc have "layer_initialize_parameters dense_ops (layers fitting_convnet ! 1)
                 (given_shape dense_ops (layers fitting_convnet) (layers cs') 1)
                 = Inr (layers cs' ! 1)"
    by blast
  then have c: "dense_initialize_parameters (fitting_layers ! 1) (dn_output_shape (layers cs' ! 0))
        = Inr (layers cs' ! 1)"
    by (simp only: ops)
  from T h1 w
  have d: "\<exists>ps g'. initialize_parameters example_net zero_rng = Inr (example_net\<lparr>params := ps\<rparr>, g') \<and>
      length ps = 2 \<and> params_shaped [1, 1, 2] ps"
    by simp
  have e: "\<exists>cs'. conv_initialize_parameters dense_ops fitting_convnet = Inr cs' \<and>
      length (layers cs') = 2 \<and>
      dense_initialize_parameters (fitting_layers ! 1) (dn_output_shape (layers cs' ! 0))
        = Inr (layers cs' ! 1)"
    using h2 b c by blast
  show ?thesis
  proof (intro conjI)
    show "Suc 0 < length (layers mismatched_convnet)" using h0 by simp
    show "input_shape dense_ops (layers mismatched_convnet ! Suc 0) = Some [7]" using h0 by simp
    show "[7] \<noteq> [dn_units (layers mismatched_convnet ! 0)]" using h0 by simp
    show "conv_initialize_parameters dense_ops mismatched_convnet = Inl ValueError" by (rule a)
    show "\<exists>e. (conv_init dense_ops (layers mismatched_convnet) 10 100 ''cross_entropy''
            (1 / 10) ''sgd'' (9 / 10) (9 / 10) (999 / 1000) (1 / 10 ^ 8)
            :: error + (nat, dense, optimizer_class \<times> pdict) convnet) = Inl e" by (rule a')
    show "\<exists>cs'. conv_initialize_parameters dense_ops fitting_convnet = Inr cs' \<and>
      length (layers cs') = 2 \<and>
      dense_initialize_parameters (fitting_layers ! 1) (dn_output_shape (layers cs' ! 0))
        = Inr (layers cs' ! 1)" by (rule e)
    show "2 \<le> n_layers example_net" using h1 by simp
    show "0 \<le> hidden_size example_net" using h1 by simp
    show "\<exists>ps g'. initialize_parameters example_net zero_rng = Inr (example_net\<lparr>params := ps\<rparr>, g') \<and>
      length ps = 2 \<and> params_shaped [1, 1, 2] ps" by (rule d)
  qed
qed

text \<open>
  C4 as the specification states it: every gradient engine returns a gradient set
  aligned with the parameter store, \<open>ConvolutionNet.gradient_backpropagation\<close> among
  them.  That method has no \<open>return\<close> statement: on a network of one dense output
  layer it returns \<open>None\<close>, which is no gradient set.
\<close>

theorem conv_gradient_backpropagation_returns_none:
  "returned_value (conv_gradient_backpropagation dense_ops example_convnet example_X example_T)
     = Inr PyNone \<and>
   \<not> aligned_result PyNone (map (layer_params dense_ops) (layers example_convnet))"
  using example_conv_backpropagation by (simp add: aligned_result_def)

text \<open>
  C4 as amended.  Whenever \<open>SGDNeuralNet.numerical_gradient_all\<close> returns on a network
  with one parameter dictionary per layer, its result is aligned with the parameter
  store: one entry per layer, in the order of the layers, each with exactly the keys
  \<open>'W'\<close> and \<open>'b'\<close> and arrays of the shapes of that layer's weight matrix and bias
  vector.  \<open>BackpropNeuralNet.gradient_backpropagation\<close> returns such a result, and the
  object unchanged, when the helpers keep the shapes of section 4.1, the network has at
  least two layers with parameters of the widths \<open>ws\<close>, the activation is \<open>'relu'\<close> or
  \<open>'sigmoid'\<close>, and the batch and the targets have the first and the last width; with
  any helpers, a call of it that returns has run on at least two layers and returns one
  entry per layer, each with exactly the keys \<open>'W'\<close> and \<open>'b'\<close>.
  \<open>ConvolutionNet.gradient_backpropagation\<close> returns \<open>None\<close> whenever it returns: its
  gradients stay in the layers.
\<close>

theorem gradient_sets_aligned_with_params:
  fixes s :: "'a net" and ops :: "('l, 'o) layer_ops" and cs :: "('b, 'l, 'o) convnet"
  shows "(numerical_gradient_all c s X T = Inr (grads, s') \<and>
          length (params s) = nat (n_layers s) \<longrightarrow> aligned grads (params s)) \<and>
         (shape_contract c \<and> 2 \<le> n_layers s \<and> length (params s) = nat (n_layers s) \<and>
          params_shaped ws (params s) \<and> activation_function s \<in> {''relu'', ''sigmoid''} \<and>
          is_matrix X m (ws ! 0) \<and> is_matrix T m (ws ! nat (n_layers s)) \<longrightarrow>
            (\<exists>g. gradient_backpropagation c s X T = Inr (g, s) \<and> aligned g (params s))) \<and>
         (gradient_backpropagation c s X T = Inr (g', s'') \<longrightarrow>
            2 \<le> n_layers s \<and> length g' = nat (n_layers s) \<and>
            (\<forall>l<nat (n_layers s). dom (g' ! l) = {''W'', ''b''})) \<and>
         (conv_gradient_backpropagation ops cs X' T' = Inr (r, cs') \<longrightarrow>
            r = PyNone \<and> \<not> aligned_result r ps)"
proof (intro conjI impI)
  assume a: "numerical_gradient_all c s X T = Inr (grads, s') \<and>
             length (params s) = nat (n_layers s)"
  then have run: "numerical_gradient_all c s X T = Inr (grads, s')"
    and len: "length (params s) = nat (n_layers s)" by simp_all
  from numerical_gradient_all_char[OF run]
  have "length grads = nat (n_layers s)"
    and "\<forall>l<nat (n_layers s). layer_grads_ok s (int l) Map.empty (grads ! l)" by simp_all
  with len show "aligned grads (params s)" by (intro layer_grads_ok_aligned) simp_all
next
  assume a: "shape_contract c \<and> 2 \<le> n_layers s \<and> length (params s) = nat (n_layers s) \<and>
          params_shaped ws (params s) \<and> activation_function s \<in> {''relu'', ''sigmoid''} \<and>
          is_matrix X m (ws ! 0) \<and> is_matrix T m (ws ! nat (n_layers s))"
  then have c: "shape_contract c" and n: "2 \<le> n_layers s" "length (params s) = nat (n_layers s)"
    and ps: "params_shaped ws (params s)"
    and act: "activation_function s \<in> {''relu'', ''sigmoid''}"
    and X: "is_matrix X m (ws ! 0)" and T: "is_matrix T m (ws ! nat (n_layers s))"
    by simp_all
  from gradient_backpropagation_shapes[OF c n ps act X T] obtain g where
    run: "gradient_backpropagation c s X T = Inr (g, s)" and
    len: "length g = nat (n_layers s)" and
    each: "\<forall>j<nat (n_layers s). grad_entry_ok ws j (g ! j)" by blast
  have "aligned g (params s)"
    using ps len each n(2) by (intro grad_entry_ok_aligned[of ws]) simp_all
  with run show "\<exists>g. gradient_backpropagation c s X T = Inr (g, s) \<and> aligned g (params s)"
    by blast
next
  assume run: "gradient_backpropagation c s X T = Inr (g', s'')"
  from gradient_backpropagation_needs_two_layers[OF run] show "2 \<le> n_layers s" .
  from gradient_backpropagation_keys[OF run] show "length g' = nat (n_layers s)"
    and "\<forall>l<nat (n_layers s). dom (g' ! l) = {''W'', ''b''}" by simp_all
next
  assume "conv_gradient_backpropagation ops cs X' T' = Inr (r, cs')"
  from conv_gradient_backpropagation_value[OF this] show "r = PyNone" .
  then show "\<not> aligned_result r ps" by (simp add: aligned_result_def)
qed

theorem gradient_sets_aligned_with_params_witness:
  "(shape_contract ref_common \<and> 2 \<le> n_layers example_net \<and>
    params_shaped [1, 1, 2] (params example_net)) \<and>
   (\<exists>grads. numerical_gradient_all ref_common example_net example_X example_T =
              Inr (grads, example_net) \<and> aligned grads (params example_net)) \<and>
   (\<exists>g. gradient_backpropagation ref_common example_net example_X example_T =
              Inr (g, example_net) \<and> aligned g (params example_net) \<and>
              length g = 2 \<and> dom (g ! 0) = {''W'', ''b''} \<and> dom (g ! 1) = {''W'', ''b''}) \<and>
   (\<exists>cs'. conv_gradient_backpropagation dense_ops example_convnet example_X example_T =
              Inr (PyNone, cs'))"
proof -
  from example_numerical_gradient_all_returns obtain g1 where
    r1: "numerical_gradient_all ref_common example_net example_X example_T = Inr (g1, example_net)"
    by blast
  from example_backpropagation_returns obtain g2 s2 where
    r2: "gradient_backpropagation ref_common example_net example_X example_T = Inr (g2, s2)"
    by (auto simp: returns_iff)
  have "returns (conv_gradient_backpropagation dense_ops example_convnet example_X example_T)"
    using example_conv_backpropagation
    by (cases "conv_gradient_backpropagation dense_ops example_convnet example_X example_T")
       (simp_all add: returned_value_def)
  then obtain r cs' where
    r3: "conv_gradient_backpropagation dense_ops example_convnet example_X example_T = Inr (r, cs')"
    by (auto simp: returns_iff)
  note T = gradient_sets_aligned_with_params[of ref_common example_net example_X example_T g1
             example_net "[1, 1, 2]" 1 g2 s2 dense_ops example_convnet example_X example_T r cs']
  note sh = example_shapes
  have n: "nat (n_layers example_net) = 2" by (simp add: example_net_def)
  from T r1 sh(2) have a: "aligned g1 (params example_net)" by blast
  from T ref_common_shape_contract sh
  have "\<exists>g. gradient_backpropagation ref_common example_net example_X example_T =
              Inr (g, example_net) \<and> aligned g (params example_net)" by blast
  with r2 have b: "s2 = example_net" "aligned g2 (params example_net)" by auto
  from T r2 have "length g2 = nat (n_layers example_net) \<and>
            (\<forall>l<nat (n_layers example_net). dom (g2 ! l) = {''W'', ''b''})" by blast
  then have k: "length g2 = 2" "dom (g2 ! 0) = {''W'', ''b''}" "dom (g2 ! 1) = {''W'', ''b''}"
    unfolding n by simp_all
  from T r3 have "r = PyNone" by blast
  with r3 have c: "\<exists>cs'. conv_gradient_backpropagation dense_ops example_convnet example_X
                      example_T = Inr (PyNone, cs')" by blast
  from r2 b k
  have b': "\<exists>g. gradient_backpropagation ref_common example_net example_X example_T =
              Inr (g, example_net) \<and> aligned g (params example_net) \<and>
              length g = 2 \<and> dom (g ! 0) = {''W'', ''b''} \<and> dom (g ! 1) = {''W'', ''b''}"
    by blast
  have a': "\<exists>grads. numerical_gradient_all ref_common example_net example_X example_T =
              Inr (grads, example_net) \<and> aligned grads (params example_net)"
    using r1 a by blast
  show ?thesis
  proof (intro conjI)
    show "shape_contract ref_common" by (rule ref_common_shape_contract)
    show "2 \<le> n_layers example_net" by (rule sh(1))
    show "params_shaped [1, 1, 2] (params example_net)" by (rule sh(3))
    show "\<exists>grads. numerical_gradient_all ref_common example_net example_X example_T =
              Inr (grads, example_net) \<and> aligned grads (params example_net)"
      by (rule a')
    show "\<exists>g. gradient_backpropagation ref_common example_net example_X example_T =
              Inr (g, example_net) \<and> aligned g (params example_net) \<and>
              length g = 2 \<and> dom (g ! 0) = {''W'', ''b''} \<and> dom (g ! 1) = {''W'', ''b''}"
      by (rule b')
    show "\<exists>cs'. conv_gradient_backpropagation dense_ops example_convnet example_X example_T =
              Inr (PyNone, cs')"
      by (rule c)
  qed
qed

end
